theory Spec2Isabelle
  imports Complex_Main "HOL-Library.Monad_Syntax"
begin

section \<open>Tokens\<close>

text \<open>
  The token kinds of \<^verbatim>\<open>TokenType\<close> and the \<^verbatim>\<open>Token\<close> interface of
  \<^verbatim>\<open>src/lib/parser.ts\<close>. Source text is a \<^typ>\<open>string\<close>; an offset is a
  \<^typ>\<open>nat\<close>. The fields carry the prefix \<open>tk_\<close> because the syntax-tree
  node and the parse error have fields of the same names.
\<close>

datatype TokenType =
    NUMBER | OPERATOR | LPAREN | RPAREN | EOF | INVALID | KEYWORD | IDENTIFIER
  | SEMICOLON | LBRACE | RBRACE | COMMA | ASSIGN | COMPARISON | LOGICAL
  | INCREMENT | DECREMENT | COMPOUND_ASSIGN | LBRACKET | RBRACKET | STRING
  | CHAR' | PREPROCESSOR | DOT | ARROW | AMPERSAND

record Token =
  tk_type :: TokenType
  tk_value :: string
  tk_position :: nat

section \<open>Lexer\<close>

definition keywordSet :: "string list" where
  "keywordSet =
    [''int'', ''float'', ''char'', ''void'', ''if'', ''else'', ''while'', ''for'',
     ''return'', ''break'', ''continue'', ''struct'', ''const'', ''do'', ''switch'',
     ''case'', ''default'', ''double'', ''long'', ''short'', ''unsigned'', ''signed'',
     ''sizeof'', ''static'', ''extern'', ''auto'', ''register'', ''enum'', ''union'',
     ''typedef'', ''volatile'', ''goto'']"

text \<open>
  The character classes of the regular expressions \<^verbatim>\<open>/\s/\<close>, \<^verbatim>\<open>/\d/\<close>,
  \<^verbatim>\<open>/[a-zA-Z_]/\<close> and \<^verbatim>\<open>/[a-zA-Z0-9_]/\<close>. A \<^typ>\<open>char\<close> is one of 256 code
  units, so of the white space of \<^verbatim>\<open>\s\<close> and \<^verbatim>\<open>String.prototype.trim\<close> the
  model has tab, line feed, vertical tab, form feed, carriage return, space and
  the no-break space U+00A0.
\<close>

definition isSpace :: "char \<Rightarrow> bool" where
  "isSpace c = (c \<in> set [CHR 0x09, CHR 0x0A, CHR 0x0B, CHR 0x0C, CHR 0x0D, CHR 0x20, CHR 0xA0])"

definition isDigit :: "char \<Rightarrow> bool" where
  "isDigit c = (c \<in> set ''0123456789'')"

definition isIdentStart :: "char \<Rightarrow> bool" where
  "isIdentStart c = (c \<in> set ''abcdefghijklmnopqrstuvwxyzABCDEFGHIJKLMNOPQRSTUVWXYZ_'')"

definition isIdentPart :: "char \<Rightarrow> bool" where
  "isIdentPart c = (isIdentStart c \<or> isDigit c)"

definition trim :: "string \<Rightarrow> string" where
  "trim s = rev (dropWhile isSpace (rev (dropWhile isSpace s)))"

text \<open>
  \<^verbatim>\<open>this.input[i]\<close>: reading past the end gives \<^verbatim>\<open>undefined\<close>, which equals no
  character.
\<close>

definition charAt :: "string \<Rightarrow> nat \<Rightarrow> char option" where
  "charAt input i = (if i < length input then Some (input ! i) else None)"

text \<open>The constructor \<^verbatim>\<open>Lexer(input)\<close> stores the trimmed input; the cursor starts at 0.\<close>

definition Lexer :: "string \<Rightarrow> string" where
  "Lexer input = trim input"

text \<open>The loop of \<^verbatim>\<open>readIdentifier\<close>, returning the text read and the new cursor.\<close>

function readIdentifier_loop :: "string \<Rightarrow> nat \<Rightarrow> string \<Rightarrow> string \<times> nat" where
  "readIdentifier_loop input position ident =
     (if position < length input \<and> isIdentPart (input ! position)
      then readIdentifier_loop input (position + 1) (ident @ [input ! position])
      else (ident, position))"
  by pat_completeness auto
termination
  by (relation "measure (\<lambda>(input, position, ident). length input - position)") auto

definition readIdentifier :: "string \<Rightarrow> nat \<Rightarrow> Token \<times> nat" where
  "readIdentifier input start =
     (case readIdentifier_loop input start [] of
        (ident, position) \<Rightarrow>
          (\<lparr>tk_type = (if ident \<in> set keywordSet then KEYWORD else IDENTIFIER),
            tk_value = ident, tk_position = start\<rparr>, position))"

text \<open>The loop of \<^verbatim>\<open>readNumber\<close>: digits, and a dot while none was read.\<close>

function readNumber_loop :: "string \<Rightarrow> nat \<Rightarrow> string \<Rightarrow> bool \<Rightarrow> string \<times> nat" where
  "readNumber_loop input position numStr hasDot =
     (if position < length input
      then (if isDigit (input ! position)
            then readNumber_loop input (position + 1) (numStr @ [input ! position]) hasDot
            else if input ! position = CHR ''.'' \<and> \<not> hasDot
            then readNumber_loop input (position + 1) (numStr @ [input ! position]) True
            else (numStr, position))
      else (numStr, position))"
  by pat_completeness auto
termination
  by (relation "measure (\<lambda>(input, position, numStr, hasDot). length input - position)") auto

definition readNumber :: "string \<Rightarrow> nat \<Rightarrow> Token \<times> nat" where
  "readNumber input start =
     (case readNumber_loop input start [] False of
        (numStr, position) \<Rightarrow>
          (\<lparr>tk_type = NUMBER, tk_value = numStr, tk_position = start\<rparr>, position))"

text \<open>
  The loop of \<^verbatim>\<open>readString\<close>: a backslash that is not the last character is kept
  together with the character after it.
\<close>

function readString_loop :: "string \<Rightarrow> nat \<Rightarrow> string \<Rightarrow> string \<times> nat" where
  "readString_loop input position str =
     (if position < length input \<and> input ! position \<noteq> CHR 0x22
      then (if input ! position = CHR 0x5C \<and> position + 1 < length input
            then readString_loop input (position + 2)
                   (str @ [input ! position, input ! (position + 1)])
            else readString_loop input (position + 1) (str @ [input ! position]))
      else (str, position))"
  by pat_completeness auto
termination
  by (relation "measure (\<lambda>(input, position, str). length input - position)") auto

definition readString :: "string \<Rightarrow> nat \<Rightarrow> Token \<times> nat" where
  "readString input start =
     (case readString_loop input (start + 1) [CHR 0x22] of
        (str, position) \<Rightarrow>
          (if position < length input \<and> input ! position = CHR 0x22
           then (\<lparr>tk_type = STRING, tk_value = str @ [CHR 0x22], tk_position = start\<rparr>,
                 position + 1)
           else (\<lparr>tk_type = STRING, tk_value = str, tk_position = start\<rparr>, position)))"

function readChar_loop :: "string \<Rightarrow> nat \<Rightarrow> string \<Rightarrow> string \<times> nat" where
  "readChar_loop input position ch =
     (if position < length input \<and> input ! position \<noteq> CHR 0x27
      then readChar_loop input (position + 1) (ch @ [input ! position])
      else (ch, position))"
  by pat_completeness auto
termination
  by (relation "measure (\<lambda>(input, position, ch). length input - position)") auto

definition readChar :: "string \<Rightarrow> nat \<Rightarrow> Token \<times> nat" where
  "readChar input start =
     (case readChar_loop input (start + 1) [CHR 0x27] of
        (ch, position) \<Rightarrow>
          (if position < length input \<and> input ! position = CHR 0x27
           then (\<lparr>tk_type = CHAR', tk_value = ch @ [CHR 0x27], tk_position = start\<rparr>,
                 position + 1)
           else (\<lparr>tk_type = CHAR', tk_value = ch, tk_position = start\<rparr>, position)))"

text \<open>
  The inner loops of \<^verbatim>\<open>tokenize\<close>: a preprocessor line and a line comment run to
  the next line feed; a block comment runs to the first \<^verbatim>\<open>*/\<close>, and its loop
  stops one character before the end of the input.
\<close>

function readDirective_loop :: "string \<Rightarrow> nat \<Rightarrow> string \<Rightarrow> string \<times> nat" where
  "readDirective_loop input position directive =
     (if position < length input \<and> input ! position \<noteq> CHR 0x0A
      then readDirective_loop input (position + 1) (directive @ [input ! position])
      else (directive, position))"
  by pat_completeness auto
termination
  by (relation "measure (\<lambda>(input, position, directive). length input - position)") auto

function skipLineComment_loop :: "string \<Rightarrow> nat \<Rightarrow> nat" where
  "skipLineComment_loop input position =
     (if position < length input \<and> input ! position \<noteq> CHR 0x0A
      then skipLineComment_loop input (position + 1)
      else position)"
  by pat_completeness auto
termination
  by (relation "measure (\<lambda>(input, position). length input - position)") auto

function skipBlockComment_loop :: "string \<Rightarrow> nat \<Rightarrow> nat" where
  "skipBlockComment_loop input position =
     (if int position < int (length input) - 1
      then (if input ! position = CHR ''*'' \<and> charAt input (position + 1) = Some CHR ''/''
            then position + 2
            else skipBlockComment_loop input (position + 1))
      else position)"
  by pat_completeness auto
termination
  by (relation "measure (\<lambda>(input, position). length input - position)") auto

text \<open>
  One round of the \<^verbatim>\<open>while\<close> loop of \<^verbatim>\<open>tokenize\<close> at a cursor inside the input:
  the tokens it pushes (none or one) and the new cursor. The branches stand in the
  order of the source.
\<close>

definition single :: "TokenType \<Rightarrow> string \<Rightarrow> nat \<Rightarrow> nat \<Rightarrow> Token list \<times> nat" where
  "single ty v position n = ([\<lparr>tk_type = ty, tk_value = v, tk_position = position\<rparr>], position + n)"

definition scan :: "string \<Rightarrow> nat \<Rightarrow> Token list \<times> nat" where
  "scan input position =
    (let c = input ! position; next = charAt input (position + 1) in
     if isSpace c then ([], position + 1)
     else if c = CHR ''#'' then
       (case readDirective_loop input position [] of
          (directive, p) \<Rightarrow> ([\<lparr>tk_type = PREPROCESSOR, tk_value = directive, tk_position = position\<rparr>], p))
     else if c = CHR 0x22 then (case readString input position of (t, p) \<Rightarrow> ([t], p))
     else if c = CHR 0x27 then (case readChar input position of (t, p) \<Rightarrow> ([t], p))
     else if c = CHR ''/'' \<and> next = Some CHR ''/'' then ([], skipLineComment_loop input position)
     else if c = CHR ''/'' \<and> next = Some CHR ''*'' then ([], skipBlockComment_loop input (position + 2))
     else if isDigit c then (case readNumber input position of (t, p) \<Rightarrow> ([t], p))
     else if isIdentStart c then (case readIdentifier input position of (t, p) \<Rightarrow> ([t], p))
     else if c = CHR ''+'' \<and> next = Some CHR ''+'' then single INCREMENT ''++'' position 2
     else if c = CHR ''-'' \<and> next = Some CHR ''-'' then single DECREMENT ''--'' position 2
     else if c = CHR ''+'' \<and> next = Some CHR ''='' then single COMPOUND_ASSIGN ''+='' position 2
     else if c = CHR ''-'' \<and> next = Some CHR ''='' then single COMPOUND_ASSIGN ''-='' position 2
     else if c = CHR ''*'' \<and> next = Some CHR ''='' then single COMPOUND_ASSIGN ''*='' position 2
     else if c = CHR ''/'' \<and> next = Some CHR ''='' then single COMPOUND_ASSIGN ''/='' position 2
     else if c = CHR ''%'' \<and> next = Some CHR ''='' then single COMPOUND_ASSIGN ''%='' position 2
     else if c = CHR ''-'' \<and> next = Some CHR ''>'' then single ARROW ''->'' position 2
     else if c = CHR ''='' \<and> next = Some CHR ''='' then single COMPARISON ''=='' position 2
     else if c = CHR ''!'' \<and> next = Some CHR ''='' then single COMPARISON ''!='' position 2
     else if c = CHR ''<'' \<and> next = Some CHR ''='' then single COMPARISON ''<='' position 2
     else if c = CHR ''>'' \<and> next = Some CHR ''='' then single COMPARISON ''>='' position 2
     else if c = CHR ''&'' \<and> next = Some CHR ''&'' then single LOGICAL ''&&'' position 2
     else if c = CHR ''|'' \<and> next = Some CHR ''|'' then single LOGICAL ''||'' position 2
     else if c = CHR ''<'' then single COMPARISON ''<'' position 1
     else if c = CHR ''>'' then single COMPARISON ''>'' position 1
     else if c = CHR ''!'' then single LOGICAL ''!'' position 1
     else if c = CHR ''='' then single ASSIGN ''='' position 1
     else if c = CHR ''&'' then single AMPERSAND ''&'' position 1
     else if c \<in> set ''+-*/%^'' then single OPERATOR [c] position 1
     else if c = CHR ''('' then single LPAREN [c] position 1
     else if c = CHR '')'' then single RPAREN [c] position 1
     else if c = CHR ''['' then single LBRACKET [c] position 1
     else if c = CHR '']'' then single RBRACKET [c] position 1
     else if c = CHR ''{'' then single LBRACE [c] position 1
     else if c = CHR ''}'' then single RBRACE [c] position 1
     else if c = CHR '';'' then single SEMICOLON [c] position 1
     else if c = CHR '','' then single COMMA [c] position 1
     else if c = CHR ''.'' then single DOT [c] position 1
     else single INVALID [c] position 1)"

text \<open>
  \<^verbatim>\<open>tokenize\<close>: the rounds of the loop while the cursor is inside the input, then
  the \<^verbatim>\<open>EOF\<close> token at the final cursor. The recursion ends because every round
  moves the cursor forward (\<open>scan_bounds\<close> below).
\<close>

declare readIdentifier_loop.simps [simp del] readNumber_loop.simps [simp del]
  readString_loop.simps [simp del] readChar_loop.simps [simp del]
  readDirective_loop.simps [simp del] skipLineComment_loop.simps [simp del]
  skipBlockComment_loop.simps [simp del]

lemma readIdentifier_loop_bounds:
  "position \<le> length input \<Longrightarrow>
   position \<le> snd (readIdentifier_loop input position ident) \<and>
   snd (readIdentifier_loop input position ident) \<le> length input"
proof (induction input position ident rule: readIdentifier_loop.induct)
  case (1 input position ident)
  then show ?case
    by (subst (1 2) readIdentifier_loop.simps) auto
qed

lemma readNumber_loop_bounds:
  "position \<le> length input \<Longrightarrow>
   position \<le> snd (readNumber_loop input position numStr hasDot) \<and>
   snd (readNumber_loop input position numStr hasDot) \<le> length input"
proof (induction input position numStr hasDot rule: readNumber_loop.induct)
  case (1 input position numStr hasDot)
  then show ?case
    by (subst (1 2) readNumber_loop.simps) auto
qed

lemma readString_loop_bounds:
  "position \<le> length input \<Longrightarrow>
   position \<le> snd (readString_loop input position str) \<and>
   snd (readString_loop input position str) \<le> length input"
proof (induction input position str rule: readString_loop.induct)
  case (1 input position str)
  then show ?case
    by (subst (1 2) readString_loop.simps) auto
qed

lemma readChar_loop_bounds:
  "position \<le> length input \<Longrightarrow>
   position \<le> snd (readChar_loop input position ch) \<and>
   snd (readChar_loop input position ch) \<le> length input"
proof (induction input position ch rule: readChar_loop.induct)
  case (1 input position ch)
  then show ?case
    by (subst (1 2) readChar_loop.simps) auto
qed

lemma readDirective_loop_bounds:
  "position \<le> length input \<Longrightarrow>
   position \<le> snd (readDirective_loop input position d) \<and>
   snd (readDirective_loop input position d) \<le> length input"
proof (induction input position d rule: readDirective_loop.induct)
  case (1 input position d)
  then show ?case
    by (subst (1 2) readDirective_loop.simps) auto
qed

lemma skipLineComment_loop_bounds:
  "position \<le> length input \<Longrightarrow>
   position \<le> skipLineComment_loop input position \<and>
   skipLineComment_loop input position \<le> length input"
proof (induction input position rule: skipLineComment_loop.induct)
  case (1 input position)
  then show ?case
    by (subst (1 2) skipLineComment_loop.simps) auto
qed

lemma skipBlockComment_loop_bounds:
  "position \<le> length input \<Longrightarrow>
   position \<le> skipBlockComment_loop input position \<and>
   skipBlockComment_loop input position \<le> length input"
proof (induction input position rule: skipBlockComment_loop.induct)
  case (1 input position)
  then show ?case
    by (subst (1 2) skipBlockComment_loop.simps) auto
qed

lemma readDirective_progress:
  assumes "position < length input" "input ! position = CHR ''#''"
  shows "position < snd (readDirective_loop input position d) \<and>
         snd (readDirective_loop input position d) \<le> length input"
proof -
  have "readDirective_loop input position d =
        readDirective_loop input (position + 1) (d @ [input ! position])"
    using assms by (subst readDirective_loop.simps) simp
  then show ?thesis
    using readDirective_loop_bounds [of "position + 1" input "d @ [input ! position]"] assms
    by simp
qed

lemma skipLineComment_progress:
  assumes "position < length input" "input ! position = CHR ''/''"
  shows "position < skipLineComment_loop input position \<and>
         skipLineComment_loop input position \<le> length input"
proof -
  have "skipLineComment_loop input position = skipLineComment_loop input (position + 1)"
    using assms by (subst skipLineComment_loop.simps) simp
  then show ?thesis
    using skipLineComment_loop_bounds [of "position + 1" input] assms by simp
qed

lemma readNumber_progress:
  assumes "position < length input" "isDigit (input ! position)"
  shows "position < snd (readNumber input position) \<and>
         snd (readNumber input position) \<le> length input"
proof -
  have "readNumber_loop input position [] False =
        readNumber_loop input (position + 1) [input ! position] False"
    using assms by (subst readNumber_loop.simps) simp
  then show ?thesis
    using readNumber_loop_bounds [of "position + 1" input "[input ! position]" False] assms
    by (auto simp: readNumber_def split: prod.splits)
qed

lemma readIdentifier_progress:
  assumes "position < length input" "isIdentStart (input ! position)"
  shows "position < snd (readIdentifier input position) \<and>
         snd (readIdentifier input position) \<le> length input"
proof -
  have "readIdentifier_loop input position [] =
        readIdentifier_loop input (position + 1) [input ! position]"
    using assms by (subst readIdentifier_loop.simps) (simp add: isIdentPart_def)
  then show ?thesis
    using readIdentifier_loop_bounds [of "position + 1" input "[input ! position]"] assms
    by (auto simp: readIdentifier_def split: prod.splits)
qed

lemma readString_progress:
  assumes "position < length input"
  shows "position < snd (readString input position) \<and>
         snd (readString input position) \<le> length input"
  using readString_loop_bounds [of "position + 1" input "[CHR 0x22]"] assms
  by (auto simp: readString_def split: prod.splits)

lemma readChar_progress:
  assumes "position < length input"
  shows "position < snd (readChar input position) \<and>
         snd (readChar input position) \<le> length input"
  using readChar_loop_bounds [of "position + 1" input "[CHR 0x27]"] assms
  by (auto simp: readChar_def split: prod.splits)

lemma skipBlockComment_progress:
  assumes "charAt input (position + 1) = Some c"
  shows "position < skipBlockComment_loop input (position + 2) \<and>
         skipBlockComment_loop input (position + 2) \<le> length input"
proof -
  have "position + 2 \<le> length input"
    using assms by (simp add: charAt_def split: if_splits)
  then show ?thesis
    using skipBlockComment_loop_bounds [of "position + 2" input] by simp
qed

lemma single_bounds:
  "position + n \<le> length input \<Longrightarrow> 0 < n \<Longrightarrow>
   position < snd (single ty v position n) \<and> snd (single ty v position n) \<le> length input"
  by (simp add: single_def)

lemma charAt_Some_bound: "charAt input (position + 1) = Some c \<Longrightarrow> position + 2 \<le> length input"
  by (simp add: charAt_def split: if_splits)

lemma scan_bounds:
  assumes "position < length input"
  shows "position < snd (scan input position) \<and> snd (scan input position) \<le> length input"
proof -
  have one: "position + 1 \<le> length input" using assms by simp
  have two: "Suc (Suc position) \<le> length input" if "charAt input (Suc position) = Some c" for c
    using that by (simp add: charAt_def split: if_splits)
  have blk: "position < skipBlockComment_loop input (Suc (Suc position)) \<and>
             skipBlockComment_loop input (Suc (Suc position)) \<le> length input"
    if "charAt input (Suc position) = Some c" for c
    using skipBlockComment_progress [of input position c] that by simp
  show ?thesis
    unfolding scan_def Let_def
    using assms one
    by (auto simp: case_prod_beta single_def readDirective_progress skipLineComment_progress
          readNumber_progress readIdentifier_progress readString_progress readChar_progress
          dest: two blk)
qed

lemma scan_progress_pair:
  "position < length input \<Longrightarrow> (pushed, p) = scan input position \<Longrightarrow>
   length input - p < length input - position"
  using scan_bounds [of position input] by (cases "scan input position") auto

function tokenize_loop :: "string \<Rightarrow> nat \<Rightarrow> Token list \<Rightarrow> Token list" where
  "tokenize_loop input position tokens =
     (if position < length input
      then (case scan input position of (pushed, p) \<Rightarrow> tokenize_loop input p (tokens @ pushed))
      else tokens @ [\<lparr>tk_type = EOF, tk_value = [], tk_position = position\<rparr>])"
  by pat_completeness auto
termination
  by (relation "measure (\<lambda>(input, position, tokens). length input - position)")
     (auto simp: scan_progress_pair)

declare tokenize_loop.simps [simp del]

definition tokenize :: "string \<Rightarrow> Token list" where
  "tokenize input = tokenize_loop input 0 []"

text \<open>No round of the loop pushes an \<^verbatim>\<open>EOF\<close> token.\<close>

lemma scan_no_EOF: "list_all (\<lambda>t. tk_type t \<noteq> EOF) (fst (scan input position))"
  unfolding scan_def Let_def
  by (simp add: case_prod_beta single_def readString_def readChar_def readNumber_def
        readIdentifier_def)

lemma tokenize_loop_shape:
  "position \<le> length input \<Longrightarrow>
   \<exists>ts. tokenize_loop input position tokens =
           tokens @ ts @ [\<lparr>tk_type = EOF, tk_value = [], tk_position = length input\<rparr>] \<and>
        list_all (\<lambda>t. tk_type t \<noteq> EOF) ts"
proof (induction input position tokens rule: tokenize_loop.induct)
  case (1 input position tokens)
  show ?case
  proof (cases "position < length input")
    case True
    obtain pushed p where sc: "scan input position = (pushed, p)"
      by (cases "scan input position")
    have p: "p \<le> length input"
      using scan_bounds [OF True] sc by simp
    have pushed: "list_all (\<lambda>t. tk_type t \<noteq> EOF) pushed"
      using scan_no_EOF [of input position] sc by simp
    from "1.IH" [OF True sc [symmetric] p]
    obtain ts where ts:
      "tokenize_loop input p (tokens @ pushed) =
         (tokens @ pushed) @ ts @ [\<lparr>tk_type = EOF, tk_value = [], tk_position = length input\<rparr>]"
      "list_all (\<lambda>t. tk_type t \<noteq> EOF) ts"
      by blast
    have "tokenize_loop input position tokens = tokenize_loop input p (tokens @ pushed)"
      using True sc by (subst tokenize_loop.simps) simp
    with ts pushed show ?thesis
      by (intro exI [of _ "pushed @ ts"]) simp
  next
    case False
    with "1.prems" have "position = length input" by simp
    then show ?thesis
      by (subst tokenize_loop.simps) (simp add: exI [of _ "[]"])
  qed
qed

text \<open>
  C4. For every input string \<^verbatim>\<open>tokenize\<close> returns (the model is a total function,
  and no operation of the source can throw), and the token list it returns ends
  with an \<^verbatim>\<open>EOF\<close> token whose offset is the length of the trimmed input; that
  token is the only \<^verbatim>\<open>EOF\<close> token of the list. The statement holds for every
  input, so also for one that ends inside a block comment, a string or character
  literal or a preprocessor line.
\<close>

theorem tokenize_single_final_EOF:
  "last (tokenize (Lexer src)) =
     \<lparr>tk_type = EOF, tk_value = [], tk_position = length (trim src)\<rparr> \<and>
   filter (\<lambda>t. tk_type t = EOF) (tokenize (Lexer src)) =
     [\<lparr>tk_type = EOF, tk_value = [], tk_position = length (trim src)\<rparr>]"
proof -
  obtain ts where ts:
    "tokenize_loop (trim src) 0 [] =
       [] @ ts @ [\<lparr>tk_type = EOF, tk_value = [], tk_position = length (trim src)\<rparr>]"
    "list_all (\<lambda>t. tk_type t \<noteq> EOF) ts"
    using tokenize_loop_shape [of 0 "trim src" "[]"] by blast
  have "filter (\<lambda>t. tk_type t = EOF) ts = []"
    using ts(2) by (simp add: filter_empty_conv list_all_iff)
  with ts(1) show ?thesis
    by (simp add: tokenize_def Lexer_def)
qed

section \<open>Numbers and syntax trees\<close>

text \<open>
  A JavaScript number is an IEEE 754 double. \<^term>\<open>Finite r\<close> is the double of
  value \<open>r\<close>, \<^term>\<open>Finite 0\<close> being \<open>+0\<close>; \<open>-0\<close>, \<^verbatim>\<open>NaN\<close> and the two infinities
  are values of their own. The doubles are the reals \<open>m * 2^e\<close> with
  \<open>\<bar>m\<bar> < 2^53\<close> and \<open>-1074 \<le> e \<le> 971\<close>; an operation computes on the reals and rounds
  its result to a double with \<open>roundDouble\<close> below.
\<close>

datatype number = Finite real | NegZero | NaN | PosInfinity | NegInfinity

text \<open>
  The interface \<^verbatim>\<open>ASTNode\<close>: a \<^verbatim>\<open>type\<close> string and optional fields, an absent
  field being \<^const>\<open>None\<close>. The field \<^verbatim>\<open>value\<close> holds a number, a string or a
  node; \<^verbatim>\<open>body\<close> holds a node or an array of nodes. Every field carries the
  prefix \<open>n_\<close>.
\<close>

datatype nodeval = VNumber number | VString string | VNode ASTNode
and ASTNode = ASTNode
  (n_type: "string")
  (n_value: "nodeval option")
  (n_operator: "string option")
  (n_left: "ASTNode option")
  (n_right: "ASTNode option")
  (n_dataType: "string option")
  (n_identifier: "string option")
  (n_init: "ASTNode option")
  (n_condition: "ASTNode option")
  (n_body: "(ASTNode + ASTNode list) option")
  (n_increment: "ASTNode option")
  (n_elseBranch: "ASTNode option")
  (n_parameters: "(string \<times> string) list option")
  (n_returnType: "string option")
  (n_statements: "ASTNode list option")
  (n_size: "ASTNode option")
  (n_isArray: "bool option")
  (n_isPointer: "bool option")
  (n_arguments: "ASTNode list option")
  (n_test: "ASTNode option")
  (n_cases: "(ASTNode \<times> ASTNode list) list option")
  (n_default: "ASTNode list option")
  (n_directive: "string option")

text \<open>A node with only its \<^verbatim>\<open>type\<close>, and the assignment of one field.\<close>

definition emptyNode :: "string \<Rightarrow> ASTNode" where
  "emptyNode t = ASTNode t None None None None None None None None None None None None None None None None None None None None None None"

primrec set_value :: "nodeval option \<Rightarrow> ASTNode \<Rightarrow> ASTNode" where
  "set_value v (ASTNode x0 x1 x2 x3 x4 x5 x6 x7 x8 x9 x10 x11 x12 x13 x14 x15 x16 x17 x18 x19 x20 x21 x22) =
     ASTNode x0 v x2 x3 x4 x5 x6 x7 x8 x9 x10 x11 x12 x13 x14 x15 x16 x17 x18 x19 x20 x21 x22"

primrec set_operator :: "string option \<Rightarrow> ASTNode \<Rightarrow> ASTNode" where
  "set_operator v (ASTNode x0 x1 x2 x3 x4 x5 x6 x7 x8 x9 x10 x11 x12 x13 x14 x15 x16 x17 x18 x19 x20 x21 x22) =
     ASTNode x0 x1 v x3 x4 x5 x6 x7 x8 x9 x10 x11 x12 x13 x14 x15 x16 x17 x18 x19 x20 x21 x22"

primrec set_left :: "ASTNode option \<Rightarrow> ASTNode \<Rightarrow> ASTNode" where
  "set_left v (ASTNode x0 x1 x2 x3 x4 x5 x6 x7 x8 x9 x10 x11 x12 x13 x14 x15 x16 x17 x18 x19 x20 x21 x22) =
     ASTNode x0 x1 x2 v x4 x5 x6 x7 x8 x9 x10 x11 x12 x13 x14 x15 x16 x17 x18 x19 x20 x21 x22"

primrec set_right :: "ASTNode option \<Rightarrow> ASTNode \<Rightarrow> ASTNode" where
  "set_right v (ASTNode x0 x1 x2 x3 x4 x5 x6 x7 x8 x9 x10 x11 x12 x13 x14 x15 x16 x17 x18 x19 x20 x21 x22) =
     ASTNode x0 x1 x2 x3 v x5 x6 x7 x8 x9 x10 x11 x12 x13 x14 x15 x16 x17 x18 x19 x20 x21 x22"

primrec set_dataType :: "string option \<Rightarrow> ASTNode \<Rightarrow> ASTNode" where
  "set_dataType v (ASTNode x0 x1 x2 x3 x4 x5 x6 x7 x8 x9 x10 x11 x12 x13 x14 x15 x16 x17 x18 x19 x20 x21 x22) =
     ASTNode x0 x1 x2 x3 x4 v x6 x7 x8 x9 x10 x11 x12 x13 x14 x15 x16 x17 x18 x19 x20 x21 x22"

primrec set_identifier :: "string option \<Rightarrow> ASTNode \<Rightarrow> ASTNode" where
  "set_identifier v (ASTNode x0 x1 x2 x3 x4 x5 x6 x7 x8 x9 x10 x11 x12 x13 x14 x15 x16 x17 x18 x19 x20 x21 x22) =
     ASTNode x0 x1 x2 x3 x4 x5 v x7 x8 x9 x10 x11 x12 x13 x14 x15 x16 x17 x18 x19 x20 x21 x22"

primrec set_init :: "ASTNode option \<Rightarrow> ASTNode \<Rightarrow> ASTNode" where
  "set_init v (ASTNode x0 x1 x2 x3 x4 x5 x6 x7 x8 x9 x10 x11 x12 x13 x14 x15 x16 x17 x18 x19 x20 x21 x22) =
     ASTNode x0 x1 x2 x3 x4 x5 x6 v x8 x9 x10 x11 x12 x13 x14 x15 x16 x17 x18 x19 x20 x21 x22"

primrec set_condition :: "ASTNode option \<Rightarrow> ASTNode \<Rightarrow> ASTNode" where
  "set_condition v (ASTNode x0 x1 x2 x3 x4 x5 x6 x7 x8 x9 x10 x11 x12 x13 x14 x15 x16 x17 x18 x19 x20 x21 x22) =
     ASTNode x0 x1 x2 x3 x4 x5 x6 x7 v x9 x10 x11 x12 x13 x14 x15 x16 x17 x18 x19 x20 x21 x22"

primrec set_body :: "(ASTNode + ASTNode list) option \<Rightarrow> ASTNode \<Rightarrow> ASTNode" where
  "set_body v (ASTNode x0 x1 x2 x3 x4 x5 x6 x7 x8 x9 x10 x11 x12 x13 x14 x15 x16 x17 x18 x19 x20 x21 x22) =
     ASTNode x0 x1 x2 x3 x4 x5 x6 x7 x8 v x10 x11 x12 x13 x14 x15 x16 x17 x18 x19 x20 x21 x22"

primrec set_increment :: "ASTNode option \<Rightarrow> ASTNode \<Rightarrow> ASTNode" where
  "set_increment v (ASTNode x0 x1 x2 x3 x4 x5 x6 x7 x8 x9 x10 x11 x12 x13 x14 x15 x16 x17 x18 x19 x20 x21 x22) =
     ASTNode x0 x1 x2 x3 x4 x5 x6 x7 x8 x9 v x11 x12 x13 x14 x15 x16 x17 x18 x19 x20 x21 x22"

primrec set_elseBranch :: "ASTNode option \<Rightarrow> ASTNode \<Rightarrow> ASTNode" where
  "set_elseBranch v (ASTNode x0 x1 x2 x3 x4 x5 x6 x7 x8 x9 x10 x11 x12 x13 x14 x15 x16 x17 x18 x19 x20 x21 x22) =
     ASTNode x0 x1 x2 x3 x4 x5 x6 x7 x8 x9 x10 v x12 x13 x14 x15 x16 x17 x18 x19 x20 x21 x22"

primrec set_parameters :: "(string \<times> string) list option \<Rightarrow> ASTNode \<Rightarrow> ASTNode" where
  "set_parameters v (ASTNode x0 x1 x2 x3 x4 x5 x6 x7 x8 x9 x10 x11 x12 x13 x14 x15 x16 x17 x18 x19 x20 x21 x22) =
     ASTNode x0 x1 x2 x3 x4 x5 x6 x7 x8 x9 x10 x11 v x13 x14 x15 x16 x17 x18 x19 x20 x21 x22"

primrec set_returnType :: "string option \<Rightarrow> ASTNode \<Rightarrow> ASTNode" where
  "set_returnType v (ASTNode x0 x1 x2 x3 x4 x5 x6 x7 x8 x9 x10 x11 x12 x13 x14 x15 x16 x17 x18 x19 x20 x21 x22) =
     ASTNode x0 x1 x2 x3 x4 x5 x6 x7 x8 x9 x10 x11 x12 v x14 x15 x16 x17 x18 x19 x20 x21 x22"

primrec set_statements :: "ASTNode list option \<Rightarrow> ASTNode \<Rightarrow> ASTNode" where
  "set_statements v (ASTNode x0 x1 x2 x3 x4 x5 x6 x7 x8 x9 x10 x11 x12 x13 x14 x15 x16 x17 x18 x19 x20 x21 x22) =
     ASTNode x0 x1 x2 x3 x4 x5 x6 x7 x8 x9 x10 x11 x12 x13 v x15 x16 x17 x18 x19 x20 x21 x22"

primrec set_size :: "ASTNode option \<Rightarrow> ASTNode \<Rightarrow> ASTNode" where
  "set_size v (ASTNode x0 x1 x2 x3 x4 x5 x6 x7 x8 x9 x10 x11 x12 x13 x14 x15 x16 x17 x18 x19 x20 x21 x22) =
     ASTNode x0 x1 x2 x3 x4 x5 x6 x7 x8 x9 x10 x11 x12 x13 x14 v x16 x17 x18 x19 x20 x21 x22"

primrec set_isArray :: "bool option \<Rightarrow> ASTNode \<Rightarrow> ASTNode" where
  "set_isArray v (ASTNode x0 x1 x2 x3 x4 x5 x6 x7 x8 x9 x10 x11 x12 x13 x14 x15 x16 x17 x18 x19 x20 x21 x22) =
     ASTNode x0 x1 x2 x3 x4 x5 x6 x7 x8 x9 x10 x11 x12 x13 x14 x15 v x17 x18 x19 x20 x21 x22"

primrec set_isPointer :: "bool option \<Rightarrow> ASTNode \<Rightarrow> ASTNode" where
  "set_isPointer v (ASTNode x0 x1 x2 x3 x4 x5 x6 x7 x8 x9 x10 x11 x12 x13 x14 x15 x16 x17 x18 x19 x20 x21 x22) =
     ASTNode x0 x1 x2 x3 x4 x5 x6 x7 x8 x9 x10 x11 x12 x13 x14 x15 x16 v x18 x19 x20 x21 x22"

primrec set_arguments :: "ASTNode list option \<Rightarrow> ASTNode \<Rightarrow> ASTNode" where
  "set_arguments v (ASTNode x0 x1 x2 x3 x4 x5 x6 x7 x8 x9 x10 x11 x12 x13 x14 x15 x16 x17 x18 x19 x20 x21 x22) =
     ASTNode x0 x1 x2 x3 x4 x5 x6 x7 x8 x9 x10 x11 x12 x13 x14 x15 x16 x17 v x19 x20 x21 x22"

primrec set_test :: "ASTNode option \<Rightarrow> ASTNode \<Rightarrow> ASTNode" where
  "set_test v (ASTNode x0 x1 x2 x3 x4 x5 x6 x7 x8 x9 x10 x11 x12 x13 x14 x15 x16 x17 x18 x19 x20 x21 x22) =
     ASTNode x0 x1 x2 x3 x4 x5 x6 x7 x8 x9 x10 x11 x12 x13 x14 x15 x16 x17 x18 v x20 x21 x22"

primrec set_cases :: "(ASTNode \<times> ASTNode list) list option \<Rightarrow> ASTNode \<Rightarrow> ASTNode" where
  "set_cases v (ASTNode x0 x1 x2 x3 x4 x5 x6 x7 x8 x9 x10 x11 x12 x13 x14 x15 x16 x17 x18 x19 x20 x21 x22) =
     ASTNode x0 x1 x2 x3 x4 x5 x6 x7 x8 x9 x10 x11 x12 x13 x14 x15 x16 x17 x18 x19 v x21 x22"

primrec set_default :: "ASTNode list option \<Rightarrow> ASTNode \<Rightarrow> ASTNode" where
  "set_default v (ASTNode x0 x1 x2 x3 x4 x5 x6 x7 x8 x9 x10 x11 x12 x13 x14 x15 x16 x17 x18 x19 x20 x21 x22) =
     ASTNode x0 x1 x2 x3 x4 x5 x6 x7 x8 x9 x10 x11 x12 x13 x14 x15 x16 x17 x18 x19 x20 v x22"

primrec set_directive :: "string option \<Rightarrow> ASTNode \<Rightarrow> ASTNode" where
  "set_directive v (ASTNode x0 x1 x2 x3 x4 x5 x6 x7 x8 x9 x10 x11 x12 x13 x14 x15 x16 x17 x18 x19 x20 x21 x22) =
     ASTNode x0 x1 x2 x3 x4 x5 x6 x7 x8 x9 x10 x11 x12 x13 x14 x15 x16 x17 x18 x19 x20 x21 v"

section \<open>JavaScript values and operators\<close>

text \<open>
  The values the evaluator and the interpreter compute with: numbers, \<^verbatim>\<open>null\<close>,
  \<^verbatim>\<open>undefined\<close>, strings, and a node held as an object (the \<^verbatim>\<open>value\<close> of a
  node can be a node). Two objects are compared by structure, where JavaScript
  compares references: a tree that holds two equal nodes at different places is
  outside this part of the model.
\<close>

datatype jsval = JNumber number | JNull | JUndefined | JString string | JObject ASTNode

text \<open>
  Four things the host decides are parameters of the model: the decimal text of
  a number that is not an integer of magnitude at most \<open>2^53\<close>, the number a
  string converts to, the result of \<^verbatim>\<open>Math.pow\<close> where the standard asks only for
  an approximation, and the message of the \<^verbatim>\<open>TypeError\<close> for a property read of
  \<^verbatim>\<open>undefined\<close>.
\<close>

record host =
  h_numberToString :: "real \<Rightarrow> string"
  h_stringToNumber :: "string \<Rightarrow> number"
  h_pow :: "real \<Rightarrow> real \<Rightarrow> number"
  h_undefinedRead :: string

text \<open>
  Rounding to the nearest double, ties to the even one. The exponent of \<open>x\<close> is
  the \<open>e\<close> with \<open>2^e \<le> \<bar>x\<bar> < 2^(e + 1)\<close>, found by a search upward from 0 or
  downward from -1, and -1022 for every smaller \<open>x\<close>. Around \<open>x\<close> the doubles are the
  multiples of \<open>ulp x = 2^(e - 52)\<close>. A result of magnitude \<open>2^1024\<close> or more is an
  infinity, and a result that rounds to zero keeps the sign of \<open>x\<close>.
\<close>

definition signedZero :: "bool \<Rightarrow> number" where
  "signedZero negative = (if negative then NegZero else Finite 0)"

definition signedInfinity :: "bool \<Rightarrow> number" where
  "signedInfinity negative = (if negative then NegInfinity else PosInfinity)"

function exponentUp :: "real \<Rightarrow> int \<Rightarrow> int" where
  "exponentUp x e = (if 2 powi (e + 1) \<le> \<bar>x\<bar> then exponentUp x (e + 1) else e)"
  by pat_completeness auto
termination
proof (relation "measure (\<lambda>(x, e). nat (\<lfloor>log 2 \<bar>x\<bar>\<rfloor> - e))")
  show "wf (measure (\<lambda>(x, e). nat (\<lfloor>log 2 \<bar>x\<bar>\<rfloor> - e)))" by simp
next
  fix x :: real and e :: int
  assume a: "2 powi (e + 1) \<le> \<bar>x\<bar>"
  have "(0::real) < 2 powi (e + 1)" by (simp add: zero_less_power_int)
  with a have pos: "0 < \<bar>x\<bar>" by linarith
  have "2 powr (of_int (e + 1)) \<le> \<bar>x\<bar>"
    using a powr_real_of_int' [of 2 "e + 1"] by simp
  then have "of_int (e + 1) \<le> log 2 \<bar>x\<bar>"
    using pos by (simp add: le_log_iff)
  then have "e + 1 \<le> \<lfloor>log 2 \<bar>x\<bar>\<rfloor>" by (simp add: le_floor_iff)
  then show "((x, e + 1), (x, e)) \<in> measure (\<lambda>(x, e). nat (\<lfloor>log 2 \<bar>x\<bar>\<rfloor> - e))"
    by simp
qed

declare exponentUp.simps [simp del]

function exponentDown :: "real \<Rightarrow> int \<Rightarrow> int" where
  "exponentDown x e = (if - 1022 < e \<and> \<bar>x\<bar> < 2 powi e then exponentDown x (e - 1) else e)"
  by pat_completeness auto
termination
  by (relation "measure (\<lambda>(x, e). nat (e + 1022))") auto

declare exponentDown.simps [simp del]

definition exponent :: "real \<Rightarrow> int" where
  "exponent x = (if \<bar>x\<bar> < 1 then exponentDown x (- 1) else exponentUp x 0)"

definition ulp :: "real \<Rightarrow> real" where
  "ulp x = 2 powi (exponent x - 52)"

definition roundHalfEven :: "real \<Rightarrow> int" where
  "roundHalfEven x =
     (if x - of_int \<lfloor>x\<rfloor> < 1 / 2 then \<lfloor>x\<rfloor>
      else if 1 / 2 < x - of_int \<lfloor>x\<rfloor> then \<lfloor>x\<rfloor> + 1
      else if even \<lfloor>x\<rfloor> then \<lfloor>x\<rfloor> else \<lfloor>x\<rfloor> + 1)"

definition roundDouble :: "real \<Rightarrow> number" where
  "roundDouble x =
     (let y = of_int (roundHalfEven (x / ulp x)) * ulp x
      in if 2 ^ 1024 \<le> \<bar>y\<bar> then signedInfinity (x < 0)
         else if y = 0 then signedZero (x < 0)
         else Finite y)"

text \<open>The value of a finite number, and the sign bit; \<^verbatim>\<open>NaN\<close> is given no sign.\<close>

fun finiteValue :: "number \<Rightarrow> real option" where
  "finiteValue (Finite a) = Some a"
| "finiteValue NegZero = Some 0"
| "finiteValue x = None"

fun signBit :: "number \<Rightarrow> bool" where
  "signBit (Finite a) = (a < 0)"
| "signBit NegZero = True"
| "signBit NegInfinity = True"
| "signBit x = False"

fun num_neg :: "number \<Rightarrow> number" where
  "num_neg (Finite a) = (if a = 0 then NegZero else Finite (- a))"
| "num_neg NegZero = Finite 0"
| "num_neg NaN = NaN"
| "num_neg PosInfinity = NegInfinity"
| "num_neg NegInfinity = PosInfinity"

text \<open>
  The sum. A sum that is exactly zero is \<open>-0\<close> only when both operands are \<open>-0\<close>;
  the sum of the two infinities of opposite sign is \<^verbatim>\<open>NaN\<close>.
\<close>

definition num_add :: "number \<Rightarrow> number \<Rightarrow> number" where
  "num_add x y =
     (case (finiteValue x, finiteValue y) of
        (Some a, Some b) \<Rightarrow>
          (if a + b = 0 then signedZero (signBit x \<and> signBit y) else roundDouble (a + b))
      | (Some a, None) \<Rightarrow> y
      | (None, Some b) \<Rightarrow> x
      | (None, None) \<Rightarrow> (if x = y then x else NaN))"

definition num_sub :: "number \<Rightarrow> number \<Rightarrow> number" where
  "num_sub x y = num_add x (num_neg y)"

text \<open>
  The product and the quotient: the sign is negative when the signs of the
  operands differ. A zero times an infinity, \<open>0 / 0\<close> and an infinity by an
  infinity are \<^verbatim>\<open>NaN\<close>; a non-zero number by a zero is an infinity.
\<close>

definition num_mul :: "number \<Rightarrow> number \<Rightarrow> number" where
  "num_mul x y =
     (if x = NaN \<or> y = NaN then NaN
      else (case (finiteValue x, finiteValue y) of
          (Some a, Some b) \<Rightarrow>
            (if a * b = 0 then signedZero (signBit x \<noteq> signBit y) else roundDouble (a * b))
        | (Some a, None) \<Rightarrow> (if a = 0 then NaN else signedInfinity (signBit x \<noteq> signBit y))
        | (None, Some b) \<Rightarrow> (if b = 0 then NaN else signedInfinity (signBit x \<noteq> signBit y))
        | (None, None) \<Rightarrow> signedInfinity (signBit x \<noteq> signBit y)))"

definition num_div :: "number \<Rightarrow> number \<Rightarrow> number" where
  "num_div x y =
     (if x = NaN \<or> y = NaN then NaN
      else (case (finiteValue x, finiteValue y) of
          (Some a, Some b) \<Rightarrow>
            (if b = 0 then (if a = 0 then NaN else signedInfinity (signBit x \<noteq> signBit y))
             else if a = 0 then signedZero (signBit x \<noteq> signBit y)
             else roundDouble (a / b))
        | (Some a, None) \<Rightarrow> signedZero (signBit x \<noteq> signBit y)
        | (None, Some b) \<Rightarrow> signedInfinity (signBit x \<noteq> signBit y)
        | (None, None) \<Rightarrow> NaN))"

text \<open>
  The remainder \<^verbatim>\<open>%\<close> has the sign of the dividend; the remainder of two doubles
  is a double, so nothing is rounded.
\<close>

definition truncToZero :: "real \<Rightarrow> int" where
  "truncToZero q = (if q < 0 then \<lceil>q\<rceil> else \<lfloor>q\<rfloor>)"

definition num_mod :: "number \<Rightarrow> number \<Rightarrow> number" where
  "num_mod x y =
     (if x = NaN \<or> y = NaN then NaN
      else (case (finiteValue x, finiteValue y) of
          (Some a, Some b) \<Rightarrow>
            (if b = 0 then NaN
             else if a = 0 then x
             else if a - b * of_int (truncToZero (a / b)) = 0 then signedZero (a < 0)
             else Finite (a - b * of_int (truncToZero (a / b))))
        | (Some a, None) \<Rightarrow> x
        | (None, b) \<Rightarrow> NaN))"

text \<open>\<^verbatim>\<open>Math.floor\<close>; the floor of a double is a double, and \<open>-0\<close> stays \<open>-0\<close>.\<close>

fun num_floor :: "number \<Rightarrow> number" where
  "num_floor (Finite a) = Finite (of_int \<lfloor>a\<rfloor>)"
| "num_floor x = x"

text \<open>The comparisons; \<open>-0\<close> and \<open>+0\<close> are equal, and \<^verbatim>\<open>NaN\<close> compares with nothing.\<close>

definition num_less :: "number \<Rightarrow> number \<Rightarrow> bool" where
  "num_less x y =
     (if x = NaN \<or> y = NaN then False
      else (case (finiteValue x, finiteValue y) of
          (Some a, Some b) \<Rightarrow> a < b
        | (Some a, None) \<Rightarrow> y = PosInfinity
        | (None, Some b) \<Rightarrow> x = NegInfinity
        | (None, None) \<Rightarrow> x = NegInfinity \<and> y = PosInfinity))"

definition num_eq :: "number \<Rightarrow> number \<Rightarrow> bool" where
  "num_eq x y =
     (case (finiteValue x, finiteValue y) of
        (Some a, Some b) \<Rightarrow> a = b
      | (a, b) \<Rightarrow> x = y \<and> x \<noteq> NaN)"

definition num_le :: "number \<Rightarrow> number \<Rightarrow> bool" where
  "num_le x y = (num_less x y \<or> num_eq x y)"

text \<open>
  \<^verbatim>\<open>Math.pow\<close>, by the cases of the standard. For a finite base other than zero
  and a finite exponent other than zero the standard asks for an approximation
  of the power: when the exponent is an integer and the power is a double, the
  result is that double; a negative base with an exponent that is no integer
  gives \<^verbatim>\<open>NaN\<close>; every other result is the host's.
\<close>

definition isInteger :: "real \<Rightarrow> bool" where
  "isInteger b = (b = of_int \<lfloor>b\<rfloor>)"

definition oddInteger :: "real \<Rightarrow> bool" where
  "oddInteger b = (isInteger b \<and> odd \<lfloor>b\<rfloor>)"

fun num_abs_cmp1 :: "number \<Rightarrow> int" where
  "num_abs_cmp1 (Finite a) = (if 1 < \<bar>a\<bar> then 1 else if \<bar>a\<bar> = 1 then 0 else - 1)"
| "num_abs_cmp1 NegZero = - 1"
| "num_abs_cmp1 x = 1"

definition integerPower :: "real \<Rightarrow> real \<Rightarrow> real" where
  "integerPower a b = (if 0 \<le> b then a ^ nat \<lfloor>b\<rfloor> else 1 / a ^ nat \<lfloor>- b\<rfloor>)"

definition powFinite :: "host \<Rightarrow> real \<Rightarrow> real \<Rightarrow> number" where
  "powFinite h a b =
     (if isInteger b
      then (if roundDouble (integerPower a b) = Finite (integerPower a b)
            then Finite (integerPower a b)
            else h_pow h a b)
      else if a < 0 then NaN
      else h_pow h a b)"

fun num_pow :: "host \<Rightarrow> number \<Rightarrow> number \<Rightarrow> number" where
  "num_pow h x NaN = NaN"
| "num_pow h x NegZero = Finite 1"
| "num_pow h x (Finite b) =
     (if b = 0 then Finite 1
      else (case x of
          NaN \<Rightarrow> NaN
        | PosInfinity \<Rightarrow> (if 0 < b then PosInfinity else Finite 0)
        | NegInfinity \<Rightarrow>
            (if 0 < b then signedInfinity (oddInteger b) else signedZero (oddInteger b))
        | NegZero \<Rightarrow>
            (if 0 < b then signedZero (oddInteger b) else signedInfinity (oddInteger b))
        | Finite a \<Rightarrow>
            (if a = 0 then (if 0 < b then Finite 0 else PosInfinity)
             else powFinite h a b)))"
| "num_pow h x PosInfinity =
     (if x = NaN then NaN
      else if num_abs_cmp1 x = 1 then PosInfinity
      else if num_abs_cmp1 x = 0 then NaN else Finite 0)"
| "num_pow h x NegInfinity =
     (if x = NaN then NaN
      else if num_abs_cmp1 x = 1 then Finite 0
      else if num_abs_cmp1 x = 0 then NaN else PosInfinity)"

text \<open>The decimal digits of a natural number, for \<^verbatim>\<open>String(n)\<close> and the templates.\<close>

fun showNat :: "nat \<Rightarrow> string" where
  "showNat n =
     (if n < 10 then [''0123456789'' ! n]
      else showNat (n div 10) @ [''0123456789'' ! (n mod 10)])"

declare showNat.simps [simp del]

definition numberToString :: "host \<Rightarrow> number \<Rightarrow> string" where
  "numberToString h x =
     (case x of
        Finite r \<Rightarrow>
          (if isInteger r \<and> \<bar>r\<bar> \<le> 2 ^ 53
           then (if r < 0 then ''-'' else []) @ showNat (nat \<bar>\<lfloor>r\<rfloor>\<bar>)
           else h_numberToString h r)
      | NegZero \<Rightarrow> ''0''
      | NaN \<Rightarrow> ''NaN''
      | PosInfinity \<Rightarrow> ''Infinity''
      | NegInfinity \<Rightarrow> ''-Infinity'')"

text \<open>The conversions \<^verbatim>\<open>ToNumber\<close>, \<^verbatim>\<open>ToString\<close> and \<^verbatim>\<open>ToBoolean\<close>.\<close>

fun ToNumber :: "host \<Rightarrow> jsval \<Rightarrow> number" where
  "ToNumber h (JNumber x) = x"
| "ToNumber h JNull = Finite 0"
| "ToNumber h JUndefined = NaN"
| "ToNumber h (JString s) = h_stringToNumber h s"
| "ToNumber h (JObject n) = NaN"

fun ToString :: "host \<Rightarrow> jsval \<Rightarrow> string" where
  "ToString h (JNumber x) = numberToString h x"
| "ToString h JNull = ''null''"
| "ToString h JUndefined = ''undefined''"
| "ToString h (JString s) = s"
| "ToString h (JObject n) = ''[object Object]''"

fun ToBoolean :: "jsval \<Rightarrow> bool" where
  "ToBoolean (JNumber x) = (x \<noteq> Finite 0 \<and> x \<noteq> NegZero \<and> x \<noteq> NaN)"
| "ToBoolean JNull = False"
| "ToBoolean JUndefined = False"
| "ToBoolean (JString s) = (s \<noteq> [])"
| "ToBoolean (JObject n) = True"

text \<open>A value whose primitive is a string: a string, or an object.\<close>

fun isStringy :: "jsval \<Rightarrow> bool" where
  "isStringy (JString s) = True"
| "isStringy (JObject n) = True"
| "isStringy v = False"

definition js_add :: "host \<Rightarrow> jsval \<Rightarrow> jsval \<Rightarrow> jsval" where
  "js_add h a b =
     (if isStringy a \<or> isStringy b then JString (ToString h a @ ToString h b)
      else JNumber (num_add (ToNumber h a) (ToNumber h b)))"

definition js_sub :: "host \<Rightarrow> jsval \<Rightarrow> jsval \<Rightarrow> jsval" where
  "js_sub h a b = JNumber (num_sub (ToNumber h a) (ToNumber h b))"

definition js_mul :: "host \<Rightarrow> jsval \<Rightarrow> jsval \<Rightarrow> jsval" where
  "js_mul h a b = JNumber (num_mul (ToNumber h a) (ToNumber h b))"

definition js_div :: "host \<Rightarrow> jsval \<Rightarrow> jsval \<Rightarrow> jsval" where
  "js_div h a b = JNumber (num_div (ToNumber h a) (ToNumber h b))"

definition js_mod :: "host \<Rightarrow> jsval \<Rightarrow> jsval \<Rightarrow> jsval" where
  "js_mod h a b = JNumber (num_mod (ToNumber h a) (ToNumber h b))"

definition js_neg :: "host \<Rightarrow> jsval \<Rightarrow> jsval" where
  "js_neg h a = JNumber (num_neg (ToNumber h a))"

definition str_less :: "string \<Rightarrow> string \<Rightarrow> bool" where
  "str_less s t = lexordp (\<lambda>c d. (of_char c :: nat) < of_char d) s t"

text \<open>\<^verbatim>\<open>a < b\<close> and \<^verbatim>\<open>a <= b\<close>; \<^verbatim>\<open>a > b\<close> is \<^verbatim>\<open>b < a\<close> and \<^verbatim>\<open>a >= b\<close> is \<^verbatim>\<open>b <= a\<close>.\<close>

definition js_less :: "host \<Rightarrow> jsval \<Rightarrow> jsval \<Rightarrow> bool" where
  "js_less h a b =
     (if isStringy a \<and> isStringy b then str_less (ToString h a) (ToString h b)
      else num_less (ToNumber h a) (ToNumber h b))"

definition js_le :: "host \<Rightarrow> jsval \<Rightarrow> jsval \<Rightarrow> bool" where
  "js_le h a b =
     (if isStringy a \<and> isStringy b then \<not> str_less (ToString h b) (ToString h a)
      else num_le (ToNumber h a) (ToNumber h b))"

text \<open>Strict equality \<^verbatim>\<open>===\<close>.\<close>

fun strictEq :: "jsval \<Rightarrow> jsval \<Rightarrow> bool" where
  "strictEq (JNumber x) (JNumber y) = num_eq x y"
| "strictEq JNull JNull = True"
| "strictEq JUndefined JUndefined = True"
| "strictEq (JString s) (JString t) = (s = t)"
| "strictEq (JObject m) (JObject n) = (m = n)"
| "strictEq a b = False"

text \<open>The value of a node's \<^verbatim>\<open>value\<close> field, read as a JavaScript value.\<close>

fun fieldValue :: "nodeval option \<Rightarrow> jsval" where
  "fieldValue None = JUndefined"
| "fieldValue (Some (VNumber x)) = JNumber x"
| "fieldValue (Some (VString s)) = JString s"
| "fieldValue (Some (VNode n)) = JObject n"

text \<open>The text of an optional string in a template: \<^verbatim>\<open>undefined\<close> when absent.\<close>

definition optText :: "string option \<Rightarrow> string" where
  "optText s = (case s of None \<Rightarrow> ''undefined'' | Some t \<Rightarrow> t)"

section \<open>Computations that may throw\<close>

text \<open>
  A method of the parser or of the interpreter changes the fields of its object
  and returns a value or throws. In the model it takes the state and gives the
  new state with \<^const>\<open>Inr\<close> the value returned or \<^const>\<open>Inl\<close> the message of
  the \<^verbatim>\<open>Error\<close> thrown; \<^const>\<open>None\<close> stands for a call that never returns.
\<close>

type_synonym ('a, 's) comp = "((string + 'a) \<times> 's) option"

definition ret :: "'a \<Rightarrow> 's \<Rightarrow> ('a, 's) comp" where
  "ret a st = Some (Inr a, st)"

definition throwError :: "string \<Rightarrow> 's \<Rightarrow> ('a, 's) comp" where
  "throwError e st = Some (Inl e, st)"

text \<open>Sequencing: the rest runs on the value and state of a call that returned.\<close>

definition bindC :: "('a, 's) comp \<Rightarrow> ('a \<Rightarrow> 's \<Rightarrow> ('b, 's) comp) \<Rightarrow> ('b, 's) comp" where
  "bindC m k =
     (case m of
        None \<Rightarrow> None
      | Some (r, st) \<Rightarrow> (case r of Inl e \<Rightarrow> Some (Inl e, st) | Inr a \<Rightarrow> k a st))"

lemma bindC_ret [simp]: "bindC (ret a st) k = k a st"
  by (simp add: bindC_def ret_def)

lemma bindC_Some_Inr [simp]: "bindC (Some (Inr a, st)) k = k a st"
  by (simp add: bindC_def)

lemma bindC_Some_Inl [simp]: "bindC (Some (Inl e, st)) k = Some (Inl e, st)"
  by (simp add: bindC_def)

lemma bindC_throwError [simp]: "bindC (throwError e st) k = throwError e st"
  by (simp add: bindC_def throwError_def)

lemma bindC_None [simp]: "bindC None k = None"
  by (simp add: bindC_def)

lemma bindC_weak_cong: "m = m' \<Longrightarrow> bindC m k = bindC m' k"
  by simp

lemma bindC_eq_Some_Inr:
  "bindC m k = Some (Inr b, st') \<longleftrightarrow> (\<exists>a st. m = Some (Inr a, st) \<and> k a st = Some (Inr b, st'))"
  by (auto simp: bindC_def split: option.splits sum.splits)

lemma bindC_as_bind:
  "bindC m k =
     Option.bind m (\<lambda>p. case p of (r, st) \<Rightarrow>
       (case r of Inl e \<Rightarrow> Some (Inl e, st) | Inr a \<Rightarrow> k a st))"
  by (cases m) (simp_all add: bindC_def)

lemma bindC_mono [partial_function_mono]:
  assumes B: "mono_option B"
    and C: "\<And>a st. mono_option (\<lambda>f. C a st f)"
  shows "mono_option (\<lambda>f. bindC (B f) (\<lambda>a st. C a st f))"
  unfolding bindC_as_bind
proof (rule bind_mono [OF B])
  fix p
  show "mono_option (\<lambda>f. case p of (r, st) \<Rightarrow>
          (case r of Inl e \<Rightarrow> Some (Inl e, st) | Inr a \<Rightarrow> C a st f))"
  proof (cases p)
    case (Pair r st)
    show ?thesis
    proof (cases r)
      case (Inl e)
      with Pair show ?thesis by (simp add: option.const_mono)
    next
      case (Inr a)
      with Pair show ?thesis by (simp add: C)
    qed
  qed
qed

section \<open>Parser\<close>

record ParseError =
  pe_message :: string
  pe_position :: nat
  pe_suggestion :: string

record ParseResult =
  success :: bool
  tree :: "ASTNode option"
  errors :: "ParseError list option"

text \<open>The fields of the class \<^verbatim>\<open>Parser\<close>; the cursor can step below 0, so it is an \<^typ>\<open>int\<close>.\<close>

record pstate =
  p_tokens :: "Token list"
  p_current :: int
  p_errors :: "ParseError list"

text \<open>
  \<^verbatim>\<open>currentToken\<close>: the token at the cursor, or the last token when the cursor is
  outside the array. (\<^verbatim>\<open>parse\<close> below deals with an empty array.)
\<close>

definition currentToken :: "pstate \<Rightarrow> Token" where
  "currentToken st =
     (if 0 \<le> p_current st \<and> p_current st < int (length (p_tokens st))
      then p_tokens st ! nat (p_current st)
      else last (p_tokens st))"

definition tt :: "pstate \<Rightarrow> TokenType" where
  "tt st = tk_type (currentToken st)"

definition tv :: "pstate \<Rightarrow> string" where
  "tv st = tk_value (currentToken st)"

definition tp :: "pstate \<Rightarrow> nat" where
  "tp st = tk_position (currentToken st)"

definition advance :: "pstate \<Rightarrow> (Token, pstate) comp" where
  "advance st =
     ret (currentToken st)
       (if p_current st < int (length (p_tokens st)) - 1
        then st\<lparr>p_current := p_current st + 1\<rparr> else st)"

text \<open>\<^verbatim>\<open>if (this.currentToken().type === ty) this.advance()\<close>.\<close>

definition advanceIf :: "TokenType \<Rightarrow> pstate \<Rightarrow> (unit, pstate) comp" where
  "advanceIf ty st = (if tt st = ty then bindC (advance st) (\<lambda>t st. ret () st) else ret () st)"

text \<open>\<^verbatim>\<open>this.errors.push({message, position, suggestion})\<close>, and the push followed by a throw.\<close>

definition pushError :: "string \<Rightarrow> nat \<Rightarrow> string \<Rightarrow> pstate \<Rightarrow> pstate" where
  "pushError msg pos sug st =
     st\<lparr>p_errors := p_errors st @ [\<lparr>pe_message = msg, pe_position = pos, pe_suggestion = sug\<rparr>]\<rparr>"

definition failWith :: "string \<Rightarrow> nat \<Rightarrow> string \<Rightarrow> string \<Rightarrow> pstate \<Rightarrow> ('a, pstate) comp" where
  "failWith msg pos sug exn st = throwError exn (pushError msg pos sug st)"

text \<open>
  \<^verbatim>\<open>parseFloat\<close> on the text of a \<^verbatim>\<open>NUMBER\<close> token, which \<^verbatim>\<open>readNumber\<close> makes of
  digits with at most one dot after a first digit: the double nearest to the
  decimal value. A text that does not start with a digit gives \<^verbatim>\<open>NaN\<close>; signs,
  exponents and leading white space, which no token of the lexer has, are not
  modelled. (For a text of more than 20 significant digits the standard lets a
  host round at the 20th digit first; the model rounds the exact value.)
\<close>

definition digitsValue :: "string \<Rightarrow> nat" where
  "digitsValue s = foldl (\<lambda>acc c. 10 * acc + (of_char c - 48)) 0 s"

definition parseFloat :: "string \<Rightarrow> number" where
  "parseFloat s =
     (if takeWhile isDigit s = [] then NaN
      else roundDouble (of_nat (digitsValue (takeWhile isDigit s)) +
        (case dropWhile isDigit s of
           [] \<Rightarrow> 0
         | c # rest \<Rightarrow>
             (if c = CHR ''.''
              then of_nat (digitsValue (takeWhile isDigit rest)) / 10 ^ length (takeWhile isDigit rest)
              else 0))))"

subsection \<open>The nodes the parser builds\<close>

definition numberNode :: "number \<Rightarrow> ASTNode" where
  "numberNode x = set_value (Some (VNumber x)) (emptyNode ''number'')"

definition stringNode :: "string \<Rightarrow> ASTNode" where
  "stringNode s = set_value (Some (VString s)) (emptyNode ''string'')"

definition charNode :: "string \<Rightarrow> ASTNode" where
  "charNode s = set_value (Some (VString s)) (emptyNode ''char'')"

definition identifierNode :: "string \<Rightarrow> ASTNode" where
  "identifierNode ident = set_value (Some (VString ident)) (emptyNode ''identifier'')"

definition binaryOpNode :: "string \<Rightarrow> ASTNode \<Rightarrow> ASTNode \<Rightarrow> ASTNode" where
  "binaryOpNode op l r =
     set_right (Some r) (set_left (Some l) (set_operator (Some op) (emptyNode ''binary_op'')))"

definition prefixNode :: "string \<Rightarrow> string \<Rightarrow> ASTNode" where
  "prefixNode op ident = set_identifier (Some ident) (set_operator (Some op) (emptyNode ''prefix''))"

definition postfixNode :: "string \<Rightarrow> string \<Rightarrow> ASTNode" where
  "postfixNode op ident = set_identifier (Some ident) (set_operator (Some op) (emptyNode ''postfix''))"

definition addressOfNode :: "ASTNode \<Rightarrow> ASTNode" where
  "addressOfNode r = set_right (Some r) (emptyNode ''address_of'')"

definition dereferenceNode :: "ASTNode \<Rightarrow> ASTNode" where
  "dereferenceNode r = set_right (Some r) (emptyNode ''dereference'')"

definition arrayAccessNode :: "string \<Rightarrow> ASTNode \<Rightarrow> ASTNode" where
  "arrayAccessNode ident index =
     set_value (Some (VNode index)) (set_identifier (Some ident) (emptyNode ''array_access''))"

definition functionCallNode :: "string \<Rightarrow> ASTNode list \<Rightarrow> ASTNode" where
  "functionCallNode ident args =
     set_arguments (Some args) (set_identifier (Some ident) (emptyNode ''function_call''))"

definition assignmentNode :: "string \<Rightarrow> ASTNode \<Rightarrow> string \<Rightarrow> ASTNode option \<Rightarrow> ASTNode" where
  "assignmentNode ident v op target =
     set_left target (set_operator (Some op) (set_value (Some (VNode v))
       (set_identifier (Some ident) (emptyNode ''assignment''))))"

definition preprocessorNode :: "string \<Rightarrow> ASTNode" where
  "preprocessorNode d = set_directive (Some d) (emptyNode ''preprocessor'')"

definition programNode :: "ASTNode list \<Rightarrow> ASTNode" where
  "programNode stmts = set_statements (Some stmts) (emptyNode ''program'')"

definition blockNode :: "ASTNode list \<Rightarrow> ASTNode" where
  "blockNode stmts = set_statements (Some stmts) (emptyNode ''block'')"

definition declarationNode :: "string \<Rightarrow> string \<Rightarrow> ASTNode option \<Rightarrow> bool \<Rightarrow> ASTNode" where
  "declarationNode dataType ident init isPointer =
     set_isPointer (Some isPointer) (set_init init (set_identifier (Some ident)
       (set_dataType (Some dataType) (emptyNode ''declaration''))))"

definition arrayDeclarationNode ::
  "string \<Rightarrow> string \<Rightarrow> ASTNode option \<Rightarrow> ASTNode option \<Rightarrow> bool \<Rightarrow> ASTNode" where
  "arrayDeclarationNode dataType ident sz init isPointer =
     set_isPointer (Some isPointer) (set_init init (set_size sz (set_isArray (Some True)
       (set_identifier (Some ident) (set_dataType (Some dataType) (emptyNode ''declaration''))))))"

definition functionNode :: "string \<Rightarrow> string \<Rightarrow> (string \<times> string) list \<Rightarrow> ASTNode \<Rightarrow> ASTNode" where
  "functionNode returnType name params b =
     set_body (Some (Inl b)) (set_parameters (Some params) (set_identifier (Some name)
       (set_returnType (Some returnType) (emptyNode ''function''))))"

definition ifNode :: "ASTNode \<Rightarrow> ASTNode \<Rightarrow> ASTNode option \<Rightarrow> ASTNode" where
  "ifNode c b e =
     set_elseBranch e (set_body (Some (Inl b)) (set_condition (Some c) (emptyNode ''if_statement'')))"

definition whileNode :: "ASTNode \<Rightarrow> ASTNode \<Rightarrow> ASTNode" where
  "whileNode c b = set_body (Some (Inl b)) (set_condition (Some c) (emptyNode ''while_loop''))"

definition doWhileNode :: "ASTNode \<Rightarrow> ASTNode \<Rightarrow> ASTNode" where
  "doWhileNode c b = set_body (Some (Inl b)) (set_condition (Some c) (emptyNode ''do_while''))"

definition switchNode ::
  "ASTNode \<Rightarrow> (ASTNode \<times> ASTNode list) list \<Rightarrow> ASTNode list option \<Rightarrow> ASTNode" where
  "switchNode t cs d = set_default d (set_cases (Some cs) (set_test (Some t) (emptyNode ''switch'')))"

definition forNode :: "ASTNode option \<Rightarrow> ASTNode option \<Rightarrow> ASTNode option \<Rightarrow> ASTNode \<Rightarrow> ASTNode" where
  "forNode i c inc b =
     set_body (Some (Inl b)) (set_increment inc (set_condition c (set_init i (emptyNode ''for_loop''))))"

definition returnNode :: "ASTNode option \<Rightarrow> ASTNode" where
  "returnNode v = set_value (map_option VNode v) (emptyNode ''return'')"

subsection \<open>The productions\<close>

text \<open>
  The methods of the parser call one another, so the model is one recursive
  function over the name of the method called. A loop inside a method is a call
  of its own, named after the method and carrying the local variables the loop
  changes; it runs the loop from its head and then the rest of the method.
\<close>

datatype production =
    Program "ASTNode list"
  | Statement
  | Declaration
  | DeclarationStars string bool
  | FunctionDeclaration string string bool
  | FunctionParams string string bool "(string \<times> string) list"
  | Block
  | BlockLoop "ASTNode list"
  | IfStatement
  | WhileLoop
  | DoWhileLoop
  | SwitchStatement
  | SwitchLoop ASTNode "(ASTNode \<times> ASTNode list) list" "ASTNode list option"
  | CaseBody ASTNode "(ASTNode \<times> ASTNode list) list" "ASTNode list option" ASTNode "ASTNode list"
  | DefaultBody ASTNode "(ASTNode \<times> ASTNode list) list" "ASTNode list"
  | ForLoop
  | ReturnStatement
  | AssignmentOrExpression
  | StatementCallArgs string "ASTNode list"
  | Expression
  | LogicalOr
  | LogicalOrLoop ASTNode
  | LogicalAnd
  | LogicalAndLoop ASTNode
  | Equality
  | EqualityLoop ASTNode
  | Relational
  | RelationalLoop ASTNode
  | Additive
  | AdditiveLoop ASTNode
  | Multiplicative
  | MultiplicativeLoop ASTNode
  | Power
  | Primary
  | PrimaryCallArgs string "ASTNode list"

type_synonym parser_fn = "production \<Rightarrow> pstate \<Rightarrow> (ASTNode, pstate) comp"

definition quote :: "string \<Rightarrow> string" where
  "quote s = [CHR 0x27] @ s @ [CHR 0x27]"

text \<open>\<^verbatim>\<open>program\<close>: the loop over the statements so far.\<close>

definition program_loop :: "parser_fn \<Rightarrow> ASTNode list \<Rightarrow> pstate \<Rightarrow> (ASTNode, pstate) comp" where
  "program_loop self statements st =
     (if tt st \<noteq> EOF
      then (if tt st = PREPROCESSOR
            then bindC (advance st) (\<lambda>t st.
                   self (Program (statements @ [preprocessorNode (tk_value t)])) st)
            else bindC (self Statement st) (\<lambda>s st. self (Program (statements @ [s])) st))
      else ret (programNode statements) st)"

lemma program_loop_mono [partial_function_mono]:
  "mono_option (\<lambda>f. program_loop (\<lambda>p st. f (p, st)) statements st)"
  unfolding program_loop_def by (intro partial_function_mono)

definition statement_body :: "parser_fn \<Rightarrow> pstate \<Rightarrow> (ASTNode, pstate) comp" where
  "statement_body self st =
     (if tt st = KEYWORD \<and>
         tv st \<in> set [''int'', ''float'', ''char'', ''void'', ''double'', ''long'', ''short'',
                       ''unsigned'', ''signed'']
      then self Declaration st
      else if tt st = KEYWORD \<and> tv st = ''if'' then self IfStatement st
      else if tt st = KEYWORD \<and> tv st = ''while'' then self WhileLoop st
      else if tt st = KEYWORD \<and> tv st = ''for'' then self ForLoop st
      else if tt st = KEYWORD \<and> tv st = ''do'' then self DoWhileLoop st
      else if tt st = KEYWORD \<and> tv st = ''switch'' then self SwitchStatement st
      else if tt st = KEYWORD \<and> tv st = ''break''
      then bindC (advance st) (\<lambda>t st. bindC (advanceIf SEMICOLON st) (\<lambda>u st.
             ret (emptyNode ''break'') st))
      else if tt st = KEYWORD \<and> tv st = ''continue''
      then bindC (advance st) (\<lambda>t st. bindC (advanceIf SEMICOLON st) (\<lambda>u st.
             ret (emptyNode ''continue'') st))
      else if tt st = KEYWORD \<and> tv st = ''return'' then self ReturnStatement st
      else if tt st = LBRACE then self Block st
      else if tt st = IDENTIFIER then self AssignmentOrExpression st
      else failWith (''Unexpected token '' @ quote (tv st)) (tp st)
             ''Expected declaration, statement, or expression'' ''Unexpected token'' st)"

lemma statement_body_mono [partial_function_mono]:
  "mono_option (\<lambda>f. statement_body (\<lambda>p st. f (p, st)) st)"
  unfolding statement_body_def by (intro partial_function_mono)

text \<open>\<^verbatim>\<open>declaration\<close>: the type keyword, then the loop over the leading \<^verbatim>\<open>*\<close>s.\<close>

definition declaration_body :: "parser_fn \<Rightarrow> pstate \<Rightarrow> (ASTNode, pstate) comp" where
  "declaration_body self st =
     bindC (advance st) (\<lambda>t st. self (DeclarationStars (tk_value t) False) st)"

lemma declaration_body_mono [partial_function_mono]:
  "mono_option (\<lambda>f. declaration_body (\<lambda>p st. f (p, st)) st)"
  unfolding declaration_body_def by (intro partial_function_mono)

definition declaration_stars ::
  "parser_fn \<Rightarrow> string \<Rightarrow> bool \<Rightarrow> pstate \<Rightarrow> (ASTNode, pstate) comp" where
  "declaration_stars self dataType isPointer st =
     (if tt st = OPERATOR \<and> tv st = ''*''
      then bindC (advance st) (\<lambda>t st. self (DeclarationStars dataType True) st)
      else if tt st \<noteq> IDENTIFIER
      then failWith ''Expected identifier after type'' (tp st)
             (''Add variable name after '' @ quote dataType) ''Expected identifier'' st
      else bindC (advance st) (\<lambda>idt st.
        if tt st = LBRACKET
        then bindC (advance st) (\<lambda>t st.
          bindC (if tt st = NUMBER
                 then bindC (advance st) (\<lambda>nt st.
                        ret (Some (numberNode (parseFloat (tk_value nt)))) st)
                 else ret None st) (\<lambda>sz st.
          if tt st \<noteq> RBRACKET
          then failWith ''Expected ] after array size'' (tp st)
                 ''Add ] to close array declaration'' ''Missing ]'' st
          else bindC (advance st) (\<lambda>t st.
            bindC (if tt st = ASSIGN
                   then bindC (advance st) (\<lambda>t st.
                          bindC (self Expression st) (\<lambda>e st. ret (Some e) st))
                   else ret None st) (\<lambda>init st.
            if tt st \<noteq> SEMICOLON
            then failWith ''Missing semicolon'' (tp st) ''Add ; after array declaration''
                   ''Missing semicolon'' st
            else bindC (advance st) (\<lambda>t st.
                   ret (arrayDeclarationNode dataType (tk_value idt) sz init isPointer) st)))))
        else if tt st = LPAREN
        then self (FunctionDeclaration dataType (tk_value idt) isPointer) st
        else bindC (if tt st = ASSIGN
                    then bindC (advance st) (\<lambda>t st.
                           bindC (self Expression st) (\<lambda>e st. ret (Some e) st))
                    else ret None st) (\<lambda>init st.
          if tt st \<noteq> SEMICOLON
          then failWith ''Missing semicolon'' (tp st)
                 (''Add '' @ quote '';'' @ '' after declaration'') ''Missing semicolon'' st
          else bindC (advance st) (\<lambda>t st.
                 ret (declarationNode dataType (tk_value idt) init isPointer) st))))"

lemma declaration_stars_mono [partial_function_mono]:
  "mono_option (\<lambda>f. declaration_stars (\<lambda>p st. f (p, st)) dataType isPointer st)"
  unfolding declaration_stars_def by (intro partial_function_mono)

text \<open>
  \<^verbatim>\<open>functionDeclaration\<close>. One round of its \<^verbatim>\<open>while (true)\<close> loop reads at most one
  parameter; the loop goes on after a comma.
\<close>

definition parameter ::
  "(string \<times> string) list \<Rightarrow> pstate \<Rightarrow> ((string \<times> string) list, pstate) comp" where
  "parameter params st =
     (if tt st = KEYWORD
      then bindC (advance st) (\<lambda>pt st.
        bindC (if tt st = OPERATOR \<and> tv st = ''*''
               then bindC (advance st) (\<lambda>t st. ret True st)
               else ret False st) (\<lambda>paramPointer st.
        if tt st = IDENTIFIER
        then bindC (advance st) (\<lambda>nt st.
               ret (params @ [(if paramPointer then tk_value pt @ ''*'' else tk_value pt,
                               tk_value nt)]) st)
        else ret params st))
      else ret params st)"

definition function_rest ::
  "parser_fn \<Rightarrow> string \<Rightarrow> string \<Rightarrow> bool \<Rightarrow> (string \<times> string) list \<Rightarrow> pstate
   \<Rightarrow> (ASTNode, pstate) comp" where
  "function_rest self returnType name isPointer params st =
     (if tt st \<noteq> RPAREN
      then failWith ''Missing closing parenthesis in function declaration'' (tp st)
             ''Add ) after parameters'' ''Missing )'' st
      else bindC (advance st) (\<lambda>t st. bindC (self Block st) (\<lambda>b st.
             ret (functionNode (if isPointer then returnType @ ''*'' else returnType)
                    name params b) st)))"

lemma function_rest_mono [partial_function_mono]:
  "mono_option (\<lambda>f. function_rest (\<lambda>p st. f (p, st)) returnType name isPointer params st)"
  unfolding function_rest_def by (intro partial_function_mono)

definition function_declaration_body ::
  "parser_fn \<Rightarrow> string \<Rightarrow> string \<Rightarrow> bool \<Rightarrow> pstate \<Rightarrow> (ASTNode, pstate) comp" where
  "function_declaration_body self returnType name isPointer st =
     bindC (advance st) (\<lambda>t st.
       if tt st \<noteq> RPAREN then self (FunctionParams returnType name isPointer []) st
       else function_rest self returnType name isPointer [] st)"

lemma function_declaration_body_mono [partial_function_mono]:
  "mono_option (\<lambda>f. function_declaration_body (\<lambda>p st. f (p, st)) returnType name isPointer st)"
  unfolding function_declaration_body_def by (intro partial_function_mono)

definition function_params ::
  "parser_fn \<Rightarrow> string \<Rightarrow> string \<Rightarrow> bool \<Rightarrow> (string \<times> string) list \<Rightarrow> pstate
   \<Rightarrow> (ASTNode, pstate) comp" where
  "function_params self returnType name isPointer params st =
     bindC (parameter params st) (\<lambda>params st.
       if tt st = COMMA
       then bindC (advance st) (\<lambda>t st. self (FunctionParams returnType name isPointer params) st)
       else function_rest self returnType name isPointer params st)"

lemma function_params_mono [partial_function_mono]:
  "mono_option (\<lambda>f. function_params (\<lambda>p st. f (p, st)) returnType name isPointer params st)"
  unfolding function_params_def by (intro partial_function_mono)

definition block_body :: "parser_fn \<Rightarrow> pstate \<Rightarrow> (ASTNode, pstate) comp" where
  "block_body self st =
     (if tt st \<noteq> LBRACE
      then failWith ''Expected {'' (tp st) ''Add { to start block'' ''Expected {'' st
      else bindC (advance st) (\<lambda>t st. self (BlockLoop []) st))"

lemma block_body_mono [partial_function_mono]:
  "mono_option (\<lambda>f. block_body (\<lambda>p st. f (p, st)) st)"
  unfolding block_body_def by (intro partial_function_mono)

definition block_loop :: "parser_fn \<Rightarrow> ASTNode list \<Rightarrow> pstate \<Rightarrow> (ASTNode, pstate) comp" where
  "block_loop self statements st =
     (if tt st \<noteq> RBRACE \<and> tt st \<noteq> EOF
      then bindC (self Statement st) (\<lambda>s st. self (BlockLoop (statements @ [s])) st)
      else if tt st \<noteq> RBRACE
      then failWith ''Missing closing brace'' (tp st) ''Add } to close block'' ''Missing }'' st
      else bindC (advance st) (\<lambda>t st. ret (blockNode statements) st))"

lemma block_loop_mono [partial_function_mono]:
  "mono_option (\<lambda>f. block_loop (\<lambda>p st. f (p, st)) statements st)"
  unfolding block_loop_def by (intro partial_function_mono)

text \<open>\<^verbatim>\<open>this.currentToken().type === 'LBRACE' ? this.block() : this.statement()\<close>.\<close>

definition block_or_statement :: "parser_fn \<Rightarrow> pstate \<Rightarrow> (ASTNode, pstate) comp" where
  "block_or_statement self st = (if tt st = LBRACE then self Block st else self Statement st)"

lemma block_or_statement_mono [partial_function_mono]:
  "mono_option (\<lambda>f. block_or_statement (\<lambda>p st. f (p, st)) st)"
  unfolding block_or_statement_def by (intro partial_function_mono)

definition if_statement_body :: "parser_fn \<Rightarrow> pstate \<Rightarrow> (ASTNode, pstate) comp" where
  "if_statement_body self st =
     bindC (advance st) (\<lambda>t st.
     if tt st \<noteq> LPAREN
     then failWith ''Expected ( after if'' (tp st) ''Add ( before condition'' ''Expected ('' st
     else bindC (advance st) (\<lambda>t st.
     bindC (self Expression st) (\<lambda>condition st.
     if tt st \<noteq> RPAREN
     then failWith ''Expected ) after condition'' (tp st) ''Add ) after if condition''
            ''Expected )'' st
     else bindC (advance st) (\<lambda>t st.
     bindC (block_or_statement self st) (\<lambda>b st.
     bindC (if tt st = KEYWORD \<and> tv st = ''else''
            then bindC (advance st) (\<lambda>t st.
                   bindC (block_or_statement self st) (\<lambda>e st. ret (Some e) st))
            else ret None st) (\<lambda>elseBranch st.
     ret (ifNode condition b elseBranch) st))))))"

lemma if_statement_body_mono [partial_function_mono]:
  "mono_option (\<lambda>f. if_statement_body (\<lambda>p st. f (p, st)) st)"
  unfolding if_statement_body_def by (intro partial_function_mono)

definition while_loop_body :: "parser_fn \<Rightarrow> pstate \<Rightarrow> (ASTNode, pstate) comp" where
  "while_loop_body self st =
     bindC (advance st) (\<lambda>t st.
     if tt st \<noteq> LPAREN
     then failWith ''Expected ( after while'' (tp st) ''Add ( before condition'' ''Expected ('' st
     else bindC (advance st) (\<lambda>t st.
     bindC (self Expression st) (\<lambda>condition st.
     if tt st \<noteq> RPAREN
     then failWith ''Expected ) after condition'' (tp st) ''Add ) after while condition''
            ''Expected )'' st
     else bindC (advance st) (\<lambda>t st.
     bindC (block_or_statement self st) (\<lambda>b st.
     ret (whileNode condition b) st)))))"

lemma while_loop_body_mono [partial_function_mono]:
  "mono_option (\<lambda>f. while_loop_body (\<lambda>p st. f (p, st)) st)"
  unfolding while_loop_body_def by (intro partial_function_mono)

definition do_while_loop_body :: "parser_fn \<Rightarrow> pstate \<Rightarrow> (ASTNode, pstate) comp" where
  "do_while_loop_body self st =
     bindC (advance st) (\<lambda>t st.
     bindC (block_or_statement self st) (\<lambda>b st.
     if \<not> (tt st = KEYWORD \<and> tv st = ''while'')
     then failWith (''Expected '' @ quote ''while'' @ '' after do body'') (tp st)
            (''Add '' @ [CHR 0x27] @ ''while (condition)'' @ [CHR 0x27] @ '' after do block'')
            (''Expected '' @ quote ''while'') st
     else bindC (advance st) (\<lambda>t st.
     if tt st \<noteq> LPAREN
     then failWith ''Expected ( after while'' (tp st) ''Add ( before condition'' ''Expected ('' st
     else bindC (advance st) (\<lambda>t st.
     bindC (self Expression st) (\<lambda>condition st.
     if tt st \<noteq> RPAREN
     then failWith ''Expected ) after condition'' (tp st) ''Add ) after condition''
            ''Expected )'' st
     else bindC (advance st) (\<lambda>t st.
     bindC (advanceIf SEMICOLON st) (\<lambda>u st.
     ret (doWhileNode condition b) st)))))))"

lemma do_while_loop_body_mono [partial_function_mono]:
  "mono_option (\<lambda>f. do_while_loop_body (\<lambda>p st. f (p, st)) st)"
  unfolding do_while_loop_body_def by (intro partial_function_mono)

text \<open>
  \<^verbatim>\<open>switchStatement\<close>: the header, the loop over the \<^verbatim>\<open>case\<close> and \<^verbatim>\<open>default\<close>
  entries, the loops over the statements of one entry, and the closing brace.
\<close>

definition switchEnd ::
  "ASTNode \<Rightarrow> (ASTNode \<times> ASTNode list) list \<Rightarrow> ASTNode list option \<Rightarrow> pstate
   \<Rightarrow> (ASTNode, pstate) comp" where
  "switchEnd test cases defaultCase st =
     (if tt st \<noteq> RBRACE
      then failWith ''Expected } to close switch'' (tp st) ''Add } to close switch statement''
             ''Expected }'' st
      else bindC (advance st) (\<lambda>t st. ret (switchNode test cases defaultCase) st))"

definition switch_statement_body :: "parser_fn \<Rightarrow> pstate \<Rightarrow> (ASTNode, pstate) comp" where
  "switch_statement_body self st =
     bindC (advance st) (\<lambda>t st.
     if tt st \<noteq> LPAREN
     then failWith ''Expected ( after switch'' (tp st) ''Add ( before expression'' ''Expected ('' st
     else bindC (advance st) (\<lambda>t st.
     bindC (self Expression st) (\<lambda>test st.
     if tt st \<noteq> RPAREN
     then failWith ''Expected ) after switch expression'' (tp st) ''Add ) after expression''
            ''Expected )'' st
     else bindC (advance st) (\<lambda>t st.
     if tt st \<noteq> LBRACE
     then failWith ''Expected { after switch'' (tp st) ''Add { to start switch body''
            ''Expected {'' st
     else bindC (advance st) (\<lambda>t st. self (SwitchLoop test [] None) st)))))"

lemma switch_statement_body_mono [partial_function_mono]:
  "mono_option (\<lambda>f. switch_statement_body (\<lambda>p st. f (p, st)) st)"
  unfolding switch_statement_body_def by (intro partial_function_mono)

definition switch_loop ::
  "parser_fn \<Rightarrow> ASTNode \<Rightarrow> (ASTNode \<times> ASTNode list) list \<Rightarrow> ASTNode list option \<Rightarrow> pstate
   \<Rightarrow> (ASTNode, pstate) comp" where
  "switch_loop self test cases defaultCase st =
     (if tt st \<noteq> RBRACE \<and> tt st \<noteq> EOF
      then (if tt st = KEYWORD
            then (if tv st = ''case''
                  then bindC (advance st) (\<lambda>t st.
                    bindC (self Expression st) (\<lambda>v st.
                    bindC (if tt st \<noteq> SEMICOLON
                           then ret () (pushError ''Expected : after case value'' (tp st)
                                  ''Add : after case value'' st)
                           else bindC (advance st) (\<lambda>t st. ret () st)) (\<lambda>u st.
                    self (CaseBody test cases defaultCase v []) st)))
                  else if tv st = ''default''
                  then bindC (advance st) (\<lambda>t st.
                    bindC (advanceIf SEMICOLON st) (\<lambda>u st.
                    self (DefaultBody test cases []) st))
                  else switchEnd test cases defaultCase st)
            else switchEnd test cases defaultCase st)
      else switchEnd test cases defaultCase st)"

lemma switch_loop_mono [partial_function_mono]:
  "mono_option (\<lambda>f. switch_loop (\<lambda>p st. f (p, st)) test cases defaultCase st)"
  unfolding switch_loop_def by (intro partial_function_mono)

definition case_body ::
  "parser_fn \<Rightarrow> ASTNode \<Rightarrow> (ASTNode \<times> ASTNode list) list \<Rightarrow> ASTNode list option \<Rightarrow> ASTNode
   \<Rightarrow> ASTNode list \<Rightarrow> pstate \<Rightarrow> (ASTNode, pstate) comp" where
  "case_body self test cases defaultCase v body st =
     (if tt st \<noteq> KEYWORD \<and> tt st \<noteq> RBRACE \<and> tt st \<noteq> EOF
      then bindC (self Statement st) (\<lambda>s st.
             self (CaseBody test cases defaultCase v (body @ [s])) st)
      else self (SwitchLoop test (cases @ [(v, body)]) defaultCase) st)"

lemma case_body_mono [partial_function_mono]:
  "mono_option (\<lambda>f. case_body (\<lambda>p st. f (p, st)) test cases defaultCase v body st)"
  unfolding case_body_def by (intro partial_function_mono)

definition default_body ::
  "parser_fn \<Rightarrow> ASTNode \<Rightarrow> (ASTNode \<times> ASTNode list) list \<Rightarrow> ASTNode list \<Rightarrow> pstate
   \<Rightarrow> (ASTNode, pstate) comp" where
  "default_body self test cases body st =
     (if tt st \<noteq> KEYWORD \<and> tt st \<noteq> RBRACE \<and> tt st \<noteq> EOF
      then bindC (self Statement st) (\<lambda>s st. self (DefaultBody test cases (body @ [s])) st)
      else self (SwitchLoop test cases (Some body)) st)"

lemma default_body_mono [partial_function_mono]:
  "mono_option (\<lambda>f. default_body (\<lambda>p st. f (p, st)) test cases body st)"
  unfolding default_body_def by (intro partial_function_mono)

definition for_loop_body :: "parser_fn \<Rightarrow> pstate \<Rightarrow> (ASTNode, pstate) comp" where
  "for_loop_body self st =
     bindC (advance st) (\<lambda>t st.
     if tt st \<noteq> LPAREN
     then failWith ''Expected ( after for'' (tp st) ''Add ( before for clauses'' ''Expected ('' st
     else bindC (advance st) (\<lambda>t st.
     bindC (if tt st = SEMICOLON then ret None st
            else bindC (self Statement st) (\<lambda>s st. ret (Some s) st)) (\<lambda>init st.
     bindC (if tt st = SEMICOLON then ret None st
            else bindC (self Expression st) (\<lambda>e st. ret (Some e) st)) (\<lambda>condition st.
     bindC (advanceIf SEMICOLON st) (\<lambda>u st.
     bindC (if tt st = RPAREN then ret None st
            else bindC (self AssignmentOrExpression st) (\<lambda>e st. ret (Some e) st)) (\<lambda>increment st.
     if tt st \<noteq> RPAREN
     then failWith ''Expected ) after for clauses'' (tp st) ''Add ) after for loop header''
            ''Expected )'' st
     else bindC (advance st) (\<lambda>t st.
     bindC (block_or_statement self st) (\<lambda>b st.
     ret (forNode init condition increment b) st))))))))"

lemma for_loop_body_mono [partial_function_mono]:
  "mono_option (\<lambda>f. for_loop_body (\<lambda>p st. f (p, st)) st)"
  unfolding for_loop_body_def by (intro partial_function_mono)

definition return_statement_body :: "parser_fn \<Rightarrow> pstate \<Rightarrow> (ASTNode, pstate) comp" where
  "return_statement_body self st =
     bindC (advance st) (\<lambda>t st.
     bindC (if tt st \<noteq> SEMICOLON
            then bindC (self Expression st) (\<lambda>e st. ret (Some e) st)
            else ret None st) (\<lambda>v st.
     if tt st \<noteq> SEMICOLON
     then failWith ''Missing semicolon after return'' (tp st) ''Add ; after return statement''
            ''Missing semicolon'' st
     else bindC (advance st) (\<lambda>t st. ret (returnNode v) st)))"

lemma return_statement_body_mono [partial_function_mono]:
  "mono_option (\<lambda>f. return_statement_body (\<lambda>p st. f (p, st)) st)"
  unfolding return_statement_body_def by (intro partial_function_mono)

text \<open>
  \<^verbatim>\<open>assignmentOrExpression\<close>. After a subscript that no assignment follows, and
  after a plain identifier, the method goes on with the call, the postfix and the
  assignment forms, and at last steps the cursor back by one and parses an
  expression.
\<close>

definition assignment_rest :: "parser_fn \<Rightarrow> string \<Rightarrow> pstate \<Rightarrow> (ASTNode, pstate) comp" where
  "assignment_rest self ident st =
     (if tt st = LPAREN
      then bindC (advance st) (\<lambda>t st. self (StatementCallArgs ident []) st)
      else if tt st = INCREMENT \<or> tt st = DECREMENT
      then bindC (advance st) (\<lambda>op st. bindC (advanceIf SEMICOLON st) (\<lambda>u st.
             ret (postfixNode (tk_value op) ident) st))
      else if tt st = ASSIGN \<or> tt st = COMPOUND_ASSIGN
      then bindC (advance st) (\<lambda>op st. bindC (self Expression st) (\<lambda>v st.
             bindC (advanceIf SEMICOLON st) (\<lambda>u st.
             ret (assignmentNode ident v (tk_value op) None) st)))
      else bindC (self Expression (st\<lparr>p_current := p_current st - 1\<rparr>)) (\<lambda>e st.
             bindC (advanceIf SEMICOLON st) (\<lambda>u st. ret e st)))"

lemma assignment_rest_mono [partial_function_mono]:
  "mono_option (\<lambda>f. assignment_rest (\<lambda>p st. f (p, st)) ident st)"
  unfolding assignment_rest_def by (intro partial_function_mono)

definition assignment_or_expression_body ::
  "parser_fn \<Rightarrow> pstate \<Rightarrow> (ASTNode, pstate) comp" where
  "assignment_or_expression_body self st =
     bindC (advance st) (\<lambda>idt st.
       if tt st = LBRACKET
       then bindC (advance st) (\<lambda>t st. bindC (self Expression st) (\<lambda>index st.
         if tt st \<noteq> RBRACKET
         then failWith ''Expected ] after array index'' (tp st) ''Add ] to close array subscript''
                ''Missing ]'' st
         else bindC (advance st) (\<lambda>t st.
           if tt st = ASSIGN \<or> tt st = COMPOUND_ASSIGN
           then bindC (advance st) (\<lambda>op st. bindC (self Expression st) (\<lambda>v st.
                  bindC (advanceIf SEMICOLON st) (\<lambda>u st.
                  ret (assignmentNode (tk_value idt) v (tk_value op)
                         (Some (arrayAccessNode (tk_value idt) index))) st)))
           else assignment_rest self (tk_value idt) st)))
       else assignment_rest self (tk_value idt) st)"

lemma assignment_or_expression_body_mono [partial_function_mono]:
  "mono_option (\<lambda>f. assignment_or_expression_body (\<lambda>p st. f (p, st)) st)"
  unfolding assignment_or_expression_body_def by (intro partial_function_mono)

definition statement_call_args ::
  "parser_fn \<Rightarrow> string \<Rightarrow> ASTNode list \<Rightarrow> pstate \<Rightarrow> (ASTNode, pstate) comp" where
  "statement_call_args self ident args st =
     (if tt st \<noteq> RPAREN \<and> tt st \<noteq> EOF
      then bindC (self Expression st) (\<lambda>e st. bindC (advanceIf COMMA st) (\<lambda>u st.
             self (StatementCallArgs ident (args @ [e])) st))
      else if tt st \<noteq> RPAREN
      then failWith ''Expected ) after function arguments'' (tp st) ''Add ) to close function call''
             ''Missing )'' st
      else bindC (advance st) (\<lambda>t st. bindC (advanceIf SEMICOLON st) (\<lambda>u st.
             ret (functionCallNode ident args) st)))"

lemma statement_call_args_mono [partial_function_mono]:
  "mono_option (\<lambda>f. statement_call_args (\<lambda>p st. f (p, st)) ident args st)"
  unfolding statement_call_args_def by (intro partial_function_mono)

text \<open>
  The levels of binary operators: each parses an operand of the next level and
  then loops while an operator of its own level follows.
\<close>

definition binary_level ::
  "parser_fn \<Rightarrow> production \<Rightarrow> (ASTNode \<Rightarrow> production) \<Rightarrow> pstate \<Rightarrow> (ASTNode, pstate) comp" where
  "binary_level self operand loop st = bindC (self operand st) (\<lambda>left st. self (loop left) st)"

lemma binary_level_mono [partial_function_mono]:
  "mono_option (\<lambda>f. binary_level (\<lambda>p st. f (p, st)) operand loop st)"
  unfolding binary_level_def by (intro partial_function_mono)

definition binary_loop ::
  "parser_fn \<Rightarrow> bool \<Rightarrow> production \<Rightarrow> (ASTNode \<Rightarrow> production) \<Rightarrow> ASTNode \<Rightarrow> pstate
   \<Rightarrow> (ASTNode, pstate) comp" where
  "binary_loop self matches operand loop left st =
     (if matches
      then bindC (advance st) (\<lambda>op st. bindC (self operand st) (\<lambda>r st.
             self (loop (binaryOpNode (tk_value op) left r)) st))
      else ret left st)"

lemma binary_loop_mono [partial_function_mono]:
  "mono_option (\<lambda>f. binary_loop (\<lambda>p st. f (p, st)) matches operand loop left st)"
  unfolding binary_loop_def by (intro partial_function_mono)

definition power_body :: "parser_fn \<Rightarrow> pstate \<Rightarrow> (ASTNode, pstate) comp" where
  "power_body self st =
     bindC (self Primary st) (\<lambda>left st.
       if tt st = OPERATOR \<and> tv st = ''^''
       then bindC (advance st) (\<lambda>op st. bindC (self Power st) (\<lambda>r st.
              ret (binaryOpNode (tk_value op) left r) st))
       else ret left st)"

lemma power_body_mono [partial_function_mono]:
  "mono_option (\<lambda>f. power_body (\<lambda>p st. f (p, st)) st)"
  unfolding power_body_def by (intro partial_function_mono)

definition primary_call_args ::
  "parser_fn \<Rightarrow> string \<Rightarrow> ASTNode list \<Rightarrow> pstate \<Rightarrow> (ASTNode, pstate) comp" where
  "primary_call_args self ident args st =
     (if tt st \<noteq> RPAREN \<and> tt st \<noteq> EOF
      then bindC (self Expression st) (\<lambda>e st. bindC (advanceIf COMMA st) (\<lambda>u st.
             self (PrimaryCallArgs ident (args @ [e])) st))
      else if tt st \<noteq> RPAREN
      then failWith ''Expected ) after function arguments'' (tp st) ''Add ) to close function call''
             ''Missing )'' st
      else bindC (advance st) (\<lambda>t st. ret (functionCallNode ident args) st))"

lemma primary_call_args_mono [partial_function_mono]:
  "mono_option (\<lambda>f. primary_call_args (\<lambda>p st. f (p, st)) ident args st)"
  unfolding primary_call_args_def by (intro partial_function_mono)

text \<open>
  \<^verbatim>\<open>primary\<close> tests the token it read on entry. After \<^verbatim>\<open>++\<close> or \<^verbatim>\<open>--\<close> that no
  identifier follows, it goes on with the later tests on that first token, the
  cursor being one token further.
\<close>

definition primary_rest :: "parser_fn \<Rightarrow> Token \<Rightarrow> pstate \<Rightarrow> (ASTNode, pstate) comp" where
  "primary_rest self token st =
     (if tk_type token = LOGICAL \<and> tk_value token = ''!''
      then bindC (advance st) (\<lambda>t st. bindC (self Primary st) (\<lambda>r st.
             ret (binaryOpNode ''!'' (numberNode (Finite 0)) r) st))
      else if tk_type token = AMPERSAND
      then bindC (advance st) (\<lambda>t st. bindC (self Primary st) (\<lambda>r st. ret (addressOfNode r) st))
      else if tk_type token = OPERATOR \<and> tk_value token = ''*''
      then bindC (advance st) (\<lambda>t st. bindC (self Primary st) (\<lambda>r st. ret (dereferenceNode r) st))
      else if tk_type token = IDENTIFIER
      then bindC (advance st) (\<lambda>idt st.
        if tt st = LBRACKET
        then bindC (advance st) (\<lambda>t st. bindC (self Expression st) (\<lambda>index st.
          if tt st \<noteq> RBRACKET
          then failWith ''Expected ] after array index'' (tp st) ''Add ] to close array subscript''
                 ''Missing ]'' st
          else bindC (advance st) (\<lambda>t st. ret (arrayAccessNode (tk_value idt) index) st)))
        else if tt st = LPAREN
        then bindC (advance st) (\<lambda>t st. self (PrimaryCallArgs (tk_value idt) []) st)
        else ret (identifierNode (tk_value idt)) st)
      else if tk_type token = LPAREN
      then bindC (advance st) (\<lambda>t st. bindC (self Expression st) (\<lambda>e st.
        if tt st \<noteq> RPAREN
        then failWith ''Missing closing parenthesis'' (tk_position token)
               (''Add '' @ quote '')'' @ '' after position '' @ showNat (tp st))
               ''Missing closing parenthesis'' st
        else bindC (advance st) (\<lambda>t st. ret e st)))
      else if tk_type token = RPAREN
      then failWith ''Unexpected closing parenthesis'' (tk_position token)
             ''Remove extra ) or add matching ( before it'' ''Unexpected )'' st
      else if tk_type token = OPERATOR
      then (if tk_value token \<in> set [''+'', ''-'']
            then bindC (advance st) (\<lambda>op st. bindC (self Primary st) (\<lambda>operand st.
                   ret (binaryOpNode (if tk_value op = ''-'' then ''unary_neg'' else ''unary_pos'')
                          (numberNode (Finite 0)) operand) st))
            else failWith (''Expected number or '' @ quote ''('' @ '' but got operator '' @
                             quote (tk_value token)) (tk_position token)
                   ''Add a number or expression before the operator'' ''Unexpected operator'' st)
      else failWith (''Expected number or '' @ quote ''('' @ '' but got '' @ quote (tk_value token))
             (tk_position token) ''Expression must start with a number or ('' ''Unexpected token'' st)"

lemma primary_rest_mono [partial_function_mono]:
  "mono_option (\<lambda>f. primary_rest (\<lambda>p st. f (p, st)) token st)"
  unfolding primary_rest_def by (intro partial_function_mono)

definition primary_body :: "parser_fn \<Rightarrow> pstate \<Rightarrow> (ASTNode, pstate) comp" where
  "primary_body self st =
     (if tt st = NUMBER
      then bindC (advance st) (\<lambda>t st. ret (numberNode (parseFloat (tk_value t))) st)
      else if tt st = STRING
      then bindC (advance st) (\<lambda>t st. ret (stringNode (tk_value t)) st)
      else if tt st = CHAR'
      then bindC (advance st) (\<lambda>t st. ret (charNode (tk_value t)) st)
      else if tt st = INCREMENT \<or> tt st = DECREMENT
      then bindC (advance st) (\<lambda>op st.
             if tt st = IDENTIFIER
             then bindC (advance st) (\<lambda>idt st. ret (prefixNode (tk_value op) (tk_value idt)) st)
             else primary_rest self op st)
      else primary_rest self (currentToken st) st)"

lemma primary_body_mono [partial_function_mono]:
  "mono_option (\<lambda>f. primary_body (\<lambda>p st. f (p, st)) st)"
  unfolding primary_body_def by (intro partial_function_mono)

text \<open>The call of one method, \<open>self\<close> standing for the calls it makes.\<close>

definition parser_step :: "parser_fn \<Rightarrow> production \<Rightarrow> pstate \<Rightarrow> (ASTNode, pstate) comp" where
  "parser_step self p st =
     (case p of
        Program statements \<Rightarrow> program_loop self statements st
      | Statement \<Rightarrow> statement_body self st
      | Declaration \<Rightarrow> declaration_body self st
      | DeclarationStars dataType isPointer \<Rightarrow> declaration_stars self dataType isPointer st
      | FunctionDeclaration returnType name isPointer \<Rightarrow>
          function_declaration_body self returnType name isPointer st
      | FunctionParams returnType name isPointer params \<Rightarrow>
          function_params self returnType name isPointer params st
      | Block \<Rightarrow> block_body self st
      | BlockLoop statements \<Rightarrow> block_loop self statements st
      | IfStatement \<Rightarrow> if_statement_body self st
      | WhileLoop \<Rightarrow> while_loop_body self st
      | DoWhileLoop \<Rightarrow> do_while_loop_body self st
      | SwitchStatement \<Rightarrow> switch_statement_body self st
      | SwitchLoop test cases defaultCase \<Rightarrow> switch_loop self test cases defaultCase st
      | CaseBody test cases defaultCase v body \<Rightarrow> case_body self test cases defaultCase v body st
      | DefaultBody test cases body \<Rightarrow> default_body self test cases body st
      | ForLoop \<Rightarrow> for_loop_body self st
      | ReturnStatement \<Rightarrow> return_statement_body self st
      | AssignmentOrExpression \<Rightarrow> assignment_or_expression_body self st
      | StatementCallArgs ident args \<Rightarrow> statement_call_args self ident args st
      | Expression \<Rightarrow> self LogicalOr st
      | LogicalOr \<Rightarrow> binary_level self LogicalAnd LogicalOrLoop st
      | LogicalOrLoop left \<Rightarrow>
          binary_loop self (tt st = LOGICAL \<and> tv st = ''||'') LogicalAnd LogicalOrLoop left st
      | LogicalAnd \<Rightarrow> binary_level self Equality LogicalAndLoop st
      | LogicalAndLoop left \<Rightarrow>
          binary_loop self (tt st = LOGICAL \<and> tv st = ''&&'') Equality LogicalAndLoop left st
      | Equality \<Rightarrow> binary_level self Relational EqualityLoop st
      | EqualityLoop left \<Rightarrow>
          binary_loop self (tt st = COMPARISON \<and> (tv st = ''=='' \<or> tv st = ''!=''))
            Relational EqualityLoop left st
      | Relational \<Rightarrow> binary_level self Additive RelationalLoop st
      | RelationalLoop left \<Rightarrow>
          binary_loop self (tt st = COMPARISON \<and> tv st \<in> set [''<'', ''>'', ''<='', ''>=''])
            Additive RelationalLoop left st
      | Additive \<Rightarrow> binary_level self Multiplicative AdditiveLoop st
      | AdditiveLoop left \<Rightarrow>
          binary_loop self (tt st = OPERATOR \<and> tv st \<in> set [''+'', ''-''])
            Multiplicative AdditiveLoop left st
      | Multiplicative \<Rightarrow> binary_level self Power MultiplicativeLoop st
      | MultiplicativeLoop left \<Rightarrow>
          binary_loop self (tt st = OPERATOR \<and> tv st \<in> set [''*'', ''/'', ''%''])
            Power MultiplicativeLoop left st
      | Power \<Rightarrow> power_body self st
      | Primary \<Rightarrow> primary_body self st
      | PrimaryCallArgs ident args \<Rightarrow> primary_call_args self ident args st)"

lemma parser_step_mono [partial_function_mono]:
  "mono_option (\<lambda>f. parser_step (\<lambda>p st. f (p, st)) p st)"
  unfolding parser_step_def
  by (cases p; simp only: production.case; intro partial_function_mono)

partial_function (option) parser :: "production \<Rightarrow> pstate \<Rightarrow> (ASTNode, pstate) comp" where
  "parser p st = parser_step parser p st"

text \<open>The two top productions, by their names in the source.\<close>

definition program :: "pstate \<Rightarrow> (ASTNode, pstate) comp" where
  "program = parser (Program [])"

definition expression :: "pstate \<Rightarrow> (ASTNode, pstate) comp" where
  "expression = parser Expression"

subsection \<open>\<^verbatim>\<open>parse\<close> and \<^verbatim>\<open>parseExpression\<close>\<close>

definition hasCFeatures :: "Token list \<Rightarrow> bool" where
  "hasCFeatures tokens =
     list_ex (\<lambda>t. tk_type t = KEYWORD \<or> tk_type t = SEMICOLON \<or> tk_type t = LBRACE \<or>
                   tk_type t = RBRACE \<or> tk_type t = PREPROCESSOR) tokens"

text \<open>\<^verbatim>\<open>{ success: false, errors }\<close> and \<^verbatim>\<open>{ success: true, tree }\<close>.\<close>

definition failure :: "ParseError list \<Rightarrow> ParseResult" where
  "failure errs = \<lparr>success = False, tree = None, errors = Some errs\<rparr>"

definition succeeded :: "ASTNode \<Rightarrow> ParseResult" where
  "succeeded t = \<lparr>success = True, tree = Some t, errors = None\<rparr>"

text \<open>
  The end of \<^verbatim>\<open>parse\<close>, after the top production returned the tree \<open>t\<close>: a token
  other than \<^verbatim>\<open>EOF\<close> at the cursor adds an error, and any error recorded makes the
  result a failure.
\<close>

definition afterTopProduction :: "ASTNode \<Rightarrow> pstate \<Rightarrow> ParseResult" where
  "afterTopProduction t st =
     (if p_errors (if tt st \<noteq> EOF
                   then pushError (''Unexpected token '' @ quote (tv st)) (tp st)
                          ''Check for missing operators, semicolons, or braces'' st
                   else st) \<noteq> []
      then failure (p_errors (if tt st \<noteq> EOF
                   then pushError (''Unexpected token '' @ quote (tv st)) (tp st)
                          ''Check for missing operators, semicolons, or braces'' st
                   else st))
      else succeeded t)"

text \<open>
  \<^verbatim>\<open>parse\<close>. With an empty token array the first read of the current token's
  type throws a \<^verbatim>\<open>TypeError\<close>, which the \<^verbatim>\<open>catch\<close> turns into a failure with the
  errors recorded so far, that is none. \<^const>\<open>None\<close> is a top production that does
  not return.
\<close>

definition parse :: "Token list \<Rightarrow> ParseResult option" where
  "parse tokens =
     (if tokens = [] then Some (failure [])
      else
        (case find (\<lambda>t. tk_type t = INVALID) tokens of
           Some invalidToken \<Rightarrow>
             Some (failure
               [\<lparr>pe_message = ''Invalid character '' @ quote (tk_value invalidToken),
                 pe_position = tk_position invalidToken,
                 pe_suggestion = ''Remove '' @ quote (tk_value invalidToken) @
                                 '' or use valid characters''\<rparr>])
         | None \<Rightarrow>
             (case (if hasCFeatures tokens then program else expression)
                     \<lparr>p_tokens = tokens, p_current = 0, p_errors = []\<rparr> of
                None \<Rightarrow> None
              | Some (r, st) \<Rightarrow>
                  (case r of
                     Inl e \<Rightarrow> Some (failure (p_errors st))
                   | Inr t \<Rightarrow> Some (afterTopProduction t st)))))"

definition parseExpression :: "string \<Rightarrow> ParseResult option" where
  "parseExpression input =
     (if trim input = []
      then Some (failure
             [\<lparr>pe_message = ''Empty expression'', pe_position = 0,
               pe_suggestion = ''Enter an arithmetic expression or C program''\<rparr>])
      else parse (tokenize (Lexer input)))"

section \<open>The arithmetic evaluator\<close>

text \<open>
  \<^verbatim>\<open>evaluateAST\<close>. \<^const>\<open>Inl\<close> is the message of the \<^verbatim>\<open>Error\<close> thrown. The operator
  is applied to the values of both operands, the left one evaluated first.
\<close>

definition evaluateOperator :: "host \<Rightarrow> string option \<Rightarrow> jsval \<Rightarrow> jsval \<Rightarrow> string + jsval" where
  "evaluateOperator h op l r =
     (if op = Some ''+'' then Inr (js_add h l r)
      else if op = Some ''-'' then Inr (js_sub h l r)
      else if op = Some ''*'' then Inr (js_mul h l r)
      else if op = Some ''/''
      then (if strictEq r (JNumber (Finite 0)) then Inl ''Division by zero''
            else Inr (js_div h l r))
      else if op = Some ''%'' then Inr (js_mod h l r)
      else if op = Some ''^'' then Inr (JNumber (num_pow h (ToNumber h l) (ToNumber h r)))
      else if op = Some ''unary_neg'' then Inr (js_neg h r)
      else if op = Some ''unary_pos'' then Inr r
      else Inl (''Unknown operator: '' @ optText op))"

text \<open>The two last tests of \<^verbatim>\<open>evaluateAST\<close>, which a node of no earlier case reaches.\<close>

definition evaluateOther :: "ASTNode \<Rightarrow> string + jsval" where
  "evaluateOther node =
     (if n_type node \<in> set
          [''program'', ''declaration'', ''function'', ''if_statement'', ''while_loop'',
           ''for_loop'', ''do_while'', ''switch'', ''function_call'', ''array_access'',
           ''assignment'', ''break'', ''continue'', ''return'', ''preprocessor'',
           ''string'', ''char'', ''postfix'', ''prefix'', ''address_of'', ''dereference'']
      then Inl ''Cannot evaluate C program structure - this parser focuses on syntax analysis''
      else Inl (''Invalid AST node type: '' @ n_type node))"

lemma size_n_left: "n_left node = Some l \<Longrightarrow> size l < size node"
  by (cases node) simp

lemma size_n_right: "n_right node = Some r \<Longrightarrow> size r < size node"
  by (cases node) simp

function evaluateAST :: "host \<Rightarrow> ASTNode \<Rightarrow> string + jsval" where
  "evaluateAST h node =
     (if n_type node = ''number''
      then Inr (if ToBoolean (fieldValue (n_value node)) then fieldValue (n_value node)
                else JNumber (Finite 0))
      else if n_type node = ''identifier''
      then Inl (''Cannot evaluate identifier '' @ quote (ToString h (fieldValue (n_value node))) @
                '' without variable context'')
      else if n_type node = ''binary_op''
      then (case n_left node of
              None \<Rightarrow> evaluateOther node
            | Some l \<Rightarrow>
                (case n_right node of
                   None \<Rightarrow> evaluateOther node
                 | Some r \<Rightarrow>
                     (case evaluateAST h l of
                        Inl e \<Rightarrow> Inl e
                      | Inr left \<Rightarrow>
                          (case evaluateAST h r of
                             Inl e \<Rightarrow> Inl e
                           | Inr right \<Rightarrow> evaluateOperator h (n_operator node) left right))))
      else evaluateOther node)"
  by pat_completeness auto
termination
  by (relation "measure (\<lambda>(h, node). size node)") (auto simp: size_n_left size_n_right)

declare evaluateAST.simps [simp del]

section \<open>The interpreter\<close>

text \<open>
  The fields of the class \<^verbatim>\<open>Interpreter\<close>. A \<^verbatim>\<open>Map\<close> is a list of entries in the
  order of insertion, a key being an optional string since a node may lack the
  \<^verbatim>\<open>identifier\<close> used as key. \<^verbatim>\<open>returnValue\<close> is \<^verbatim>\<open>null\<close> while nothing was returned.
\<close>

record funcdef =
  fd_params :: "(string \<times> string) list"
  fd_body :: "(ASTNode + ASTNode list) option"
  fd_returnType :: string

record istate =
  variables :: "(string option \<times> jsval) list"
  functionTable :: "(string option \<times> funcdef) list"
  outputLines :: "string list"
  returnValue :: jsval
  breakFlag :: bool
  continueFlag :: bool

record ExecutionResult =
  res_output :: "string list"
  res_returnValue :: jsval
  res_variables :: "string \<rightharpoonup> jsval"
  res_error :: "string option"

text \<open>\<^verbatim>\<open>Map.prototype.has\<close>, \<^verbatim>\<open>get\<close> and \<^verbatim>\<open>set\<close>; \<^verbatim>\<open>set\<close> keeps the place of a key it has.\<close>

definition mapHas :: "('k \<times> 'v) list \<Rightarrow> 'k \<Rightarrow> bool" where
  "mapHas m k = (k \<in> set (map fst m))"

definition mapGet :: "('k \<times> 'v) list \<Rightarrow> 'k \<Rightarrow> 'v option" where
  "mapGet m k = map_of m k"

fun mapSet :: "('k \<times> 'v) list \<Rightarrow> 'k \<Rightarrow> 'v \<Rightarrow> ('k \<times> 'v) list" where
  "mapSet [] k v = [(k, v)]"
| "mapSet (e # m) k v = (if fst e = k then (k, v) # m else e # mapSet m k v)"

text \<open>
  \<^verbatim>\<open>Object.fromEntries\<close> of the variables: the key \<^verbatim>\<open>undefined\<close> becomes the
  property name \<^verbatim>\<open>"undefined"\<close>, and a later entry replaces an earlier one of the
  same name.
\<close>

definition fromEntries :: "(string option \<times> jsval) list \<Rightarrow> (string \<rightharpoonup> jsval)" where
  "fromEntries m = foldl (\<lambda>obj e. obj(optText (fst e) \<mapsto> snd e)) Map.empty m"

text \<open>\<^verbatim>\<open>this.returnValue !== null\<close>.\<close>

definition returned :: "istate \<Rightarrow> bool" where
  "returned st = (returnValue st \<noteq> JNull)"

definition isTruthy :: "jsval \<Rightarrow> bool" where
  "isTruthy v = (\<not> strictEq v (JNumber (Finite 0)) \<and> v \<noteq> JNull \<and> v \<noteq> JUndefined)"

text \<open>\<^verbatim>\<open>Array.prototype.join\<close> on strings.\<close>

fun joinWith :: "string \<Rightarrow> string list \<Rightarrow> string" where
  "joinWith sep [] = []"
| "joinWith sep [s] = s"
| "joinWith sep (s # t # ss) = s @ sep @ joinWith sep (t # ss)"

text \<open>
  The binding of the parameters in \<^verbatim>\<open>callFunction\<close>: parameter \<open>i\<close> gets
  \<^verbatim>\<open>evaluatedArgs[i] || 0\<close>, which is 0 for a missing and for a falsy argument.
\<close>

definition argumentOrZero :: "jsval list \<Rightarrow> nat \<Rightarrow> jsval" where
  "argumentOrZero evaluatedArgs i =
     (if i < length evaluatedArgs \<and> ToBoolean (evaluatedArgs ! i) then evaluatedArgs ! i
      else JNumber (Finite 0))"

fun bindParams ::
  "(string \<times> string) list \<Rightarrow> nat \<Rightarrow> jsval list \<Rightarrow> (string option \<times> jsval) list
   \<Rightarrow> (string option \<times> jsval) list" where
  "bindParams [] i evaluatedArgs vars = vars"
| "bindParams (param # rest) i evaluatedArgs vars =
     bindParams rest (i + 1) evaluatedArgs
       (mapSet vars (Some (snd param)) (argumentOrZero evaluatedArgs i))"

text \<open>The \<^verbatim>\<open>switch\<close> of \<^verbatim>\<open>evaluateBinaryOp\<close> on the values of the two operands.\<close>

definition flag :: "bool \<Rightarrow> jsval" where
  "flag b = JNumber (Finite (if b then 1 else 0))"

definition binaryResult :: "host \<Rightarrow> string option \<Rightarrow> jsval \<Rightarrow> jsval \<Rightarrow> jsval" where
  "binaryResult h op l r =
     (if op = Some ''+'' then js_add h l r
      else if op = Some ''-'' then js_sub h l r
      else if op = Some ''*'' then js_mul h l r
      else if op = Some ''/'' then JNumber (num_floor (ToNumber h (js_div h l r)))
      else if op = Some ''%'' then js_mod h l r
      else if op = Some ''=='' then flag (strictEq l r)
      else if op = Some ''!='' then flag (\<not> strictEq l r)
      else if op = Some ''<'' then flag (js_less h l r)
      else if op = Some ''>'' then flag (js_less h r l)
      else if op = Some ''<='' then flag (js_le h l r)
      else if op = Some ''>='' then flag (js_le h r l)
      else if op = Some ''&&'' then flag (ToBoolean l \<and> ToBoolean r)
      else if op = Some ''||'' then flag (ToBoolean l \<or> ToBoolean r)
      else if op = Some ''!'' then flag (\<not> ToBoolean r)
      else JNumber (Finite 0))"

text \<open>The value a \<^verbatim>\<open>unary_op\<close> node gives for the value of its operand.\<close>

definition unaryResult :: "host \<Rightarrow> string option \<Rightarrow> jsval \<Rightarrow> jsval" where
  "unaryResult h op operand =
     (if op = Some ''-'' then js_neg h operand
      else if op = Some ''!'' then flag (\<not> ToBoolean operand)
      else operand)"

subsection \<open>The methods\<close>

text \<open>
  As for the parser, the methods and their loops are the calls of one recursive
  function. \<^verbatim>\<open>interpretNode\<close> is called with a node, with an array of nodes, or
  with \<^verbatim>\<open>undefined\<close> when the field read is absent.
\<close>

datatype task =
    Node "ASTNode option"
  | Stmts "ASTNode list" jsval
  | While ASTNode
  | DoWhile ASTNode
  | For ASTNode
  | SwitchCases ASTNode jsval bool bool "(ASTNode \<times> ASTNode list) list"
  | Call "string option" "ASTNode list"
  | PrintfArgs "ASTNode list" "jsval list"
  | UserCall funcdef "(string option \<times> jsval) list" "ASTNode list" "jsval list"
  | BinaryOp ASTNode

type_synonym interp_fn = "task \<Rightarrow> istate \<Rightarrow> (jsval, istate) comp"

text \<open>
  \<^verbatim>\<open>interpretNode\<close> on an array: the statements left and the value of the last
  statement run.
\<close>

definition interpretArray ::
  "interp_fn \<Rightarrow> ASTNode list \<Rightarrow> jsval \<Rightarrow> istate \<Rightarrow> (jsval, istate) comp" where
  "interpretArray self stmts lastValue st =
     (case stmts of
        [] \<Rightarrow> ret lastValue st
      | stmt # rest \<Rightarrow>
          (if returned st \<or> breakFlag st \<or> continueFlag st then ret lastValue st
           else bindC (self (Node (Some stmt)) st) (\<lambda>v st. self (Stmts rest v) st)))"

lemma interpretArray_mono [partial_function_mono]:
  assumes "\<And>t st. mono_option (\<lambda>f. F f t st)"
  shows "mono_option (\<lambda>f. interpretArray (\<lambda>t st. F f t st) stmts lastValue st)"
  unfolding interpretArray_def
  by (cases stmts; simp only: list.case; intro partial_function_mono assms)

text \<open>\<^verbatim>\<open>this.interpretNode(x.body!)\<close>, the body being a node, an array or absent.\<close>

definition interpretBody ::
  "interp_fn \<Rightarrow> (ASTNode + ASTNode list) option \<Rightarrow> istate \<Rightarrow> (jsval, istate) comp" where
  "interpretBody self b st =
     (case b of
        None \<Rightarrow> self (Node None) st
      | Some (Inl node) \<Rightarrow> self (Node (Some node)) st
      | Some (Inr stmts) \<Rightarrow> self (Stmts stmts JUndefined) st)"

lemma interpretBody_mono [partial_function_mono]:
  assumes "\<And>t st. mono_option (\<lambda>f. F f t st)"
  shows "mono_option (\<lambda>f. interpretBody (\<lambda>t st. F f t st) b st)"
proof (cases b)
  case None
  then show ?thesis by (simp add: interpretBody_def assms)
next
  case (Some x)
  then show ?thesis by (cases x) (simp_all add: interpretBody_def assms)
qed

text \<open>The end of the three loops: \<^verbatim>\<open>this.breakFlag = false; return null\<close>.\<close>

definition loopEnd :: "istate \<Rightarrow> (jsval, istate) comp" where
  "loopEnd st = ret JNull (st\<lparr>breakFlag := False\<rparr>)"

definition clearContinue :: "istate \<Rightarrow> istate" where
  "clearContinue st = (if continueFlag st then st\<lparr>continueFlag := False\<rparr> else st)"

definition whileLoop :: "interp_fn \<Rightarrow> ASTNode \<Rightarrow> istate \<Rightarrow> (jsval, istate) comp" where
  "whileLoop self node st =
     bindC (self (Node (n_condition node)) st) (\<lambda>c st.
       if isTruthy c
       then bindC (interpretBody self (n_body node) st) (\<lambda>v st.
              if returned st \<or> breakFlag st then loopEnd st
              else self (While node) (clearContinue st))
       else loopEnd st)"

lemma whileLoop_mono [partial_function_mono]:
  assumes "\<And>t st. mono_option (\<lambda>f. F f t st)"
  shows "mono_option (\<lambda>f. whileLoop (\<lambda>t st. F f t st) node st)"
  unfolding whileLoop_def by (intro partial_function_mono assms)

definition doWhileLoop :: "interp_fn \<Rightarrow> ASTNode \<Rightarrow> istate \<Rightarrow> (jsval, istate) comp" where
  "doWhileLoop self node st =
     bindC (interpretBody self (n_body node) st) (\<lambda>v st.
       if returned st \<or> breakFlag st then loopEnd st
       else bindC (self (Node (n_condition node)) (clearContinue st)) (\<lambda>c st.
              if isTruthy c then self (DoWhile node) st else loopEnd st))"

lemma doWhileLoop_mono [partial_function_mono]:
  assumes "\<And>t st. mono_option (\<lambda>f. F f t st)"
  shows "mono_option (\<lambda>f. doWhileLoop (\<lambda>t st. F f t st) node st)"
  unfolding doWhileLoop_def by (intro partial_function_mono assms)

text \<open>The loop of a \<^verbatim>\<open>for_loop\<close> node, after its \<^verbatim>\<open>init\<close>.\<close>

definition forLoop :: "interp_fn \<Rightarrow> ASTNode \<Rightarrow> istate \<Rightarrow> (jsval, istate) comp" where
  "forLoop self node st =
     bindC (if n_condition node = None then ret JNull st
            else self (Node (n_condition node)) st) (\<lambda>c st.
       if n_condition node = None \<or> isTruthy c
       then bindC (interpretBody self (n_body node) st) (\<lambda>v st.
              if returned st \<or> breakFlag st then loopEnd st
              else bindC (if n_increment node = None then ret JNull (clearContinue st)
                          else self (Node (n_increment node)) (clearContinue st)) (\<lambda>v st.
                     self (For node) st))
       else loopEnd st)"

lemma forLoop_mono [partial_function_mono]:
  assumes "\<And>t st. mono_option (\<lambda>f. F f t st)"
  shows "mono_option (\<lambda>f. forLoop (\<lambda>t st. F f t st) node st)"
  unfolding forLoop_def by (intro partial_function_mono assms)

text \<open>
  The loop over the cases of a \<^verbatim>\<open>switch_statement\<close> node and, after it, the
  \<^verbatim>\<open>default\<close> statements.
\<close>

definition switchDefault ::
  "interp_fn \<Rightarrow> ASTNode \<Rightarrow> bool \<Rightarrow> istate \<Rightarrow> (jsval, istate) comp" where
  "switchDefault self node executeDefault st =
     (case n_default node of
        None \<Rightarrow> ret JNull st
      | Some stmts \<Rightarrow>
          (if executeDefault
           then bindC (self (Stmts stmts JUndefined) st) (\<lambda>v st.
                  ret JNull (st\<lparr>breakFlag := False\<rparr>))
           else ret JNull st))"

lemma switchDefault_mono [partial_function_mono]:
  assumes "\<And>t st. mono_option (\<lambda>f. F f t st)"
  shows "mono_option (\<lambda>f. switchDefault (\<lambda>t st. F f t st) node executeDefault st)"
  unfolding switchDefault_def
  by (cases "n_default node"; simp only: option.case; intro partial_function_mono assms)

definition switchCases ::
  "interp_fn \<Rightarrow> ASTNode \<Rightarrow> jsval \<Rightarrow> bool \<Rightarrow> bool \<Rightarrow> (ASTNode \<times> ASTNode list) list \<Rightarrow> istate
   \<Rightarrow> (jsval, istate) comp" where
  "switchCases self node testValue matched executeDefault cs st =
     (case cs of
        [] \<Rightarrow> switchDefault self node executeDefault st
      | caseNode # rest \<Rightarrow>
          bindC (self (Node (Some (fst caseNode))) st) (\<lambda>caseValue st.
            if strictEq testValue caseValue \<or> matched
            then bindC (self (Stmts (snd caseNode) JUndefined) st) (\<lambda>v st.
                   if breakFlag st
                   then switchDefault self node False (st\<lparr>breakFlag := False\<rparr>)
                   else self (SwitchCases node testValue True False rest) st)
            else self (SwitchCases node testValue matched executeDefault rest) st))"

lemma switchCases_mono [partial_function_mono]:
  assumes "\<And>t st. mono_option (\<lambda>f. F f t st)"
  shows "mono_option (\<lambda>f. switchCases (\<lambda>t st. F f t st) node testValue matched executeDefault cs st)"
  unfolding switchCases_def
  by (cases cs; simp only: list.case; intro partial_function_mono assms)

text \<open>
  \<^verbatim>\<open>callFunction\<close>: the reserved name \<^verbatim>\<open>printf\<close>, then the look-up of the
  function, the copy of the variables, and the evaluation of the arguments.
\<close>

definition callFunction ::
  "interp_fn \<Rightarrow> string option \<Rightarrow> ASTNode list \<Rightarrow> istate \<Rightarrow> (jsval, istate) comp" where
  "callFunction self name args st =
     (if name = Some ''printf'' then self (PrintfArgs args []) st
      else (case mapGet (functionTable st) name of
              None \<Rightarrow> throwError (''Function '' @ optText name @ '' not defined'') st
            | Some func \<Rightarrow> self (UserCall func (variables st) args []) st))"

lemma callFunction_mono [partial_function_mono]:
  assumes "\<And>t st. mono_option (\<lambda>f. F f t st)"
  shows "mono_option (\<lambda>f. callFunction (\<lambda>t st. F f t st) name args st)"
  unfolding callFunction_def
  by (cases "mapGet (functionTable st) name"; simp only: option.case; intro partial_function_mono assms)

definition printfArgs ::
  "host \<Rightarrow> interp_fn \<Rightarrow> ASTNode list \<Rightarrow> jsval list \<Rightarrow> istate \<Rightarrow> (jsval, istate) comp" where
  "printfArgs h self args evaluatedArgs st =
     (case args of
        arg # rest \<Rightarrow>
          bindC (self (Node (Some arg)) st) (\<lambda>v st. self (PrintfArgs rest (evaluatedArgs @ [v])) st)
      | [] \<Rightarrow>
          ret (JNumber (Finite 0))
            (st\<lparr>outputLines := outputLines st @ [joinWith '' '' (map (ToString h) evaluatedArgs)]\<rparr>))"

lemma printfArgs_mono [partial_function_mono]:
  assumes "\<And>t st. mono_option (\<lambda>f. F f t st)"
  shows "mono_option (\<lambda>f. printfArgs h (\<lambda>t st. F f t st) args evaluatedArgs st)"
  unfolding printfArgs_def
  by (cases args; simp only: list.case; intro partial_function_mono assms)

text \<open>
  The call of a defined function once its arguments are evaluated: the
  parameters are bound, \<^verbatim>\<open>returnValue\<close> is cleared, the body runs, and then
  \<^verbatim>\<open>returnValue\<close> and the variables are put back.
\<close>

definition userCall ::
  "interp_fn \<Rightarrow> funcdef \<Rightarrow> (string option \<times> jsval) list \<Rightarrow> ASTNode list \<Rightarrow> jsval list
   \<Rightarrow> istate \<Rightarrow> (jsval, istate) comp" where
  "userCall self func previousVars args evaluatedArgs st =
     (case args of
        arg # rest \<Rightarrow>
          bindC (self (Node (Some arg)) st) (\<lambda>v st.
            self (UserCall func previousVars rest (evaluatedArgs @ [v])) st)
      | [] \<Rightarrow>
          bindC (interpretBody self (fd_body func)
                   (st\<lparr>variables := bindParams (fd_params func) 0 evaluatedArgs (variables st),
                       returnValue := JNull\<rparr>)) (\<lambda>v st'.
            ret (if returned st' then returnValue st' else JNumber (Finite 0))
              (st'\<lparr>returnValue := returnValue st, variables := previousVars\<rparr>)))"

lemma userCall_mono [partial_function_mono]:
  assumes "\<And>t st. mono_option (\<lambda>f. F f t st)"
  shows "mono_option (\<lambda>f. userCall (\<lambda>t st. F f t st) func previousVars args evaluatedArgs st)"
  unfolding userCall_def
  by (cases args; simp only: list.case; intro partial_function_mono assms)

definition evaluateBinaryOp ::
  "host \<Rightarrow> interp_fn \<Rightarrow> ASTNode \<Rightarrow> istate \<Rightarrow> (jsval, istate) comp" where
  "evaluateBinaryOp h self node st =
     bindC (self (Node (n_left node)) st) (\<lambda>left st.
     bindC (self (Node (n_right node)) st) (\<lambda>right st.
       ret (binaryResult h (n_operator node) left right) st))"

lemma evaluateBinaryOp_mono [partial_function_mono]:
  assumes "\<And>t st. mono_option (\<lambda>f. F f t st)"
  shows "mono_option (\<lambda>f. evaluateBinaryOp h (\<lambda>t st. F f t st) node st)"
  unfolding evaluateBinaryOp_def by (intro partial_function_mono assms)

text \<open>The value a \<^verbatim>\<open>return_statement\<close> node stores in \<^verbatim>\<open>returnValue\<close>.\<close>

definition returnedValue :: "interp_fn \<Rightarrow> nodeval option \<Rightarrow> istate \<Rightarrow> (jsval, istate) comp" where
  "returnedValue self v st =
     (case v of
        Some (VNode e) \<Rightarrow> self (Node (Some e)) st
      | Some (VNumber x) \<Rightarrow> ret (if ToBoolean (JNumber x) then JNumber x else JNumber (Finite 0)) st
      | Some (VString s) \<Rightarrow> ret (JNumber (Finite 0)) st
      | None \<Rightarrow> ret (JNumber (Finite 0)) st)"

lemma returnedValue_mono [partial_function_mono]:
  assumes "\<And>t st. mono_option (\<lambda>f. F f t st)"
  shows "mono_option (\<lambda>f. returnedValue (\<lambda>t st. F f t st) v st)"
proof (cases v)
  case None
  then show ?thesis by (simp add: returnedValue_def option.const_mono)
next
  case (Some x)
  then show ?thesis by (cases x) (simp_all add: returnedValue_def option.const_mono assms)
qed

text \<open>\<^verbatim>\<open>x || []\<close> for an optional array.\<close>

definition orEmpty :: "'a list option \<Rightarrow> 'a list" where
  "orEmpty xs = (case xs of None \<Rightarrow> [] | Some l \<Rightarrow> l)"

text \<open>
  The entry a \<^verbatim>\<open>function_declaration\<close> node stores in the function table;
  \<^verbatim>\<open>node.returnType || 'int'\<close> also replaces an empty string.
\<close>

definition declaredFunction :: "ASTNode \<Rightarrow> funcdef" where
  "declaredFunction node =
     \<lparr>fd_params = orEmpty (n_parameters node), fd_body = n_body node,
      fd_returnType = (case n_returnType node of
                         None \<Rightarrow> ''int''
                       | Some s \<Rightarrow> (if s = [] then ''int'' else s))\<rparr>"

text \<open>
  \<^verbatim>\<open>interpretNode\<close> on a node: the \<^verbatim>\<open>switch\<close> on its \<^verbatim>\<open>type\<close>. Reading the type of
  \<^verbatim>\<open>undefined\<close> throws the \<^verbatim>\<open>TypeError\<close> of the host.
\<close>

definition interpretNode ::
  "host \<Rightarrow> interp_fn \<Rightarrow> ASTNode \<Rightarrow> istate \<Rightarrow> (jsval, istate) comp" where
  "interpretNode h self node st =
     (if n_type node = ''program''
      then self (Stmts (orEmpty (n_statements node)) JUndefined) st
      else if n_type node = ''function_declaration''
      then (if n_identifier node = Some ''main''
            then bindC (self (Call (Some ''main'') [])
                          (st\<lparr>functionTable := mapSet (functionTable st) (n_identifier node)
                                              (declaredFunction node)\<rparr>)) (\<lambda>result st.
                   ret JNull (st\<lparr>returnValue := result\<rparr>))
            else ret JNull (st\<lparr>functionTable := mapSet (functionTable st) (n_identifier node)
                                               (declaredFunction node)\<rparr>))
      else if n_type node = ''declaration''
      then bindC (if n_init node = None then ret (JNumber (Finite 0)) st
                  else self (Node (n_init node)) st) (\<lambda>initValue st.
             ret JNull (st\<lparr>variables := mapSet (variables st) (n_identifier node) initValue\<rparr>))
      else if n_type node = ''assignment''
      then bindC (self (Node (n_right node)) st) (\<lambda>v st.
             ret v (st\<lparr>variables := mapSet (variables st) (n_identifier node) v\<rparr>))
      else if n_type node = ''if_statement''
      then bindC (self (Node (n_condition node)) st) (\<lambda>c st.
             if isTruthy c then interpretBody self (n_body node) st
             else if n_elseBranch node = None then ret JNull st
             else self (Node (n_elseBranch node)) st)
      else if n_type node = ''while_loop'' then self (While node) st
      else if n_type node = ''do_while_loop'' then self (DoWhile node) st
      else if n_type node = ''for_loop''
      then bindC (if n_init node = None then ret JNull st
                  else self (Node (n_init node)) st) (\<lambda>v st. self (For node) st)
      else if n_type node = ''switch_statement''
      then bindC (self (Node (n_test node)) st) (\<lambda>testValue st.
             self (SwitchCases node testValue False True (orEmpty (n_cases node))) st)
      else if n_type node = ''return_statement''
      then bindC (returnedValue self (n_value node) st) (\<lambda>v st. ret v (st\<lparr>returnValue := v\<rparr>))
      else if n_type node = ''break_statement'' then ret JNull (st\<lparr>breakFlag := True\<rparr>)
      else if n_type node = ''continue_statement'' then ret JNull (st\<lparr>continueFlag := True\<rparr>)
      else if n_type node = ''function_call''
      then self (Call (n_identifier node) (orEmpty (n_arguments node))) st
      else if n_type node = ''binary_op'' then self (BinaryOp node) st
      else if n_type node = ''unary_op''
      then bindC (self (Node (n_right node)) st) (\<lambda>operand st.
             ret (unaryResult h (n_operator node) operand) st)
      else if n_type node = ''identifier''
      then (if \<not> mapHas (variables st) (n_identifier node) then ret (JNumber (Finite 0)) st
            else (case mapGet (variables st) (n_identifier node) of
                    None \<Rightarrow> ret JUndefined st
                  | Some v \<Rightarrow> ret v st))
      else if n_type node = ''number'' then ret (fieldValue (n_value node)) st
      else if n_type node = ''preprocessor'' then ret JNull st
      else ret JNull st)"

lemma interpretNode_mono [partial_function_mono]:
  assumes "\<And>t st. mono_option (\<lambda>f. F f t st)"
  shows "mono_option (\<lambda>f. interpretNode h (\<lambda>t st. F f t st) node st)"
  unfolding interpretNode_def by (intro partial_function_mono assms)

text \<open>The call of one method, \<open>self\<close> standing for the calls it makes.\<close>

definition interpreter_step :: "host \<Rightarrow> interp_fn \<Rightarrow> task \<Rightarrow> istate \<Rightarrow> (jsval, istate) comp" where
  "interpreter_step h self t st =
     (case t of
        Node None \<Rightarrow> throwError (h_undefinedRead h) st
      | Node (Some node) \<Rightarrow> interpretNode h self node st
      | Stmts stmts lastValue \<Rightarrow> interpretArray self stmts lastValue st
      | While node \<Rightarrow> whileLoop self node st
      | DoWhile node \<Rightarrow> doWhileLoop self node st
      | For node \<Rightarrow> forLoop self node st
      | SwitchCases node testValue matched executeDefault cs \<Rightarrow>
          switchCases self node testValue matched executeDefault cs st
      | Call name args \<Rightarrow> callFunction self name args st
      | PrintfArgs args evaluatedArgs \<Rightarrow> printfArgs h self args evaluatedArgs st
      | UserCall func previousVars args evaluatedArgs \<Rightarrow>
          userCall self func previousVars args evaluatedArgs st
      | BinaryOp node \<Rightarrow> evaluateBinaryOp h self node st)"

lemma interpreter_step_mono [partial_function_mono]:
  assumes "\<And>t st. mono_option (\<lambda>f. F f t st)"
  shows "mono_option (\<lambda>f. interpreter_step h (\<lambda>t st. F f t st) t st)"
proof (cases t)
  case (Node n)
  then show ?thesis
    by (cases n) (simp_all add: interpreter_step_def option.const_mono interpretNode_mono assms)
qed (simp_all add: interpreter_step_def partial_function_mono assms)

partial_function (option) run :: "host \<Rightarrow> task \<Rightarrow> istate \<Rightarrow> (jsval, istate) comp" where
  "run h t st = interpreter_step h (run h) t st"

text \<open>
  \<^verbatim>\<open>execute\<close> on a fresh interpreter, that is \<^verbatim>\<open>executeProgram\<close>. \<^const>\<open>None\<close> is
  an execution that does not return.
\<close>

definition initialState :: istate where
  "initialState =
     \<lparr>variables = [], functionTable = [], outputLines = [], returnValue = JNull,
      breakFlag = False, continueFlag = False\<rparr>"

definition execute :: "host \<Rightarrow> ASTNode \<Rightarrow> istate \<Rightarrow> ExecutionResult option" where
  "execute h node st0 =
     (case run h (Node (Some node)) st0 of
        None \<Rightarrow> None
      | Some (r, st) \<Rightarrow>
          (case r of
             Inr v \<Rightarrow>
               Some \<lparr>res_output = outputLines st, res_returnValue = returnValue st,
                     res_variables = fromEntries (variables st), res_error = None\<rparr>
           | Inl message \<Rightarrow>
               Some \<lparr>res_output = outputLines st, res_returnValue = JNull,
                     res_variables = fromEntries (variables st), res_error = Some message\<rparr>))"

definition executeProgram :: "host \<Rightarrow> ASTNode \<Rightarrow> ExecutionResult option" where
  "executeProgram h ast = execute h ast initialState"


subsection \<open>Doubles that rounding leaves as they are\<close>

text \<open>
  A real \<open>m * 2^e\<close> with \<open>\<bar>m\<bar> < 2^53\<close> and \<open>-1074 \<le> e \<le> 971\<close> is a double, and
  rounding gives it back; so it is with the integers of magnitude below \<open>2^53\<close>.
\<close>

lemma powi2_less_imp: "(2::real) powi a < 2 powi b \<Longrightarrow> a < b"
  using power_int_increasing [of b a "2::real"] by (cases "a < b") auto

lemma exponentUp_bounds:
  "2 powi e \<le> \<bar>x\<bar> \<Longrightarrow> 2 powi (exponentUp x e) \<le> \<bar>x\<bar> \<and> \<bar>x\<bar> < 2 powi (exponentUp x e + 1)"
proof (induction x e rule: exponentUp.induct)
  case (1 x e)
  show ?case
  proof (cases "2 powi (e + 1) \<le> \<bar>x\<bar>")
    case True
    with "1.IH" show ?thesis by (subst (1 2) exponentUp.simps) simp
  next
    case False
    with "1.prems" show ?thesis by (subst (1 2) exponentUp.simps) simp
  qed
qed

lemma exponentDown_bounds:
  "\<bar>x\<bar> < 2 powi (e + 1) \<Longrightarrow> - 1022 \<le> e \<Longrightarrow>
   - 1022 \<le> exponentDown x e \<and> \<bar>x\<bar> < 2 powi (exponentDown x e + 1) \<and>
   (exponentDown x e = - 1022 \<or> 2 powi (exponentDown x e) \<le> \<bar>x\<bar>)"
proof (induction x e rule: exponentDown.induct)
  case (1 x e)
  show ?case
  proof (cases "- 1022 < e \<and> \<bar>x\<bar> < 2 powi e")
    case True
    with "1.IH" show ?thesis by (subst (1 2 3 4) exponentDown.simps) simp
  next
    case False
    with "1.prems" show ?thesis by (subst (1 2 3 4) exponentDown.simps) auto
  qed
qed

text \<open>The exponent of \<open>x\<close>: \<open>2^e \<le> \<bar>x\<bar> < 2^(e + 1)\<close>, or \<open>-1022\<close> for a smaller \<open>x\<close>.\<close>

lemma exponent_bounds:
  "- 1022 \<le> exponent x \<and> \<bar>x\<bar> < 2 powi (exponent x + 1) \<and>
   (exponent x = - 1022 \<or> 2 powi (exponent x) \<le> \<bar>x\<bar>)"
proof (cases "\<bar>x\<bar> < 1")
  case True
  then show ?thesis
    using exponentDown_bounds [of x "- 1"] by (simp add: exponent_def)
next
  case False
  then have b: "2 powi (exponentUp x 0) \<le> \<bar>x\<bar> \<and> \<bar>x\<bar> < 2 powi (exponentUp x 0 + 1)"
    using exponentUp_bounds [of 0 x] by simp
  have "(2::real) powi (- 1022) < 2 powi 0"
    by (rule power_int_strict_increasing) simp_all
  with False b have "(2::real) powi (- 1022) < 2 powi (exponentUp x 0 + 1)" by simp
  then have "- 1022 < exponentUp x 0 + 1"
    by (rule powi2_less_imp)
  with False b show ?thesis by (simp add: exponent_def)
qed

text \<open>The exponent is the only such \<open>e\<close>, which gives the rounding of a given \<open>x\<close>.\<close>

lemma exponent_eq:
  assumes "2 powi e \<le> \<bar>x\<bar>" "\<bar>x\<bar> < 2 powi (e + 1)" "- 1022 \<le> e"
  shows "exponent x = e"
proof -
  from exponent_bounds [of x] have
    u: "\<bar>x\<bar> < 2 powi (exponent x + 1)" and
    l: "exponent x = - 1022 \<or> 2 powi (exponent x) \<le> \<bar>x\<bar>" and g: "- 1022 \<le> exponent x"
    by simp_all
  from assms(1) u have "(2::real) powi e < 2 powi (exponent x + 1)" by simp
  then have 1: "e \<le> exponent x" using powi2_less_imp [of e "exponent x + 1"] by simp
  from l have "exponent x \<le> e"
  proof
    assume "exponent x = - 1022" with assms(3) show ?thesis by simp
  next
    assume "2 powi (exponent x) \<le> \<bar>x\<bar>"
    with assms(2) have "(2::real) powi (exponent x) < 2 powi (e + 1)" by simp
    then show ?thesis using powi2_less_imp [of "exponent x" "e + 1"] by simp
  qed
  with 1 show ?thesis by simp
qed

lemma roundDouble_at:
  assumes "2 powi e \<le> \<bar>x\<bar>" "\<bar>x\<bar> < 2 powi (e + 1)" "- 1022 \<le> e"
  shows "roundDouble x =
     (if 2 ^ 1024 \<le> \<bar>of_int (roundHalfEven (x / 2 powi (e - 52))) * 2 powi (e - 52) :: real\<bar>
      then signedInfinity (x < 0)
      else if of_int (roundHalfEven (x / 2 powi (e - 52))) * (2::real) powi (e - 52) = 0
      then signedZero (x < 0)
      else Finite (of_int (roundHalfEven (x / 2 powi (e - 52))) * 2 powi (e - 52)))"
  unfolding roundDouble_def ulp_def exponent_eq [OF assms] Let_def by (rule refl)

lemma roundHalfEven_of_int: "roundHalfEven (of_int n) = n"
  by (simp add: roundHalfEven_def)

lemma ulp_pos: "0 < ulp x"
  by (simp add: ulp_def zero_less_power_int)

lemma exponent_le:
  assumes "\<bar>m\<bar> < 2 ^ 53" "- 1074 \<le> e"
  shows "exponent (of_int m * 2 powi e) - 52 \<le> e"
proof -
  define x :: real where "x = of_int m * 2 powi e"
  have "\<bar>real_of_int m\<bar> < 2 ^ 53"
    using assms(1) by (metis of_int_abs of_int_less_numeral_power_cancel_iff)
  then have "\<bar>x\<bar> < 2 ^ 53 * 2 powi e"
    by (simp add: x_def abs_mult zero_less_power_int)
  also have "\<dots> = 2 powi (53 + e)"
    by (simp add: power_int_add)
  finally have less: "\<bar>x\<bar> < 2 powi (53 + e)" .
  from exponent_bounds [of x] have "exponent x = - 1022 \<or> 2 powi (exponent x) \<le> \<bar>x\<bar>" by simp
  then have "exponent x - 52 \<le> e"
  proof
    assume "exponent x = - 1022"
    with assms(2) show ?thesis by simp
  next
    assume "2 powi (exponent x) \<le> \<bar>x\<bar>"
    with less have "(2::real) powi (exponent x) < 2 powi (53 + e)" by simp
    then have "exponent x < 53 + e" by (rule powi2_less_imp)
    then show ?thesis by simp
  qed
  then show ?thesis by (simp only: x_def)
qed

lemma roundDouble_exact:
  assumes "m \<noteq> 0" "\<bar>m\<bar> < 2 ^ 53" "- 1074 \<le> e" "e \<le> 971"
  shows "roundDouble (of_int m * 2 powi e) = Finite (of_int m * 2 powi e)"
proof -
  define x :: real where "x = of_int m * 2 powi e"
  define u where "u = ulp x"
  define k where "k = nat (e - (exponent x - 52))"
  have "exponent x - 52 \<le> e"
    unfolding x_def using assms(2,3) by (rule exponent_le)
  then have e: "e = (exponent x - 52) + int k" by (simp add: k_def)
  have "2 powi e = (2::real) powi (exponent x - 52) * 2 ^ k"
    by (subst e) (simp add: power_int_add)
  then have xu: "x = of_int m * (u * 2 ^ k)"
    by (simp only: x_def u_def ulp_def)
  have upos: "0 < u" unfolding u_def by (rule ulp_pos)
  have q: "x / u = of_int (m * 2 ^ k)"
    using upos by (simp add: xu)
  have y: "of_int (roundHalfEven (x / u)) * u = x"
    unfolding q roundHalfEven_of_int by (simp add: xu)
  have "\<bar>real_of_int m\<bar> < 2 ^ 53"
    using assms(2) by (metis of_int_abs of_int_less_numeral_power_cancel_iff)
  then have "\<bar>x\<bar> < 2 ^ 53 * 2 powi e"
    by (simp add: x_def abs_mult zero_less_power_int)
  also have "\<dots> \<le> 2 ^ 53 * 2 powi 971"
  proof -
    have "2 powi e \<le> (2::real) powi 971"
      using assms(4) by (rule power_int_increasing) simp
    then show ?thesis by (simp only: mult_le_cancel_left_pos zero_less_power zero_less_numeral)
  qed
  also have "\<dots> = 2 ^ 1024"
    using power_int_of_nat [of "2::real" 971] power_add [of "2::real" 53 971] by simp
  finally have small: "\<not> 2 ^ 1024 \<le> \<bar>x\<bar>" by simp
  have nz: "x \<noteq> 0" using assms(1) by (simp add: x_def)
  have "roundDouble x = Finite x"
    unfolding roundDouble_def Let_def u_def [symmetric] y using small nz by simp
  then show ?thesis by (simp only: x_def)
qed

lemma roundDouble_zero: "roundDouble 0 = Finite 0"
  by (simp add: roundDouble_def signedZero_def roundHalfEven_def)

lemma roundDouble_of_int:
  "\<bar>m\<bar> < 2 ^ 53 \<Longrightarrow> roundDouble (of_int m) = Finite (of_int m)"
  using roundDouble_exact [of m 0] roundDouble_zero by (cases "m = 0") auto

lemma roundDouble_numeral:
  "(numeral k :: int) < 2 ^ 53 \<Longrightarrow> roundDouble (numeral k) = Finite (numeral k)"
  using roundDouble_of_int [of "numeral k"] by simp

lemma roundDouble_neg_numeral:
  "(numeral k :: int) < 2 ^ 53 \<Longrightarrow> roundDouble (- numeral k) = Finite (- numeral k)"
  using roundDouble_of_int [of "- numeral k"] by simp

lemma roundDouble_one: "roundDouble 1 = Finite 1"
  using roundDouble_of_int [of 1] by simp


lemmas number_run =
  roundDouble_zero roundDouble_one roundDouble_numeral roundDouble_neg_numeral
  signedZero_def signedInfinity_def num_add_def num_sub_def num_mul_def num_div_def num_mod_def
  num_less_def num_eq_def num_le_def isInteger_def oddInteger_def truncToZero_def
  integerPower_def powFinite_def

subsection \<open>Equations for running the lexer and the parser on a given text\<close>

lemma parser_run:
  "parser p \<lparr>p_tokens = ts, p_current = c, p_errors = es\<rparr> =
   parser_step parser p \<lparr>p_tokens = ts, p_current = c, p_errors = es\<rparr>"
  by (rule parser.simps)

lemmas lexer_run =
  tokenize_def Lexer_def trim_def tokenize_loop.simps scan_def Let_def charAt_def isSpace_def
  isDigit_def isIdentStart_def isIdentPart_def single_def keywordSet_def
  readNumber_def readNumber_loop.simps readIdentifier_def readIdentifier_loop.simps
  readString_def readString_loop.simps readChar_def readChar_loop.simps
  readDirective_loop.simps skipLineComment_loop.simps skipBlockComment_loop.simps

lemmas node_run =
  emptyNode_def numberNode_def stringNode_def charNode_def identifierNode_def binaryOpNode_def
  prefixNode_def postfixNode_def addressOfNode_def dereferenceNode_def arrayAccessNode_def
  functionCallNode_def assignmentNode_def preprocessorNode_def programNode_def blockNode_def
  declarationNode_def arrayDeclarationNode_def functionNode_def ifNode_def whileNode_def
  doWhileNode_def switchNode_def forNode_def returnNode_def

lemmas production_run =
  parser_run parser_step_def program_loop_def statement_body_def declaration_body_def
  declaration_stars_def parameter_def function_rest_def function_declaration_body_def
  function_params_def block_body_def block_loop_def block_or_statement_def if_statement_body_def
  while_loop_body_def do_while_loop_body_def switchEnd_def switch_statement_body_def
  switch_loop_def case_body_def default_body_def for_loop_body_def return_statement_body_def
  assignment_rest_def assignment_or_expression_body_def statement_call_args_def
  binary_level_def binary_loop_def power_body_def primary_call_args_def primary_rest_def
  primary_body_def

lemmas parser_run_all =
  production_run program_def expression_def parse_def parseExpression_def hasCFeatures_def
  failure_def succeeded_def afterTopProduction_def currentToken_def tt_def tv_def tp_def
  advance_def advanceIf_def pushError_def failWith_def quote_def parseFloat_def digitsValue_def
  isDigit_def ret_def throwError_def roundDouble_zero roundDouble_one roundDouble_numeral


lemmas evaluator_run =
  evaluateAST.simps evaluateOperator_def evaluateOther_def js_add_def js_sub_def js_mul_def
  js_div_def js_mod_def js_neg_def number_run

section \<open>Properties of the parser and the evaluator\<close>

lemma tokens_power: "tokenize (Lexer ''2 ^ 3 ^ 2'') =
  [\<lparr>tk_type = NUMBER, tk_value = ''2'', tk_position = 0\<rparr>,
   \<lparr>tk_type = OPERATOR, tk_value = ''^'', tk_position = 2\<rparr>,
   \<lparr>tk_type = NUMBER, tk_value = ''3'', tk_position = 4\<rparr>,
   \<lparr>tk_type = OPERATOR, tk_value = ''^'', tk_position = 6\<rparr>,
   \<lparr>tk_type = NUMBER, tk_value = ''2'', tk_position = 8\<rparr>,
   \<lparr>tk_type = EOF, tk_value = [], tk_position = 9\<rparr>]"
  by (simp add: lexer_run)

lemma parse_power:
  "parseExpression ''2 ^ 3 ^ 2'' =
     Some (succeeded (binaryOpNode ''^'' (numberNode (Finite 2))
        (binaryOpNode ''^'' (numberNode (Finite 3)) (numberNode (Finite 2)))))"
  unfolding parseExpression_def tokens_power
  by (simp add: trim_def isSpace_def parser_run_all cong: bindC_weak_cong)

lemma evaluate_power:
  "evaluateAST h (binaryOpNode ''^'' (numberNode (Finite 2))
        (binaryOpNode ''^'' (numberNode (Finite 3)) (numberNode (Finite 2)))) =
     Inr (JNumber (Finite 512))"
  by (simp add: evaluator_run node_run)

text \<open>
  C7. \<^verbatim>\<open>parse("2 ^ 3 ^ 2")\<close> succeeds; its tree has the first \<^verbatim>\<open>^\<close> at the root with
  the number 2 to the left and the second \<^verbatim>\<open>^\<close>, over 3 and 2, to the right (the
  operator groups to the right); and the arithmetic evaluator gives 512 for it.
\<close>

theorem parse_power_right_associative_512:
  "parseExpression ''2 ^ 3 ^ 2'' =
     Some \<lparr>success = True,
            tree = Some (binaryOpNode ''^'' (numberNode (Finite 2))
                     (binaryOpNode ''^'' (numberNode (Finite 3)) (numberNode (Finite 2)))),
            errors = None\<rparr> \<and>
   evaluateAST h (binaryOpNode ''^'' (numberNode (Finite 2))
       (binaryOpNode ''^'' (numberNode (Finite 3)) (numberNode (Finite 2)))) =
     Inr (JNumber (Finite 512))"
  using parse_power evaluate_power by (simp add: succeeded_def)

lemma tokens_trailing: "tokenize (Lexer ''2 3'') =
  [\<lparr>tk_type = NUMBER, tk_value = ''2'', tk_position = 0\<rparr>,
   \<lparr>tk_type = NUMBER, tk_value = ''3'', tk_position = 2\<rparr>,
   \<lparr>tk_type = EOF, tk_value = [], tk_position = 3\<rparr>]"
  by (simp add: lexer_run)

text \<open>
  C5, as the code has it. When the top production returns a tree and the token at
  the cursor is not \<^verbatim>\<open>EOF\<close>, \<^verbatim>\<open>parse\<close> adds the error "Unexpected token" for that
  token to the errors recorded so far and returns a failure: the result has the
  errors and no tree.
\<close>

theorem parse_trailing_token_no_tree:
  assumes "tokens \<noteq> []"
    and "find (\<lambda>t. tk_type t = INVALID) tokens = None"
    and "(if hasCFeatures tokens then program else expression)
           \<lparr>p_tokens = tokens, p_current = 0, p_errors = []\<rparr> = Some (Inr t, st)"
    and "tt st \<noteq> EOF"
  shows "parse tokens =
    Some \<lparr>success = False, tree = None,
          errors = Some (p_errors st @
            [\<lparr>pe_message = ''Unexpected token '' @ quote (tv st), pe_position = tp st,
              pe_suggestion = ''Check for missing operators, semicolons, or braces''\<rparr>])\<rparr>"
  using assms by (simp add: parse_def afterTopProduction_def pushError_def failure_def)

lemma expression_trailing:
  "expression \<lparr>p_tokens = tokenize (Lexer ''2 3''), p_current = 0, p_errors = []\<rparr> =
     Some (Inr (numberNode (Finite 2)),
           \<lparr>p_tokens = tokenize (Lexer ''2 3''), p_current = 1, p_errors = []\<rparr>)"
  unfolding tokens_trailing
  by (simp add: parser_run_all cong: bindC_weak_cong)

text \<open>
  At the text \<^verbatim>\<open>2 3\<close> the production \<^verbatim>\<open>expression\<close> returns the tree of the number 2
  with the cursor on the second number, and the result of the parse has no tree.
\<close>

theorem parse_trailing_token_counterexample:
  "expression \<lparr>p_tokens = tokenize (Lexer ''2 3''), p_current = 0, p_errors = []\<rparr> =
     Some (Inr (numberNode (Finite 2)),
           \<lparr>p_tokens = tokenize (Lexer ''2 3''), p_current = 1, p_errors = []\<rparr>) \<and>
   tt \<lparr>p_tokens = tokenize (Lexer ''2 3''), p_current = 1, p_errors = []\<rparr> = NUMBER \<and>
   parseExpression ''2 3'' =
     Some \<lparr>success = False, tree = None,
           errors = Some [\<lparr>pe_message = ''Unexpected token '' @ quote ''3'', pe_position = 2,
              pe_suggestion = ''Check for missing operators, semicolons, or braces''\<rparr>]\<rparr>"
proof -
  have "parseExpression ''2 3'' =
     Some \<lparr>success = False, tree = None,
           errors = Some [\<lparr>pe_message = ''Unexpected token '' @ quote ''3'', pe_position = 2,
              pe_suggestion = ''Check for missing operators, semicolons, or braces''\<rparr>]\<rparr>"
    unfolding parseExpression_def tokens_trailing
    by (simp add: trim_def isSpace_def parser_run_all cong: bindC_weak_cong)
  moreover have "tt \<lparr>p_tokens = tokenize (Lexer ''2 3''), p_current = 1, p_errors = []\<rparr> = NUMBER"
    unfolding tokens_trailing by (simp add: tt_def currentToken_def)
  ultimately show ?thesis using expression_trailing by simp
qed

theorem parse_trailing_token_witness:
  "tokenize (Lexer ''2 3'') \<noteq> [] \<and>
   find (\<lambda>t. tk_type t = INVALID) (tokenize (Lexer ''2 3'')) = None \<and>
   tt \<lparr>p_tokens = tokenize (Lexer ''2 3''), p_current = 1, p_errors = []\<rparr> \<noteq> EOF \<and>
   parse (tokenize (Lexer ''2 3'')) =
     Some \<lparr>success = False, tree = None,
           errors = Some [\<lparr>pe_message = ''Unexpected token '' @ quote ''3'', pe_position = 2,
              pe_suggestion = ''Check for missing operators, semicolons, or braces''\<rparr>]\<rparr>"
proof -
  let ?toks = "tokenize (Lexer ''2 3'')"
  let ?st = "\<lparr>p_tokens = ?toks, p_current = 1, p_errors = []\<rparr>"
  have h1: "?toks \<noteq> []" unfolding tokens_trailing by simp
  have h2: "find (\<lambda>t. tk_type t = INVALID) ?toks = None" unfolding tokens_trailing by simp
  have h3: "(if hasCFeatures ?toks then program else expression)
              \<lparr>p_tokens = ?toks, p_current = 0, p_errors = []\<rparr> =
            Some (Inr (numberNode (Finite 2)), ?st)"
    using expression_trailing unfolding tokens_trailing by (simp add: hasCFeatures_def)
  have h4: "tt ?st \<noteq> EOF" unfolding tokens_trailing by (simp add: tt_def currentToken_def)
  have "tv ?st = ''3''" "tp ?st = 2"
    unfolding tokens_trailing by (simp_all add: tv_def tp_def currentToken_def)
  with parse_trailing_token_no_tree [OF h1 h2 h3 h4] h1 h2 h4 show ?thesis by simp
qed


subsection \<open>Equations of the methods\<close>

lemma run_Node_None: "run h (Node None) st = throwError (h_undefinedRead h) st"
  by (subst run.simps) (simp add: interpreter_step_def)

lemma run_Node: "run h (Node (Some node)) st = interpretNode h (run h) node st"
  by (subst run.simps) (simp add: interpreter_step_def)

lemma run_Stmts: "run h (Stmts stmts lastValue) st = interpretArray (run h) stmts lastValue st"
  by (subst run.simps) (simp add: interpreter_step_def)

lemma run_While: "run h (While node) st = whileLoop (run h) node st"
  by (subst run.simps) (simp add: interpreter_step_def)

lemma run_Call: "run h (Call name args) st = callFunction (run h) name args st"
  by (subst run.simps) (simp add: interpreter_step_def)

lemma run_UserCall:
  "run h (UserCall func previousVars args evaluatedArgs) st =
     userCall (run h) func previousVars args evaluatedArgs st"
  by (subst run.simps) (simp add: interpreter_step_def)

lemma run_BinaryOp: "run h (BinaryOp node) st = evaluateBinaryOp h (run h) node st"
  by (subst run.simps) (simp add: interpreter_step_def)

text \<open>The equation of \<^const>\<open>run\<close> at a given state, for running a given tree.\<close>

lemma run_at:
  "run h t \<lparr>variables = vs, functionTable = fs, outputLines = out, returnValue = rv,
            breakFlag = b, continueFlag = c\<rparr> =
   interpreter_step h (run h) t
     \<lparr>variables = vs, functionTable = fs, outputLines = out, returnValue = rv,
      breakFlag = b, continueFlag = c\<rparr>"
  by (rule run.simps)

lemmas interpreter_run =
  run_at interpreter_step_def interpretNode_def interpretArray_def interpretBody_def
  whileLoop_def doWhileLoop_def forLoop_def switchDefault_def switchCases_def callFunction_def
  printfArgs_def userCall_def evaluateBinaryOp_def returnedValue_def loopEnd_def
  clearContinue_def orEmpty_def declaredFunction_def returned_def isTruthy_def mapHas_def
  mapGet_def argumentOrZero_def binaryResult_def unaryResult_def flag_def execute_def
  executeProgram_def initialState_def fromEntries_def ret_def throwError_def optText_def
  js_add_def js_sub_def js_mul_def js_div_def js_mod_def js_neg_def js_less_def js_le_def
  number_run


section \<open>Properties of the interpreter\<close>

definition handledTypes :: "string list" where
  "handledTypes =
     [''program'', ''function_declaration'', ''declaration'', ''assignment'', ''if_statement'',
      ''while_loop'', ''do_while_loop'', ''for_loop'', ''switch_statement'', ''return_statement'',
      ''break_statement'', ''continue_statement'', ''function_call'', ''binary_op'', ''unary_op'',
      ''identifier'', ''number'', ''preprocessor'']"

lemma interpretNode_default:
  assumes "n_type node \<notin> set handledTypes"
  shows "run h (Node (Some node)) st = Some (Inr JNull, st)"
  using assms by (simp add: run_Node interpretNode_def handledTypes_def ret_def)

lemma parser_types_unhandled:
  "list_all (\<lambda>t. t \<notin> set handledTypes)
     [''block'', ''switch'', ''do_while'', ''return'', ''break'', ''continue'', ''postfix'',
      ''prefix'', ''function'']"
  by (simp add: handledTypes_def)

text \<open>
  C8. A node whose \<^verbatim>\<open>type\<close> is none of the strings the \<^verbatim>\<open>switch\<close> of
  \<^verbatim>\<open>interpretNode\<close> names gives \<^verbatim>\<open>null\<close> and leaves the state as it is; in an array
  of statements the next statement runs after it; and \<^verbatim>\<open>executeProgram\<close> on such a
  node reports no error. The types \<^verbatim>\<open>block\<close>, \<^verbatim>\<open>switch\<close>, \<^verbatim>\<open>do_while\<close>, \<^verbatim>\<open>return\<close>,
  \<^verbatim>\<open>break\<close>, \<^verbatim>\<open>continue\<close>, \<^verbatim>\<open>postfix\<close>, \<^verbatim>\<open>prefix\<close> and \<^verbatim>\<open>function\<close>, which the
  parser builds, are such types.
\<close>

theorem unhandled_node_type_is_skipped:
  assumes "n_type node \<notin> set handledTypes"
  shows "run h (Node (Some node)) st = Some (Inr JNull, st) \<and>
         run h (Stmts (node # rest) lastValue) st =
           (if returned st \<or> breakFlag st \<or> continueFlag st then Some (Inr lastValue, st)
            else run h (Stmts rest JNull) st) \<and>
         executeProgram h node =
           Some \<lparr>res_output = [], res_returnValue = JNull, res_variables = Map.empty,
                 res_error = None\<rparr> \<and>
         list_all (\<lambda>t. t \<notin> set handledTypes)
           [''block'', ''switch'', ''do_while'', ''return'', ''break'', ''continue'', ''postfix'',
            ''prefix'', ''function'']"
proof -
  note d = interpretNode_default [OF assms]
  have "run h (Stmts (node # rest) lastValue) st =
           (if returned st \<or> breakFlag st \<or> continueFlag st then Some (Inr lastValue, st)
            else run h (Stmts rest JNull) st)"
    by (subst run_Stmts) (simp add: interpretArray_def d ret_def)
  moreover have "executeProgram h node =
           Some \<lparr>res_output = [], res_returnValue = JNull, res_variables = Map.empty,
                 res_error = None\<rparr>"
    by (simp add: executeProgram_def execute_def d initialState_def fromEntries_def)
  ultimately show ?thesis using d parser_types_unhandled by simp
qed

theorem unhandled_node_type_witness:
  "\<forall>h st. ''block'' \<notin> set handledTypes \<and>
     run h (Node (Some (blockNode [emptyNode ''break'']))) st = Some (Inr JNull, st) \<and>
     executeProgram h (blockNode [emptyNode ''break'']) =
       Some \<lparr>res_output = [], res_returnValue = JNull, res_variables = Map.empty,
             res_error = None\<rparr>"
proof (intro allI)
  fix h st
  have t: "n_type (blockNode [emptyNode ''break'']) \<notin> set handledTypes"
    by (simp add: blockNode_def emptyNode_def handledTypes_def)
  have "''block'' \<notin> set handledTypes" by (simp add: handledTypes_def)
  with unhandled_node_type_is_skipped [OF t, of h st]
  show "''block'' \<notin> set handledTypes \<and>
     run h (Node (Some (blockNode [emptyNode ''break'']))) st = Some (Inr JNull, st) \<and>
     executeProgram h (blockNode [emptyNode ''break'']) =
       Some \<lparr>res_output = [], res_returnValue = JNull, res_variables = Map.empty,
             res_error = None\<rparr>"
    by simp
qed

subsection \<open>A loop that does not end\<close>

definition loopFacts :: "real \<Rightarrow> ASTNode list \<Rightarrow> task \<Rightarrow> istate \<Rightarrow> (string + jsval) \<times> istate \<Rightarrow> bool" where
  "loopFacts c stmts t st y =
     ((t = While (whileNode (numberNode (Finite c)) (blockNode stmts)) \<longrightarrow>
         returned st \<or> breakFlag st) \<and>
      (t = Node (Some (numberNode (Finite c))) \<longrightarrow> y = (Inr (JNumber (Finite c)), st)) \<and>
      (t = Node (Some (blockNode stmts)) \<longrightarrow> y = (Inr JNull, st)))"

lemma loopFacts_step:
  assumes c: "c \<noteq> 0"
    and IH: "\<And>h t st y. f h t st = Some y \<Longrightarrow> loopFacts c stmts t st y"
    and step: "interpreter_step h (f h) t st = Some y"
  shows "loopFacts c stmts t st y"
proof -
  let ?cond = "numberNode (Finite c)"
  let ?body = "blockNode stmts"
  let ?loop = "whileNode ?cond ?body"
  have cond: "y = (Inr (JNumber (Finite c)), st)" if "t = Node (Some ?cond)"
    using step that
    by (simp add: interpreter_step_def interpretNode_def numberNode_def emptyNode_def ret_def)
  have body: "y = (Inr JNull, st)" if "t = Node (Some ?body)"
    using step that
    by (simp add: interpreter_step_def interpretNode_def blockNode_def emptyNode_def ret_def)
  have loop: "returned st \<or> breakFlag st" if t: "t = While ?loop"
  proof (rule ccontr)
    assume n: "\<not> (returned st \<or> breakFlag st)"
    have fields: "n_condition ?loop = Some ?cond" "n_body ?loop = Some (Inl ?body)"
      by (simp_all add: whileNode_def emptyNode_def)
    from step t have w: "whileLoop (f h) ?loop st = Some y"
      by (simp add: interpreter_step_def)
    then obtain r1 where r1: "f h (Node (Some ?cond)) st = Some r1"
      by (cases "f h (Node (Some ?cond)) st") (simp_all add: whileLoop_def fields)
    from IH [OF r1] have r1': "r1 = (Inr (JNumber (Finite c)), st)"
      by (simp add: loopFacts_def)
    have truthy: "isTruthy (JNumber (Finite c))"
      using c by (simp add: isTruthy_def num_eq_def)
    from w r1 r1' truthy obtain r2 where r2: "f h (Node (Some ?body)) st = Some r2"
      by (cases "f h (Node (Some ?body)) st")
         (simp_all add: whileLoop_def fields interpretBody_def)
    from IH [OF r2] have r2': "r2 = (Inr JNull, st)"
      by (simp add: loopFacts_def)
    from w r1 r1' truthy r2 r2' n
    have again: "f h (While ?loop) (clearContinue st) = Some y"
      by (simp add: whileLoop_def fields interpretBody_def)
    from IH [OF again] have "returned (clearContinue st) \<or> breakFlag (clearContinue st)"
      by (simp add: loopFacts_def)
    with n show False
      by (simp add: clearContinue_def returned_def split: if_splits)
  qed
  show ?thesis
    unfolding loopFacts_def using cond body loop by blast
qed

lemma loopFacts_run:
  assumes "c \<noteq> 0" and "run h t st = Some y"
  shows "loopFacts c stmts t st y"
  by (rule run.raw_induct [where P = "\<lambda>h t st y. loopFacts c stmts t st y", OF _ assms(2)])
     (rule loopFacts_step [OF assms(1)])

lemma while_true_never_returns:
  assumes "c \<noteq> 0" and "returnValue st = JNull" and "\<not> breakFlag st"
  shows "run h (While (whileNode (numberNode (Finite c)) (blockNode stmts))) st = None"
proof (cases "run h (While (whileNode (numberNode (Finite c)) (blockNode stmts))) st")
  case None
  then show ?thesis .
next
  case (Some y)
  from loopFacts_run [OF assms(1) Some, of stmts] assms(2,3) show ?thesis
    by (simp add: loopFacts_def returned_def)
qed

lemma execute_while_true:
  assumes "c \<noteq> 0"
  shows "executeProgram h (programNode [whileNode (numberNode (Finite c)) (blockNode stmts)]) = None"
proof -
  have w: "run h (While (whileNode (numberNode (Finite c)) (blockNode stmts))) initialState = None"
    by (rule while_true_never_returns [OF assms]) (simp_all add: initialState_def)
  have ty: "n_type (whileNode (numberNode (Finite c)) (blockNode stmts)) = ''while_loop''"
    by (simp add: whileNode_def emptyNode_def)
  have n: "run h (Node (Some (whileNode (numberNode (Finite c)) (blockNode stmts)))) initialState = None"
    by (simp add: run_Node interpretNode_def ty w)
  have s: "run h (Stmts [whileNode (numberNode (Finite c)) (blockNode stmts)] JUndefined) initialState = None"
  proof -
    have "\<not> returned initialState" "\<not> breakFlag initialState" "\<not> continueFlag initialState"
      by (simp_all add: returned_def initialState_def)
    then show ?thesis
      by (subst run_Stmts) (simp add: interpretArray_def n)
  qed
  have pr: "n_type (programNode [whileNode (numberNode (Finite c)) (blockNode stmts)]) = ''program''"
    "n_statements (programNode [whileNode (numberNode (Finite c)) (blockNode stmts)]) =
       Some [whileNode (numberNode (Finite c)) (blockNode stmts)]"
    by (simp_all add: programNode_def emptyNode_def)
  have "run h (Node (Some (programNode [whileNode (numberNode (Finite c)) (blockNode stmts)]))) initialState = None"
    by (simp add: run_Node interpretNode_def pr orEmpty_def s)
  then show ?thesis
    by (simp add: executeProgram_def execute_def)
qed

lemma tokens_while: "tokenize (Lexer ''while (1) { }'') =
  [\<lparr>tk_type = KEYWORD, tk_value = ''while'', tk_position = 0\<rparr>,
   \<lparr>tk_type = LPAREN, tk_value = ''('', tk_position = 6\<rparr>,
   \<lparr>tk_type = NUMBER, tk_value = ''1'', tk_position = 7\<rparr>,
   \<lparr>tk_type = RPAREN, tk_value = '')'', tk_position = 8\<rparr>,
   \<lparr>tk_type = LBRACE, tk_value = ''{'', tk_position = 10\<rparr>,
   \<lparr>tk_type = RBRACE, tk_value = ''}'', tk_position = 12\<rparr>,
   \<lparr>tk_type = EOF, tk_value = [], tk_position = 13\<rparr>]"
  by (simp add: lexer_run)

lemma parse_while:
  "parseExpression ''while (1) { }'' =
     Some (succeeded (programNode [whileNode (numberNode (Finite 1)) (blockNode [])]))"
  unfolding parseExpression_def tokens_while
  by (simp add: trim_def isSpace_def parser_run_all cong: bindC_weak_cong)

text \<open>
  C1 at the program \<^verbatim>\<open>while (1) { }\<close>: the text parses, and \<^verbatim>\<open>executeProgram\<close> on
  its tree does not return. The interpreter counts no steps.
\<close>

theorem while_true_program_never_returns:
  "parseExpression ''while (1) { }'' =
     Some \<lparr>success = True,
           tree = Some (programNode [whileNode (numberNode (Finite 1)) (blockNode [])]),
           errors = None\<rparr> \<and>
   executeProgram h (programNode [whileNode (numberNode (Finite 1)) (blockNode [])]) = None"
  using parse_while execute_while_true [of 1 h "[]"] by (simp add: succeeded_def)


subsection \<open>The program of a \<^verbatim>\<open>main\<close> function\<close>

definition mainText :: string where
  "mainText = ''int main() { int x = 5; int y = 3; printf(x + y); return x * y; }''"

definition mainTree :: ASTNode where
  "mainTree =
     programNode
       [functionNode ''int'' ''main'' []
          (blockNode
             [declarationNode ''int'' ''x'' (Some (numberNode (Finite 5))) False,
              declarationNode ''int'' ''y'' (Some (numberNode (Finite 3))) False,
              functionCallNode ''printf''
                [binaryOpNode ''+'' (identifierNode ''x'') (identifierNode ''y'')],
              returnNode (Some (binaryOpNode ''*'' (identifierNode ''x'') (identifierNode ''y'')))])]"

lemma tokens_main: "tokenize (Lexer mainText) =
  [\<lparr>tk_type = KEYWORD, tk_value = ''int'', tk_position = 0\<rparr>,
   \<lparr>tk_type = IDENTIFIER, tk_value = ''main'', tk_position = 4\<rparr>,
   \<lparr>tk_type = LPAREN, tk_value = ''('', tk_position = 8\<rparr>,
   \<lparr>tk_type = RPAREN, tk_value = '')'', tk_position = 9\<rparr>,
   \<lparr>tk_type = LBRACE, tk_value = ''{'', tk_position = 11\<rparr>,
   \<lparr>tk_type = KEYWORD, tk_value = ''int'', tk_position = 13\<rparr>,
   \<lparr>tk_type = IDENTIFIER, tk_value = ''x'', tk_position = 17\<rparr>,
   \<lparr>tk_type = ASSIGN, tk_value = ''='', tk_position = 19\<rparr>,
   \<lparr>tk_type = NUMBER, tk_value = ''5'', tk_position = 21\<rparr>,
   \<lparr>tk_type = SEMICOLON, tk_value = '';'', tk_position = 22\<rparr>,
   \<lparr>tk_type = KEYWORD, tk_value = ''int'', tk_position = 24\<rparr>,
   \<lparr>tk_type = IDENTIFIER, tk_value = ''y'', tk_position = 28\<rparr>,
   \<lparr>tk_type = ASSIGN, tk_value = ''='', tk_position = 30\<rparr>,
   \<lparr>tk_type = NUMBER, tk_value = ''3'', tk_position = 32\<rparr>,
   \<lparr>tk_type = SEMICOLON, tk_value = '';'', tk_position = 33\<rparr>,
   \<lparr>tk_type = IDENTIFIER, tk_value = ''printf'', tk_position = 35\<rparr>,
   \<lparr>tk_type = LPAREN, tk_value = ''('', tk_position = 41\<rparr>,
   \<lparr>tk_type = IDENTIFIER, tk_value = ''x'', tk_position = 42\<rparr>,
   \<lparr>tk_type = OPERATOR, tk_value = ''+'', tk_position = 44\<rparr>,
   \<lparr>tk_type = IDENTIFIER, tk_value = ''y'', tk_position = 46\<rparr>,
   \<lparr>tk_type = RPAREN, tk_value = '')'', tk_position = 47\<rparr>,
   \<lparr>tk_type = SEMICOLON, tk_value = '';'', tk_position = 48\<rparr>,
   \<lparr>tk_type = KEYWORD, tk_value = ''return'', tk_position = 50\<rparr>,
   \<lparr>tk_type = IDENTIFIER, tk_value = ''x'', tk_position = 57\<rparr>,
   \<lparr>tk_type = OPERATOR, tk_value = ''*'', tk_position = 59\<rparr>,
   \<lparr>tk_type = IDENTIFIER, tk_value = ''y'', tk_position = 61\<rparr>,
   \<lparr>tk_type = SEMICOLON, tk_value = '';'', tk_position = 62\<rparr>,
   \<lparr>tk_type = RBRACE, tk_value = ''}'', tk_position = 64\<rparr>,
   \<lparr>tk_type = EOF, tk_value = [], tk_position = 65\<rparr>]"
  unfolding mainText_def by (simp add: lexer_run)

lemma parse_main: "parseExpression mainText = Some (succeeded mainTree)"
proof -
  have "trim mainText \<noteq> []"
    by (simp add: mainText_def trim_def isSpace_def)
  then show ?thesis
    unfolding parseExpression_def tokens_main mainTree_def
    by (simp add: parser_run_all cong: bindC_weak_cong)
qed

lemma execute_main:
  "executeProgram h mainTree =
     Some \<lparr>res_output = [], res_returnValue = JNull, res_variables = Map.empty,
           res_error = None\<rparr>"
  unfolding mainTree_def
  by (simp add: interpreter_run node_run cong: bindC_weak_cong)

text \<open>
  C2 at the program with one \<^verbatim>\<open>main\<close> function that prints \<^verbatim>\<open>x + y\<close> and returns
  \<^verbatim>\<open>x * y\<close>: the text parses to a \<^verbatim>\<open>program\<close> node holding one
  \<^verbatim>\<open>function\<close> node, and \<^verbatim>\<open>executeProgram\<close> on that tree returns no output and the
  return value \<^verbatim>\<open>null\<close>: the interpreter has a case for \<^verbatim>\<open>function_declaration\<close>,
  not for \<^verbatim>\<open>function\<close>, so \<^verbatim>\<open>main\<close> is neither stored nor called.
\<close>

theorem main_function_is_not_executed:
  "parseExpression mainText = Some \<lparr>success = True, tree = Some mainTree, errors = None\<rparr> \<and>
   executeProgram h mainTree =
     Some \<lparr>res_output = [], res_returnValue = JNull, res_variables = Map.empty,
           res_error = None\<rparr>"
  using parse_main execute_main by (simp add: succeeded_def)

subsection \<open>Binary operators\<close>

lemma evaluateBinaryOp_result:
  assumes "run h (Node (n_left node)) st = Some (Inr l, st1)"
    and "run h (Node (n_right node)) st1 = Some (Inr r, st2)"
  shows "run h (BinaryOp node) st = Some (Inr (binaryResult h (n_operator node) l r), st2)"
  using assms by (simp add: run_BinaryOp evaluateBinaryOp_def ret_def)

lemma floor_eq_truncate:
  "(\<lfloor>q\<rfloor> = truncToZero q) = (0 \<le> q \<or> isInteger q)"
proof (cases "q < 0")
  case False
  then show ?thesis by (simp add: truncToZero_def)
next
  case True
  have "(\<lfloor>q\<rfloor> = \<lceil>q\<rceil>) = (q = of_int \<lfloor>q\<rfloor>)"
    by (metis ceiling_of_int floor_of_int ceiling_altdef add.commute add_cancel_right_right
        zero_neq_one)
  with True show ?thesis by (simp add: truncToZero_def isInteger_def)
qed

text \<open>
  C3, as the code has it. Whatever the values of the operands, the interpreter's
  \<^verbatim>\<open>/\<close> gives \<^verbatim>\<open>Math.floor(left / right)\<close>: the quotient of the operands as numbers,
  a double, rounded toward minus infinity. When that quotient is a finite \<open>q\<close>
  other than \<open>-0\<close> the result is the integer \<open>\<lfloor>q\<rfloor>\<close>, which is \<open>q\<close> truncated toward
  zero exactly when \<open>q\<close> is not negative or is an integer.
\<close>

theorem interpreter_division_is_floor:
  assumes "n_operator node = Some ''/''"
    and "run h (Node (n_left node)) st = Some (Inr l, st1)"
    and "run h (Node (n_right node)) st1 = Some (Inr r, st2)"
  shows "run h (BinaryOp node) st =
           Some (Inr (JNumber (num_floor (num_div (ToNumber h l) (ToNumber h r)))), st2) \<and>
         (\<forall>q. num_div (ToNumber h l) (ToNumber h r) = Finite q \<longrightarrow>
            num_floor (num_div (ToNumber h l) (ToNumber h r)) = Finite (of_int \<lfloor>q\<rfloor>) \<and>
            (\<lfloor>q\<rfloor> = truncToZero q) = (0 \<le> q \<or> isInteger q))"
  using evaluateBinaryOp_result [OF assms(2,3)] assms(1) floor_eq_truncate
  by (simp add: binaryResult_def js_div_def)

lemma run_number: "run h (Node (Some (numberNode x))) st = Some (Inr (JNumber x), st)"
  by (simp add: run_Node interpretNode_def numberNode_def emptyNode_def ret_def)

lemma binaryOpNode_fields:
  "n_type (binaryOpNode op l r) = ''binary_op''"
  "n_operator (binaryOpNode op l r) = Some op"
  "n_left (binaryOpNode op l r) = Some l"
  "n_right (binaryOpNode op l r) = Some r"
  by (simp_all add: binaryOpNode_def emptyNode_def)

text \<open>The quotient of -7 and 2 is the double -3.5.\<close>

lemma quotient_of_minus_7_and_2: "num_div (Finite (- 7)) (Finite 2) = Finite (- 7 / 2)"
  using roundDouble_exact [of "- 7" "- 1"] by (simp add: num_div_def power_int_def)

text \<open>
  The quotient is the rounded one. The literals \<^verbatim>\<open>3.0000000000000004\<close> and
  \<^verbatim>\<open>1.0000000000000002\<close> are read as the doubles nearest to them; the real quotient
  of these doubles is below 3, the double nearest to it is 3, and the interpreter
  gives 3.
\<close>

lemma parseFloat_3_0000000000000004:
  "parseFloat ''3.0000000000000004'' = Finite (6755399441055745 / 2251799813685248)"
proof -
  define x :: real where "x = 7500000000000001 / 2500000000000000"
  have p: "parseFloat ''3.0000000000000004'' = roundDouble x"
    by (simp add: parseFloat_def digitsValue_def isDigit_def x_def)
  have u: "(2::real) powi (1 - 52) = 1 / 2251799813685248"
    by (simp add: power_int_def field_simps)
  have d: "x * 2251799813685248 = 16888498602639362251799813685248 / 2500000000000000"
    by (simp add: x_def)
  have f: "\<lfloor>16888498602639362251799813685248 / 2500000000000000 :: real\<rfloor> = 6755399441055744"
    by simp
  have r: "roundHalfEven (x * 2251799813685248) = 6755399441055745"
    unfolding d by (simp add: roundHalfEven_def f)
  have b: "2 powi 1 \<le> \<bar>x\<bar>" "\<bar>x\<bar> < 2 powi (1 + 1)"
    by (simp_all add: x_def power_int_def)
  have "roundDouble x = Finite (6755399441055745 / 2251799813685248)"
    by (subst roundDouble_at [of 1, OF b]) (simp_all add: u r)
  with p show ?thesis by simp
qed

lemma parseFloat_1_0000000000000002:
  "parseFloat ''1.0000000000000002'' = Finite (4503599627370497 / 4503599627370496)"
proof -
  define x :: real where "x = 5000000000000001 / 5000000000000000"
  have p: "parseFloat ''1.0000000000000002'' = roundDouble x"
    by (simp add: parseFloat_def digitsValue_def isDigit_def x_def)
  have u: "(2::real) powi (0 - 52) = 1 / 4503599627370496"
    by (simp add: power_int_def field_simps)
  have d: "x * 4503599627370496 = 22517998136852484503599627370496 / 5000000000000000"
    by (simp add: x_def)
  have f: "\<lfloor>22517998136852484503599627370496 / 5000000000000000 :: real\<rfloor> = 4503599627370496"
    by simp
  have r: "roundHalfEven (x * 4503599627370496) = 4503599627370497"
    unfolding d by (simp add: roundHalfEven_def f)
  have b: "2 powi 0 \<le> \<bar>x\<bar>" "\<bar>x\<bar> < 2 powi (0 + 1)"
    by (simp_all add: x_def)
  have "roundDouble x = Finite (4503599627370497 / 4503599627370496)"
    by (subst roundDouble_at [of 0, OF b]) (simp_all add: u r)
  with p show ?thesis by simp
qed

lemma quotient_is_rounded:
  "num_div (Finite (6755399441055745 / 2251799813685248))
     (Finite (4503599627370497 / 4503599627370496)) = Finite 3 \<and>
   \<lfloor>6755399441055745 / 2251799813685248 / (4503599627370497 / 4503599627370496) :: real\<rfloor> = 2"
proof -
  define x :: real
    where "x = 6755399441055745 / 2251799813685248 / (4503599627370497 / 4503599627370496)"
  have x: "x = 13510798882111490 / 4503599627370497" by (simp add: x_def)
  have u: "(2::real) powi (1 - 52) = 1 / 2251799813685248"
    by (simp add: power_int_def field_simps)
  have d: "x * 2251799813685248 = 30423614405477510139520504299520 / 4503599627370497"
    by (simp add: x)
  have f: "\<lfloor>30423614405477510139520504299520 / 4503599627370497 :: real\<rfloor> = 6755399441055743"
    by simp
  have r: "roundHalfEven (x * 2251799813685248) = 6755399441055744"
    unfolding d by (simp add: roundHalfEven_def f)
  have b: "2 powi 1 \<le> \<bar>x\<bar>" "\<bar>x\<bar> < 2 powi (1 + 1)"
    by (simp_all add: x power_int_def)
  have "roundDouble x = Finite 3"
    by (subst roundDouble_at [of 1, OF b]) (simp_all add: u r)
  moreover have "\<lfloor>x\<rfloor> = 2" by (simp add: x)
  ultimately show ?thesis
    unfolding x_def by (simp add: num_div_def)
qed

lemma interpreter_division_rounds_the_quotient:
  "run h (BinaryOp (binaryOpNode ''/'' (numberNode (parseFloat ''3.0000000000000004''))
       (numberNode (parseFloat ''1.0000000000000002'')))) st =
     Some (Inr (JNumber (Finite 3)), st)"
proof -
  let ?l = "numberNode (parseFloat ''3.0000000000000004'')"
  let ?r = "numberNode (parseFloat ''1.0000000000000002'')"
  have "run h (BinaryOp (binaryOpNode ''/'' ?l ?r)) st =
        Some (Inr (binaryResult h (Some ''/'') (JNumber (parseFloat ''3.0000000000000004''))
                (JNumber (parseFloat ''1.0000000000000002''))), st)"
    using evaluateBinaryOp_result [of h "binaryOpNode ''/'' ?l ?r" st
        "JNumber (parseFloat ''3.0000000000000004'')" st
        "JNumber (parseFloat ''1.0000000000000002'')" st]
    by (simp add: binaryOpNode_fields run_number)
  then show ?thesis
    using quotient_is_rounded
    by (simp add: binaryResult_def js_div_def parseFloat_3_0000000000000004
          parseFloat_1_0000000000000002)
qed

text \<open>For the operands -7 and 2 the interpreter gives -4; the truncated quotient is -3.\<close>

theorem interpreter_division_counterexample:
  "\<forall>h st. run h (BinaryOp (binaryOpNode ''/'' (numberNode (Finite (- 7))) (numberNode (Finite 2)))) st =
       Some (Inr (JNumber (Finite (- 4))), st) \<and>
     truncToZero (- 7 / 2) = - 3"
proof (intro allI conjI)
  fix h st
  have "run h (BinaryOp (binaryOpNode ''/'' (numberNode (Finite (- 7))) (numberNode (Finite 2)))) st =
        Some (Inr (binaryResult h (Some ''/'') (JNumber (Finite (- 7))) (JNumber (Finite 2))), st)"
    using evaluateBinaryOp_result [of h "binaryOpNode ''/'' (numberNode (Finite (- 7))) (numberNode (Finite 2))"
        st "JNumber (Finite (- 7))" st "JNumber (Finite 2)" st]
    by (simp add: binaryOpNode_fields run_number)
  then show "run h (BinaryOp (binaryOpNode ''/'' (numberNode (Finite (- 7))) (numberNode (Finite 2)))) st =
       Some (Inr (JNumber (Finite (- 4))), st)"
    by (simp add: binaryResult_def js_div_def quotient_of_minus_7_and_2)
next
  show "truncToZero (- 7 / 2) = - 3"
    by (simp add: truncToZero_def)
qed

theorem interpreter_division_witness:
  "\<forall>h st. run h (BinaryOp (binaryOpNode ''/'' (numberNode (Finite (- 7))) (numberNode (Finite 2)))) st =
       Some (Inr (JNumber (num_floor (num_div (Finite (- 7)) (Finite 2)))), st) \<and>
     num_div (Finite (- 7)) (Finite 2) = Finite (- 7 / 2) \<and>
     num_floor (num_div (Finite (- 7)) (Finite 2)) = Finite (- 4) \<and>
     \<lfloor>- 7 / 2 :: real\<rfloor> \<noteq> truncToZero (- 7 / 2)"
proof (intro allI)
  fix h st
  let ?node = "binaryOpNode ''/'' (numberNode (Finite (- 7))) (numberNode (Finite 2))"
  have h1: "n_operator ?node = Some ''/''" by (simp add: binaryOpNode_fields)
  have h2: "run h (Node (n_left ?node)) st = Some (Inr (JNumber (Finite (- 7))), st)"
    by (simp add: binaryOpNode_fields run_number)
  have h3: "run h (Node (n_right ?node)) st = Some (Inr (JNumber (Finite 2)), st)"
    by (simp add: binaryOpNode_fields run_number)
  have "\<not> isInteger (- 7 / 2)" by (simp add: isInteger_def)
  with interpreter_division_is_floor [OF h1 h2 h3] quotient_of_minus_7_and_2
  show "run h (BinaryOp ?node) st =
       Some (Inr (JNumber (num_floor (num_div (Finite (- 7)) (Finite 2)))), st) \<and>
     num_div (Finite (- 7)) (Finite 2) = Finite (- 7 / 2) \<and>
     num_floor (num_div (Finite (- 7)) (Finite 2)) = Finite (- 4) \<and>
     \<lfloor>- 7 / 2 :: real\<rfloor> \<noteq> truncToZero (- 7 / 2)"
    by simp
qed

definition interpreterOperators :: "string list" where
  "interpreterOperators =
     [''+'', ''-'', ''*'', ''/'', ''%'', ''=='', ''!='', ''<'', ''>'', ''<='', ''>='', ''&&'',
      ''||'', ''!'']"

definition evaluatorOperators :: "string list" where
  "evaluatorOperators = [''+'', ''-'', ''*'', ''/'', ''%'', ''^'', ''unary_neg'', ''unary_pos'']"

lemma binaryResult_default:
  "op \<notin> Some ` set interpreterOperators \<Longrightarrow> binaryResult h op l r = JNumber (Finite 0)"
  by (auto simp: binaryResult_def interpreterOperators_def)

lemma evaluateOperator_unknown:
  "op \<notin> Some ` set evaluatorOperators \<Longrightarrow>
   evaluateOperator h op x y = Inl (''Unknown operator: '' @ optText op)"
  by (auto simp: evaluateOperator_def evaluatorOperators_def)

lemma evaluateAST_binary_op:
  assumes "n_type node = ''binary_op''" "n_left node = Some lnode" "n_right node = Some rnode"
    and "evaluateAST h lnode = Inr x" "evaluateAST h rnode = Inr y"
  shows "evaluateAST h node = evaluateOperator h (n_operator node) x y"
  using assms by (subst evaluateAST.simps) simp

text \<open>
  C10. When the operands of a \<^verbatim>\<open>binary_op\<close> node run to values in the interpreter,
  the node gives 0 when its operator is none of those the \<^verbatim>\<open>switch\<close> of
  \<^verbatim>\<open>evaluateBinaryOp\<close> names, and \<^verbatim>\<open>^\<close> is none of them. When the operands evaluate
  in the arithmetic evaluator, the node gives \<^verbatim>\<open>Math.pow\<close> of the operands for \<^verbatim>\<open>^\<close>
  and throws "Unknown operator" when the operator is none of those the evaluator
  names.
\<close>

theorem unhandled_operator_interpreter_and_evaluator:
  "(n_type node = ''binary_op'' \<and>
    run h (Node (n_left node)) st = Some (Inr l, st1) \<and>
    run h (Node (n_right node)) st1 = Some (Inr r, st2) \<longrightarrow>
      (if n_operator node \<in> Some ` set interpreterOperators
       then run h (Node (Some node)) st =
              Some (Inr (binaryResult h (n_operator node) l r), st2)
       else run h (Node (Some node)) st = Some (Inr (JNumber (Finite 0)), st2))) \<and>
   Some ''^'' \<notin> Some ` set interpreterOperators \<and>
   (n_type node = ''binary_op'' \<and> n_left node = Some lnode \<and> n_right node = Some rnode \<and>
    evaluateAST h lnode = Inr x \<and> evaluateAST h rnode = Inr y \<longrightarrow>
      (if n_operator node = Some ''^''
       then evaluateAST h node = Inr (JNumber (num_pow h (ToNumber h x) (ToNumber h y)))
       else if n_operator node \<in> Some ` set evaluatorOperators
       then evaluateAST h node = evaluateOperator h (n_operator node) x y
       else evaluateAST h node = Inl (''Unknown operator: '' @ optText (n_operator node))))"
proof (intro conjI impI)
  assume a: "n_type node = ''binary_op'' \<and>
    run h (Node (n_left node)) st = Some (Inr l, st1) \<and>
    run h (Node (n_right node)) st1 = Some (Inr r, st2)"
  then have b: "run h (BinaryOp node) st = Some (Inr (binaryResult h (n_operator node) l r), st2)"
    using evaluateBinaryOp_result [of h node st l st1 r st2] by simp
  have n: "run h (Node (Some node)) st = run h (BinaryOp node) st"
    using a by (simp add: run_Node interpretNode_def)
  show "if n_operator node \<in> Some ` set interpreterOperators
        then run h (Node (Some node)) st =
               Some (Inr (binaryResult h (n_operator node) l r), st2)
        else run h (Node (Some node)) st = Some (Inr (JNumber (Finite 0)), st2)"
    using b n binaryResult_default [of "n_operator node" h l r] by auto
next
  show "Some ''^'' \<notin> Some ` set interpreterOperators"
    by (simp add: interpreterOperators_def)
next
  assume a: "n_type node = ''binary_op'' \<and> n_left node = Some lnode \<and> n_right node = Some rnode \<and>
    evaluateAST h lnode = Inr x \<and> evaluateAST h rnode = Inr y"
  then have e: "evaluateAST h node = evaluateOperator h (n_operator node) x y"
    using evaluateAST_binary_op [of node lnode rnode h x y] by simp
  have pw: "evaluateOperator h (Some ''^'') x y =
              Inr (JNumber (num_pow h (ToNumber h x) (ToNumber h y)))"
    by (simp add: evaluateOperator_def)
  show "if n_operator node = Some ''^''
        then evaluateAST h node = Inr (JNumber (num_pow h (ToNumber h x) (ToNumber h y)))
        else if n_operator node \<in> Some ` set evaluatorOperators
        then evaluateAST h node = evaluateOperator h (n_operator node) x y
        else evaluateAST h node = Inl (''Unknown operator: '' @ optText (n_operator node))"
    using e pw evaluateOperator_unknown [of "n_operator node" h x y] by auto
qed

lemma evaluateAST_number:
  "ToBoolean (JNumber x) \<Longrightarrow> evaluateAST h (numberNode x) = Inr (JNumber x)"
  by (subst evaluateAST.simps) (simp add: numberNode_def emptyNode_def)

lemma run_identifier_unset:
  "run h (Node (Some (identifierNode name))) initialState =
     Some (Inr (JNumber (Finite 0)), initialState)"
  by (simp add: run_Node interpretNode_def identifierNode_def emptyNode_def ret_def
        initialState_def mapHas_def)

text \<open>
  The node of \<^verbatim>\<open>2 ^ 3\<close> gives 0 in the interpreter and 8 in the evaluator; the
  node of \<^verbatim>\<open>x ^ 2\<close>, which the evaluator refuses, gives 0 in the interpreter; the
  node of \<^verbatim>\<open>2 == 3\<close> gives 0 in the interpreter, the comparison being false, and
  "Unknown operator" in the evaluator.
\<close>

theorem unhandled_operator_witness:
  "\<forall>h st. run h (Node (Some (binaryOpNode ''^'' (numberNode (Finite 2)) (numberNode (Finite 3))))) st =
       Some (Inr (JNumber (Finite 0)), st) \<and>
     evaluateAST h (binaryOpNode ''^'' (numberNode (Finite 2)) (numberNode (Finite 3))) =
       Inr (JNumber (Finite 8)) \<and>
     run h (Node (Some (binaryOpNode ''^'' (identifierNode ''x'') (numberNode (Finite 2)))))
         initialState =
       Some (Inr (JNumber (Finite 0)), initialState) \<and>
     run h (Node (Some (binaryOpNode ''=='' (numberNode (Finite 2)) (numberNode (Finite 3))))) st =
       Some (Inr (JNumber (Finite 0)), st) \<and>
     evaluateAST h (binaryOpNode ''=='' (numberNode (Finite 2)) (numberNode (Finite 3))) =
       Inl ''Unknown operator: ==''"
proof (intro allI)
  fix h st
  let ?two = "numberNode (Finite 2)" and ?three = "numberNode (Finite 3)"
  let ?x = "identifierNode ''x''"
  have e2: "evaluateAST h ?two = Inr (JNumber (Finite 2))"
    and e3: "evaluateAST h ?three = Inr (JNumber (Finite 3))"
    by (simp_all add: evaluateAST_number)
  note pw = unhandled_operator_interpreter_and_evaluator
      [of "binaryOpNode ''^'' ?two ?three" h st "JNumber (Finite 2)" st
          "JNumber (Finite 3)" st ?two ?three "JNumber (Finite 2)" "JNumber (Finite 3)"]
  note px = unhandled_operator_interpreter_and_evaluator
      [of "binaryOpNode ''^'' ?x ?two" h initialState "JNumber (Finite 0)" initialState
          "JNumber (Finite 2)" initialState ?x ?two "JNumber (Finite 0)" "JNumber (Finite 2)"]
  note eq = unhandled_operator_interpreter_and_evaluator
      [of "binaryOpNode ''=='' ?two ?three" h st "JNumber (Finite 2)" st
          "JNumber (Finite 3)" st ?two ?three "JNumber (Finite 2)" "JNumber (Finite 3)"]
  have c: "binaryResult h (Some ''=='') (JNumber (Finite 2)) (JNumber (Finite 3)) = JNumber (Finite 0)"
    by (simp add: binaryResult_def flag_def num_eq_def)
  have p: "num_pow h (Finite 2) (Finite 3) = Finite 8"
    by (simp add: number_run)
  have r1: "run h (Node (Some (binaryOpNode ''^'' ?two ?three))) st =
       Some (Inr (JNumber (Finite 0)), st)"
    using pw by (simp add: binaryOpNode_fields run_number interpreterOperators_def)
  have r2: "evaluateAST h (binaryOpNode ''^'' ?two ?three) = Inr (JNumber (Finite 8))"
    using pw e2 e3 p by (simp add: binaryOpNode_fields)
  have r3: "run h (Node (Some (binaryOpNode ''^'' ?x ?two))) initialState =
       Some (Inr (JNumber (Finite 0)), initialState)"
    using px by (simp add: binaryOpNode_fields run_number run_identifier_unset
          interpreterOperators_def)
  have r4: "run h (Node (Some (binaryOpNode ''=='' ?two ?three))) st =
       Some (Inr (JNumber (Finite 0)), st)"
    using eq c by (simp add: binaryOpNode_fields run_number interpreterOperators_def)
  have r5: "evaluateAST h (binaryOpNode ''=='' ?two ?three) = Inl ''Unknown operator: ==''"
    using eq e2 e3 by (simp add: binaryOpNode_fields evaluatorOperators_def optText_def)
  from r1 r2 r3 r4 r5
  show "run h (Node (Some (binaryOpNode ''^'' ?two ?three))) st =
       Some (Inr (JNumber (Finite 0)), st) \<and>
     evaluateAST h (binaryOpNode ''^'' ?two ?three) = Inr (JNumber (Finite 8)) \<and>
     run h (Node (Some (binaryOpNode ''^'' ?x ?two))) initialState =
       Some (Inr (JNumber (Finite 0)), initialState) \<and>
     run h (Node (Some (binaryOpNode ''=='' ?two ?three))) st =
       Some (Inr (JNumber (Finite 0)), st) \<and>
     evaluateAST h (binaryOpNode ''=='' ?two ?three) = Inl ''Unknown operator: ==''"
    by simp
qed

subsection \<open>Calls of defined functions\<close>

lemma userCall_variables:
  "run h (UserCall func previousVars args evaluatedArgs) st = Some (Inr v, st') \<Longrightarrow>
   variables st' = previousVars"
proof (induction args arbitrary: evaluatedArgs st)
  case Nil
  then show ?case
    by (auto simp: run_UserCall userCall_def bindC_eq_Some_Inr ret_def)
next
  case (Cons arg rest)
  from Cons.prems obtain a st1 where
    "run h (UserCall func previousVars rest (evaluatedArgs @ [a])) st1 = Some (Inr v, st')"
    by (auto simp: run_UserCall [of h func previousVars "arg # rest"] userCall_def bindC_eq_Some_Inr)
  then show ?case by (rule Cons.IH)
qed

text \<open>
  C6. When the call of a function other than \<^verbatim>\<open>printf\<close> returns a value, the
  variables after the call are the variables before it: what the evaluation of
  the arguments, the binding of the parameters and the body did to them is gone.
\<close>

theorem callFunction_restores_variables:
  assumes "name \<noteq> Some ''printf''"
    and "run h (Call name args) st = Some (Inr v, st')"
  shows "variables st' = variables st"
proof (cases "mapGet (functionTable st) name")
  case None
  with assms show ?thesis
    by (simp add: run_Call callFunction_def throwError_def)
next
  case (Some func)
  with assms have "run h (UserCall func (variables st) args []) st = Some (Inr v, st')"
    by (simp add: run_Call callFunction_def)
  then show ?thesis by (rule userCall_variables)
qed

definition sampleFunction :: funcdef where
  "sampleFunction =
     \<lparr>fd_params = [(''int'', ''x''), (''int'', ''y'')],
      fd_body = Some (Inr [declarationNode ''int'' ''z'' (Some (numberNode (Finite 1))) False,
                          set_value (Some (VNumber (Finite 9))) (emptyNode ''return_statement'')]),
      fd_returnType = ''int''\<rparr>"

definition sampleState :: istate where
  "sampleState =
     \<lparr>variables = [(Some ''x'', JNumber (Finite 7))],
      functionTable = [(Some ''f'', sampleFunction)],
      outputLines = [], returnValue = JNull, breakFlag = False, continueFlag = False\<rparr>"

lemma sample_call:
  "run h (Call (Some ''f'') [numberNode (Finite 5)]) sampleState =
     Some (Inr (JNumber (Finite 9)), sampleState)"
  unfolding sampleState_def sampleFunction_def
  by (simp add: interpreter_run node_run cong: bindC_weak_cong)

theorem callFunction_restores_variables_witness:
  "\<forall>h. Some ''f'' \<noteq> Some ''printf'' \<and>
     run h (Call (Some ''f'') [numberNode (Finite 5)]) sampleState =
       Some (Inr (JNumber (Finite 9)), sampleState) \<and>
     variables sampleState = [(Some ''x'', JNumber (Finite 7))]"
proof (intro allI)
  fix h
  have ne: "Some ''f'' \<noteq> Some ''printf''" by simp
  from callFunction_restores_variables [OF ne sample_call [of h]] ne sample_call [of h]
  show "Some ''f'' \<noteq> Some ''printf'' \<and>
     run h (Call (Some ''f'') [numberNode (Finite 5)]) sampleState =
       Some (Inr (JNumber (Finite 9)), sampleState) \<and>
     variables sampleState = [(Some ''x'', JNumber (Finite 7))]"
    by (simp add: sampleState_def)
qed

text \<open>The arguments of a call evaluate, one after the other, to the values \<open>vs\<close>.\<close>

inductive argsEval :: "host \<Rightarrow> ASTNode list \<Rightarrow> istate \<Rightarrow> jsval list \<Rightarrow> istate \<Rightarrow> bool"
  for h :: host where
    argsNil: "argsEval h [] st [] st"
  | argsCons: "run h (Node (Some arg)) st = Some (Inr v, st1) \<Longrightarrow> argsEval h rest st1 vs st2
               \<Longrightarrow> argsEval h (arg # rest) st (v # vs) st2"

lemma argsEval_length: "argsEval h args st vs st' \<Longrightarrow> length vs = length args"
  by (induction rule: argsEval.induct) simp_all

lemma userCall_args:
  "argsEval h args st vs st' \<Longrightarrow>
   run h (UserCall func previousVars args acc) st =
   run h (UserCall func previousVars [] (acc @ vs)) st'"
proof (induction arbitrary: acc rule: argsEval.induct)
  case (argsNil st)
  then show ?case by simp
next
  case (argsCons arg st v st1 rest vs st2)
  have "run h (UserCall func previousVars (arg # rest) acc) st =
        run h (UserCall func previousVars rest (acc @ [v])) st1"
    using argsCons.hyps(1)
    by (simp add: run_UserCall [of h func previousVars "arg # rest"] userCall_def)
  with argsCons.IH [of "acc @ [v]"] show ?case by simp
qed

lemma mapGet_mapSet: "mapGet (mapSet m k v) k' = (if k' = k then Some v else mapGet m k')"
  by (induction m) (auto simp: mapGet_def)

lemma bindParams_other:
  "key \<notin> Some ` snd ` set params \<Longrightarrow>
   mapGet (bindParams params i vs vars) key = mapGet vars key"
  by (induction params arbitrary: i vars) (auto simp: mapGet_mapSet)

lemma bindParams_get:
  "distinct (map snd params) \<Longrightarrow> k < length params \<Longrightarrow>
   mapGet (bindParams params i vs vars) (Some (snd (params ! k))) =
     Some (argumentOrZero vs (i + k))"
proof (induction params arbitrary: i k vars)
  case Nil
  then show ?case by simp
next
  case (Cons p rest)
  show ?case
  proof (cases k)
    case 0
    have "Some (snd p) \<notin> Some ` snd ` set rest"
      using Cons.prems(1) by auto
    then show ?thesis
      using 0 by (simp add: bindParams_other mapGet_mapSet)
  next
    case (Suc j)
    with Cons.prems have "distinct (map snd rest)" "j < length rest" by simp_all
    from Cons.IH [OF this, of "i + 1"] Suc show ?thesis by simp
  qed
qed

text \<open>
  C9. In the call of a defined function whose arguments evaluate, a parameter
  with no argument at its place, or with an argument whose value is falsy, is
  bound to 0, and the call goes on with the body: the call is the run of the body
  in the state with the parameters bound, followed by the restoring of the
  variables. (The parameter names are taken to differ from one another; of two
  parameters of one name the later one decides the binding.)
\<close>

theorem missing_or_falsy_argument_is_zero:
  assumes "name \<noteq> Some ''printf''"
    and "mapGet (functionTable st) name = Some func"
    and "argsEval h args st evaluatedArgs st1"
    and "distinct (map snd (fd_params func))"
    and "k < length (fd_params func)"
    and "length args \<le> k \<or> \<not> ToBoolean (evaluatedArgs ! k)"
  shows "run h (Call name args) st =
           bindC (interpretBody (run h) (fd_body func)
                    (st1\<lparr>variables := bindParams (fd_params func) 0 evaluatedArgs (variables st1),
                         returnValue := JNull\<rparr>))
             (\<lambda>v st'. ret (if returned st' then returnValue st' else JNumber (Finite 0))
                        (st'\<lparr>returnValue := returnValue st1, variables := variables st\<rparr>)) \<and>
         mapGet (bindParams (fd_params func) 0 evaluatedArgs (variables st1))
           (Some (snd (fd_params func ! k))) = Some (JNumber (Finite 0))"
proof -
  have "run h (Call name args) st = run h (UserCall func (variables st) args []) st"
    using assms(1,2) by (simp add: run_Call callFunction_def)
  also have "\<dots> = run h (UserCall func (variables st) [] evaluatedArgs) st1"
    using userCall_args [OF assms(3), of func "variables st" "[]"] by simp
  finally have call: "run h (Call name args) st =
      run h (UserCall func (variables st) [] evaluatedArgs) st1" .
  have zero: "argumentOrZero evaluatedArgs k = JNumber (Finite 0)"
    using assms(6) argsEval_length [OF assms(3)] by (auto simp: argumentOrZero_def)
  show ?thesis
    using call bindParams_get [OF assms(4,5), of 0 evaluatedArgs "variables st1"] zero
    by (simp add: run_UserCall userCall_def)
qed

theorem missing_or_falsy_argument_witness:
  "\<forall>h. argsEval h [numberNode (Finite 0)] sampleState [JNumber (Finite 0)] sampleState \<and>
     mapGet (bindParams (fd_params sampleFunction) 0 [JNumber (Finite 0)] (variables sampleState))
       (Some ''x'') = Some (JNumber (Finite 0)) \<and>
     mapGet (bindParams (fd_params sampleFunction) 0 [JNumber (Finite 0)] (variables sampleState))
       (Some ''y'') = Some (JNumber (Finite 0)) \<and>
     run h (Call (Some ''f'') [numberNode (Finite 0)]) sampleState =
       Some (Inr (JNumber (Finite 9)), sampleState)"
proof (intro allI)
  fix h
  have ne: "Some ''f'' \<noteq> Some ''printf''" by simp
  have fn: "mapGet (functionTable sampleState) (Some ''f'') = Some sampleFunction"
    by (simp add: sampleState_def mapGet_def)
  have ev: "argsEval h [numberNode (Finite 0)] sampleState [JNumber (Finite 0)] sampleState"
    by (rule argsCons [OF run_number argsNil])
  have d: "distinct (map snd (fd_params sampleFunction))"
    by (simp add: sampleFunction_def)
  have k0: "0 < length (fd_params sampleFunction)" and k1: "1 < length (fd_params sampleFunction)"
    by (simp_all add: sampleFunction_def)
  have falsy: "length [numberNode (Finite 0)] \<le> 0 \<or> \<not> ToBoolean ([JNumber (Finite 0)] ! 0)"
    by simp
  have missing: "length [numberNode (Finite 0)] \<le> 1 \<or> \<not> ToBoolean ([JNumber (Finite 0)] ! 1)"
    by simp
  note a = missing_or_falsy_argument_is_zero [OF ne fn ev d k0 falsy]
  note b = missing_or_falsy_argument_is_zero [OF ne fn ev d k1 missing]
  have r: "run h (Call (Some ''f'') [numberNode (Finite 0)]) sampleState =
       Some (Inr (JNumber (Finite 9)), sampleState)"
    unfolding sampleState_def sampleFunction_def
    by (simp add: interpreter_run node_run cong: bindC_weak_cong)
  from a b ev r
  show "argsEval h [numberNode (Finite 0)] sampleState [JNumber (Finite 0)] sampleState \<and>
     mapGet (bindParams (fd_params sampleFunction) 0 [JNumber (Finite 0)] (variables sampleState))
       (Some ''x'') = Some (JNumber (Finite 0)) \<and>
     mapGet (bindParams (fd_params sampleFunction) 0 [JNumber (Finite 0)] (variables sampleState))
       (Some ''y'') = Some (JNumber (Finite 0)) \<and>
     run h (Call (Some ''f'') [numberNode (Finite 0)]) sampleState =
       Some (Inr (JNumber (Finite 9)), sampleState)"
    by (simp add: sampleFunction_def)
qed


end
